theory Spec2Isabelle
  imports Complex_Main "HOL-Library.Sublist" "HOL-Library.Stream" "HOL-Library.Word"
begin

section \<open>Conventions of the embedding\<close>

text \<open>
  The theory embeds \<^verbatim>\<open>src/backend/audio_processor.py\<close>. Samples, frequencies and
  durations are Python and numpy floats in the source; here they are real numbers, so
  every statement is about the exact arithmetic that the floating-point code
  approximates. Arrays are lists. A Python exception is a value \<open>Inl e\<close> of a sum
  type, a normal return is \<open>Inr v\<close>. A Python string is the list of the bytes of its
  UTF-8 encoding; \<open>w in s\<close> is then the test for a contiguous sublist, which on
  well-formed UTF-8 is the same test as on code points. What the module calls and the
  repository does not contain (the Python runtime's \<open>str.lower\<close>, librosa, pedalboard,
  soundfile, scipy) is a parameter of the model.
\<close>

datatype py_error = ValueError | IndexError | ZeroDivisionError | TypeError | LibraryError

text \<open>An argument that Python does not type: a \<open>str\<close>, or any other object.\<close>

datatype py_value = PyStr string | PyOther

text \<open>Sequencing of computations that may raise.\<close>

definition bind_err :: "py_error + 'a \<Rightarrow> ('a \<Rightarrow> py_error + 'b) \<Rightarrow> py_error + 'b" where
  "bind_err m f = (case m of Inl e \<Rightarrow> Inl e | Inr v \<Rightarrow> f v)"

text \<open>\<open>int(x)\<close> of a float, and numpy's float-to-integer cast: truncation toward zero.\<close>

definition py_int :: "real \<Rightarrow> int" where
  "py_int x = (if 0 \<le> x then \<lfloor>x\<rfloor> else \<lceil>x\<rceil>)"

text \<open>
  The integer dtypes of the arrays that \<open>scipy.io.wavfile.read\<close> returns (8-bit PCM
  is \<open>uint8\<close>, 16-bit is \<open>int16\<close>, 24-bit and 32-bit are \<open>int32\<close>), and the
  wrap-around of numpy's integer arithmetic in each of them.
\<close>

datatype int_dtype = UInt8 | Int16 | Int32

definition wrap_int :: "int_dtype \<Rightarrow> int \<Rightarrow> int" where
  "wrap_int d x =
     (case d of
        UInt8 \<Rightarrow> x mod 256
      | Int16 \<Rightarrow> (x + 32768) mod 65536 - 32768
      | Int32 \<Rightarrow> (x + 2147483648) mod 4294967296 - 2147483648)"

section \<open>Mood and scale resolver\<close>

definition SAMPLE_RATE :: nat where
  "SAMPLE_RATE = 44100"

text \<open>
  Lower-casing of the ASCII letters. Python's \<open>str.lower\<close> is Unicode-aware and does
  more (the Kelvin sign becomes \<open>k\<close>, for one); on a string of ASCII characters it is
  this function, which stands in for it at concrete ASCII inputs only.
\<close>

definition lower_char :: "char \<Rightarrow> char" where
  "lower_char c =
     (let n = (of_char c :: nat) in if 65 \<le> n \<and> n \<le> 90 then char_of (n + 32) else c)"

definition ascii_lower :: "string \<Rightarrow> string" where
  "ascii_lower s = map lower_char s"

text \<open>
  \<^verbatim>\<open>get_melody_freqs_for_mood\<close> (lines 21-34). \<open>lower\<close> is Python's
  \<open>str.lower\<close>; \<open>w in mood_lower\<close> is Python's substring test,
  \<open>sublist w mood_lower\<close>; \<open>any(... for w in ws)\<close> is \<open>list_ex\<close>.
\<close>

definition get_melody_freqs_for_mood ::
  "(string \<Rightarrow> string) \<Rightarrow> py_value \<Rightarrow> real \<times> real list" where
  "get_melody_freqs_for_mood lower mood =
     (let mood_lower = (case mood of PyStr s \<Rightarrow> lower s | PyOther \<Rightarrow> ''neutral'') in
      if list_ex (\<lambda>w. sublist w mood_lower)
           [''calm'', ''peaceful'', ''serene'', ''relaxed'', ''lo-fi''] then
        (220, [220, 247, 277, 330, 370])
      else if list_ex (\<lambda>w. sublist w mood_lower)
           [''energetic'', ''exciting'', ''upbeat'', ''edm'', ''pop''] then
        (440, [440, 494, 523, 587, 659])
      else if list_ex (\<lambda>w. sublist w mood_lower)
           [''dark'', ''mysterious'', ''ominous'', ''haunting''] then
        (110, [110, 123, 131, 147, 165])
      else if list_ex (\<lambda>w. sublist w mood_lower)
           [''cosmic'', ''ethereal'', ''dreamy'', ''ambient'', ''jazz''] then
        (330, [330, 370, 415, 440, 494])
      else
        (261.63, [262, 294, 330, 349, 392]))"

text \<open>
  The pitch-shift amount of \<^verbatim>\<open>apply_vocal_effects\<close> (lines 77-81):
  \<open>np.log2\<close> is \<open>log 2\<close>.
\<close>

definition semitones_shift :: "(string \<Rightarrow> string) \<Rightarrow> py_value \<Rightarrow> real" where
  "semitones_shift lower mood =
     (let (base_freq, melody_freqs) = get_melody_freqs_for_mood lower mood;
          target_freq = melody_freqs ! (length melody_freqs div 2);
          semitones = 12 * log 2 (target_freq / base_freq)
      in max 4.0 (semitones * 0.7 + 4.0))"


section \<open>Normalisation, clipping and quantisation\<close>

text \<open>
  \<open>np.max(np.abs(a))\<close>: the largest absolute sample; numpy raises \<open>ValueError\<close> on
  an array without elements.
\<close>

definition np_max_abs :: "real list \<Rightarrow> py_error + real" where
  "np_max_abs a = (if a = [] then Inl ValueError else Inr (Max (set (map abs a))))"

text \<open>Lines 340-342 of \<^verbatim>\<open>mix_and_master\<close>: \<open>if peak > 0: mixed = mixed / peak * 0.95\<close>.\<close>

definition peak_normalize :: "real \<Rightarrow> real list \<Rightarrow> real list" where
  "peak_normalize peak mixed = (if peak > 0 then map (\<lambda>x. x / peak * 0.95) mixed else mixed)"

text \<open>\<open>np.clip(a, lo, hi)\<close> is \<open>minimum(maximum(a, lo), hi)\<close>.\<close>

definition np_clip :: "real list \<Rightarrow> real \<Rightarrow> real \<Rightarrow> real list" where
  "np_clip a lo hi = map (\<lambda>x. min (max x lo) hi) a"

text \<open>
  \<open>np.int16(a)\<close>: every float is truncated toward zero and stored in 16 bits
  (two's complement, read back with \<open>sint\<close>).
\<close>

definition np_int16 :: "real list \<Rightarrow> 16 word list" where
  "np_int16 a = map (\<lambda>x. word_of_int (py_int x)) a"

text \<open>
  Lines 339-344 of \<^verbatim>\<open>mix_and_master\<close>: from the mastered mix to the samples that
  \<open>wavfile.write\<close> persists.
\<close>

definition master_samples :: "real list \<Rightarrow> py_error + 16 word list" where
  "master_samples mixed =
     bind_err (np_max_abs mixed) (\<lambda>peak.
       let mixed1 = peak_normalize peak mixed;
           mixed2 = np_clip mixed1 (- 1.0) 1.0
       in Inr (np_int16 (map (\<lambda>x. x * 32767) mixed2)))"

section \<open>Sidechain ducking\<close>

text \<open>
  A loop whose body may raise: the state is threaded through the list of loop values,
  and the first exception ends the loop.
\<close>

fun foldM_err :: "('s \<Rightarrow> 'a \<Rightarrow> py_error + 's) \<Rightarrow> 'a list \<Rightarrow> 's \<Rightarrow> py_error + 's" where
  "foldM_err f [] s = Inr s"
| "foldM_err f (x # xs) s = (case f s x of Inl e \<Rightarrow> Inl e | Inr s' \<Rightarrow> foldM_err f xs s')"

text \<open>
  \<open>range(0, stop, step)\<close> for a positive step, as the list of its values; \<open>stop\<close> is
  given as a natural number, a negative stop of the source being 0 here (both give the
  empty range). A step of 0 raises \<open>ValueError\<close> in Python, which the callers test.
\<close>

definition py_range :: "nat \<Rightarrow> nat \<Rightarrow> nat list" where
  "py_range stop step = map (\<lambda>k. k * step) [0..<(stop + step - 1) div step]"

text \<open>\<open>a[i:j] = v\<close> for a scalar \<open>v\<close>: the slice is cut at the end of the array.\<close>

definition fill_slice :: "'a list \<Rightarrow> nat \<Rightarrow> nat \<Rightarrow> 'a \<Rightarrow> 'a list" where
  "fill_slice a i j v = take i a @ replicate (min j (length a) - i) v @ drop (max i j) a"

definition np_mean :: "real list \<Rightarrow> real" where
  "np_mean a = sum_list a / real (length a)"

text \<open>\<open>np.sqrt(np.mean(a ** 2))\<close>.\<close>

definition rms :: "real list \<Rightarrow> real" where
  "rms a = sqrt (np_mean (map (\<lambda>x. x\<^sup>2) a))"

text \<open>The body of the envelope loop (lines 276-277), at window start \<open>i\<close>.\<close>

definition envelope_step :: "nat \<Rightarrow> real list \<Rightarrow> nat \<Rightarrow> real list \<Rightarrow> real list" where
  "envelope_step window_size vocals i vocal_envelope =
     (let r = rms (take window_size (drop i vocals))
      in fill_slice vocal_envelope i (i + window_size) (max (vocal_envelope ! i) r))"

text \<open>
  Lines 273-277. The loop runs over \<open>range(0, len(vocals) - window_size, window_size // 2)\<close>;
  every index it reads lies inside the array, so the loop itself does not raise.
\<close>

definition vocal_envelope_of :: "nat \<Rightarrow> real list \<Rightarrow> real list" where
  "vocal_envelope_of window_size vocals =
     fold (envelope_step window_size vocals)
       (py_range (length vocals - window_size) (window_size div 2))
       (replicate (length vocals) 0)"

text \<open>
  The body of the smoothing loop (lines 284-289). \<open>active[i]\<close> raises \<open>IndexError\<close>
  when \<open>i\<close> is beyond the vocal's length.
\<close>

definition duck_step :: "bool list \<Rightarrow> real list \<Rightarrow> nat \<Rightarrow> py_error + real list" where
  "duck_step active ducking i =
     (if i < length active then
        (let target = (if active ! i then 0.4 else 1.0) in
         if i > 0 then
           (let rate = (if active ! i then 0.95 else 0.99)
            in Inr (ducking[i := ducking ! (i - 1) * rate + target * (1 - rate)]))
         else Inr (ducking[i := target]))
      else Inl IndexError)"

text \<open>Lines 280-289: the ducking curve for a backing track of \<open>n\<close> samples.\<close>

definition ducking_curve :: "bool list \<Rightarrow> nat \<Rightarrow> py_error + real list" where
  "ducking_curve active n = foldM_err (duck_step active) [0..<n] (replicate n 1)"

text \<open>Line 272: \<open>window_size = int(0.05 * sr)\<close>.\<close>

definition window_size :: "nat \<Rightarrow> nat" where
  "window_size sr = nat (py_int (0.05 * real sr))"

text \<open>Line 281: \<open>active = vocal_envelope > 0.01\<close>.\<close>

definition active_of :: "real list \<Rightarrow> bool list" where
  "active_of vocal_envelope = map (\<lambda>e. e > 0.01) vocal_envelope"

text \<open>
  \<^verbatim>\<open>_apply_sidechain\<close> (lines 270-291). \<open>range\<close> raises \<open>ValueError\<close> for the
  step \<open>window_size // 2 = 0\<close>; \<open>music * ducking\<close> multiplies two arrays of the same
  length sample by sample.
\<close>

definition apply_sidechain :: "real list \<Rightarrow> real list \<Rightarrow> nat \<Rightarrow> py_error + real list" where
  "apply_sidechain music vocals sr =
     (if window_size sr div 2 = 0 then Inl ValueError
      else
        (let vocal_envelope = vocal_envelope_of (window_size sr) vocals;
             active = active_of vocal_envelope
         in bind_err (ducking_curve active (length music))
              (\<lambda>ducking. Inr (map2 (*) music ducking))))"

text \<open>
  The same function when \<open>vocals\<close> is an array of an integer dtype, which is what
  \<^verbatim>\<open>mix_and_master\<close> passes for a mono file that is neither 16-bit nor floating
  point. Then \<open>np.zeros_like(vocals)\<close> is an integer array too;
  \<open>vocals[i:i + window_size] ** 2\<close> wraps around in the dtype; the mean is a float,
  and \<open>np.sqrt\<close> of a negative mean is \<open>nan\<close>; Python's \<open>max(a, b)\<close> is \<open>b\<close> if
  \<open>b > a\<close> and \<open>a\<close> otherwise, so \<open>a\<close> when \<open>b\<close> is \<open>nan\<close>; and a float stored
  into the integer envelope is truncated.
\<close>

definition int_envelope_step ::
  "int_dtype \<Rightarrow> nat \<Rightarrow> int list \<Rightarrow> nat \<Rightarrow> int list \<Rightarrow> int list" where
  "int_envelope_step d win_size vocals i vocal_envelope =
     (let mean_sq = np_mean (map (\<lambda>x. real_of_int (wrap_int d (x * x)))
                               (take win_size (drop i vocals)));
          cur = vocal_envelope ! i
      in fill_slice vocal_envelope i (i + win_size)
           (if 0 \<le> mean_sq \<and> real_of_int cur < sqrt mean_sq then py_int (sqrt mean_sq)
            else cur))"

definition int_vocal_envelope_of :: "int_dtype \<Rightarrow> nat \<Rightarrow> int list \<Rightarrow> int list" where
  "int_vocal_envelope_of d win_size vocals =
     fold (int_envelope_step d win_size vocals)
       (py_range (length vocals - win_size) (win_size div 2))
       (replicate (length vocals) 0)"

definition apply_sidechain_int ::
  "real list \<Rightarrow> int_dtype \<Rightarrow> int list \<Rightarrow> nat \<Rightarrow> py_error + real list" where
  "apply_sidechain_int music d vocals sr =
     (if window_size sr div 2 = 0 then Inl ValueError
      else
        (let vocal_envelope = int_vocal_envelope_of d (window_size sr) vocals;
             active = active_of (map real_of_int vocal_envelope)
         in bind_err (ducking_curve active (length music))
              (\<lambda>ducking. Inr (map2 (*) music ducking))))"

text \<open>
  The recurrence of the smoothing loop written as a function of the position, to state
  what the loop computes: \<open>gain[0] = target[0]\<close> and
  \<open>gain[i] = gain[i-1] * rate[i] + target[i] * (1 - rate[i])\<close>.
\<close>

fun duck_gain :: "bool list \<Rightarrow> nat \<Rightarrow> real" where
  "duck_gain active 0 = (if active ! 0 then 0.4 else 1.0)"
| "duck_gain active (Suc i) =
     (if active ! Suc i then duck_gain active i * 0.95 + 0.4 * (1 - 0.95)
      else duck_gain active i * 0.99 + 1.0 * (1 - 0.99))"

section \<open>Instrument synthesizer\<close>

text \<open>
  \<open>np.linspace(start, stop, num)\<close>: \<open>num\<close> evenly spaced values from \<open>start\<close> to
  \<open>stop\<close> inclusive; numpy raises \<open>ValueError\<close> for a negative \<open>num\<close>. For
  \<open>num = 1\<close> the only value is \<open>start\<close> (the step \<open>x / 0\<close> is 0 in HOL, which
  gives the same list).
\<close>

definition np_linspace :: "real \<Rightarrow> real \<Rightarrow> int \<Rightarrow> py_error + real list" where
  "np_linspace start stop num =
     (if num < 0 then Inl ValueError
      else Inr (map (\<lambda>k. start + real k * ((stop - start) / real (nat num - 1))) [0..<nat num]))"

text \<open>
  \<open>a[i:j] = vals\<close> for an array \<open>vals\<close> and \<open>0 \<le> i\<close>, \<open>0 \<le> j\<close>: the slice is
  cut at the end of \<open>a\<close>; the values must have the length of the slice, or length 1
  (then they are broadcast); otherwise numpy raises \<open>ValueError\<close> (could not broadcast
  input array).
\<close>

definition assign_slice :: "real list \<Rightarrow> nat \<Rightarrow> nat \<Rightarrow> real list \<Rightarrow> py_error + real list" where
  "assign_slice a i j vals =
     (let i' = min i (length a); j' = max i' (min j (length a)) in
      if length vals = j' - i' then Inr (take i' a @ vals @ drop j' a)
      else if length vals = 1 then Inr (take i' a @ replicate (j' - i') (hd vals) @ drop j' a)
      else Inl ValueError)"

text \<open>
  The three timbres of \<^verbatim>\<open>_generate_instrument\<close> (lines 122-142): sums of sine
  harmonics over the time axis \<open>t\<close>.
\<close>

definition harmonic_signal :: "string \<Rightarrow> real \<Rightarrow> real list \<Rightarrow> real list" where
  "harmonic_signal instrument_type freq t =
     (if instrument_type = ''synth'' then
        map (\<lambda>x. 1.0 * sin (2 * pi * freq * x) + 0.5 * sin (2 * pi * freq * 2 * x) +
                  0.25 * sin (2 * pi * freq * 3 * x) + 0.125 * sin (2 * pi * freq * 4 * x)) t
      else if instrument_type = ''bass'' then
        map (\<lambda>x. 1.0 * sin (2 * pi * freq * x) + 0.3 * sin (2 * pi * freq * 2 * x) +
                  0.1 * sin (2 * pi * freq * 4 * x)) t
      else
        map (\<lambda>x. 0.8 * sin (2 * pi * freq * x) + 0.4 * sin (2 * pi * freq * 2 * x) +
                  0.3 * sin (2 * pi * freq * 3 * x) + 0.2 * sin (2 * pi * freq * 5 * x) +
                  0.1 * sin (2 * pi * freq * 7 * x)) t)"

text \<open>The envelope's region lengths (lines 145-148).\<close>

definition attack_samples :: "nat \<Rightarrow> nat" where
  "attack_samples sr = nat (py_int (real sr * 0.02))"

definition decay_samples :: "nat \<Rightarrow> nat" where
  "decay_samples sr = nat (py_int (real sr * 0.05))"

definition release_samples :: "nat \<Rightarrow> nat" where
  "release_samples sr = nat (py_int (real sr * 0.1))"

definition sustain_level :: real where
  "sustain_level = 0.7"

text \<open>
  Lines 151-152: \<open>if attack_samples > 0: envelope[:attack_samples] = np.linspace(0, 1, attack_samples)\<close>.
  The slice is cut at the array's end, the values are not.
\<close>

definition attack_stage :: "nat \<Rightarrow> real list \<Rightarrow> py_error + real list" where
  "attack_stage sr envelope =
     (if attack_samples sr > 0 then
        bind_err (np_linspace 0 1 (int (attack_samples sr)))
          (\<lambda>ramp. assign_slice envelope 0 (attack_samples sr) ramp)
      else Inr envelope)"

text \<open>Lines 153-154: the decay, guarded by the length of the envelope.\<close>

definition decay_stage :: "nat \<Rightarrow> real list \<Rightarrow> py_error + real list" where
  "decay_stage sr envelope =
     (if decay_samples sr > 0 \<and> attack_samples sr + decay_samples sr < length envelope then
        bind_err (np_linspace 1 sustain_level (int (decay_samples sr)))
          (\<lambda>ramp. assign_slice envelope (attack_samples sr)
                    (attack_samples sr + decay_samples sr) ramp)
      else Inr envelope)"

text \<open>Lines 155-158: the sustain, skipped when \<open>sustain_end\<close> is not after \<open>sustain_start\<close>.\<close>

definition sustain_stage :: "nat \<Rightarrow> real list \<Rightarrow> real list" where
  "sustain_stage sr envelope =
     (let sustain_start = attack_samples sr + decay_samples sr;
          sustain_end = int (length envelope) - int (release_samples sr)
      in if int sustain_start < sustain_end
         then fill_slice envelope sustain_start (nat sustain_end) sustain_level
         else envelope)"

text \<open>
  Lines 159-160: \<open>envelope[-release_samples:] = np.linspace(sustain_level, 0, release_samples)\<close>.
  The slice starts at \<open>max(0, len(envelope) - release_samples)\<close>.
\<close>

definition release_stage :: "nat \<Rightarrow> real list \<Rightarrow> py_error + real list" where
  "release_stage sr envelope =
     (if release_samples sr > 0 then
        bind_err (np_linspace sustain_level 0 (int (release_samples sr)))
          (\<lambda>ramp. assign_slice envelope (length envelope - release_samples sr)
                    (length envelope) ramp)
      else Inr envelope)"

text \<open>The ADSR envelope (lines 150-160) for an array of \<open>n\<close> samples.\<close>

definition adsr_envelope :: "nat \<Rightarrow> nat \<Rightarrow> py_error + real list" where
  "adsr_envelope sr n =
     bind_err (attack_stage sr (replicate n 1))
       (\<lambda>envelope. bind_err (decay_stage sr envelope)
          (\<lambda>envelope. release_stage sr (sustain_stage sr envelope)))"

text \<open>
  \<^verbatim>\<open>_generate_instrument\<close> (lines 116-162). \<open>signal * envelope\<close> multiplies two
  arrays of the same length.
\<close>

definition generate_instrument :: "real \<Rightarrow> real \<Rightarrow> nat \<Rightarrow> string \<Rightarrow> py_error + real list" where
  "generate_instrument freq duration sr instrument_type =
     (let num_samples = py_int (real sr * duration) in
      bind_err (np_linspace 0 duration num_samples)
        (\<lambda>t. let signal = harmonic_signal instrument_type freq t in
              bind_err (adsr_envelope sr (length signal))
                (\<lambda>envelope. Inr (map2 (*) signal envelope))))"

section \<open>External libraries, files and the random generator\<close>

text \<open>
  The effect plugins that the source hands to \<open>Pedalboard\<close>, with their parameters in
  the order of the keyword arguments used in the source.
\<close>

datatype plugin =
    Compressor real real real real
  | Chorus real real real real real
  | Reverb real real real real real
  | Gain real
  | HighpassFilter real
  | LowpassFilter real

text \<open>
  What \<open>scipy.io.wavfile.read\<close> returns besides the rate: a one-dimensional array
  for a mono file and an array of frames, one value per channel, otherwise; of a
  floating-point dtype for a floating-point file and of an integer dtype for PCM.
\<close>

datatype wav =
    FloatMono "real list"
  | FloatFrames "real list list"
  | IntMono int_dtype "int list"
  | IntFrames int_dtype "int list list"

text \<open>
  The libraries that the module calls and whose code is not part of the repository
  (librosa, pedalboard, soundfile, scipy.io.wavfile, and the runtime's \<open>str.lower\<close>)
  are parameters of the model; each library call may raise. \<open>'f\<close> is the content of a file. A writer gets the old content of the
  target (\<open>None\<close>: no such file) and returns whether it raised and what the target
  holds afterwards.
\<close>

record 'f libs =
  str_lower :: "string \<Rightarrow> string"
  librosa_load :: "'f option \<Rightarrow> nat \<Rightarrow> py_error + real list"
  time_stretch :: "real list \<Rightarrow> real \<Rightarrow> py_error + real list"
  pitch_shift :: "real list \<Rightarrow> nat \<Rightarrow> real \<Rightarrow> py_error + real list"
  pedalboard :: "plugin list \<Rightarrow> real list \<Rightarrow> nat \<Rightarrow> py_error + real list"
  sf_write :: "real list \<Rightarrow> nat \<Rightarrow> 'f option \<Rightarrow> py_error option \<times> 'f option"
  wavfile_read :: "'f \<Rightarrow> py_error + wav"
  wavfile_write :: "nat \<Rightarrow> 16 word list \<Rightarrow> 'f option \<Rightarrow> py_error option \<times> 'f option"

type_synonym 'f fs = "string \<Rightarrow> 'f option"

text \<open>
  The state of Python's process-wide generator (the module \<open>random\<close>), as the stream of
  the values that \<open>random.random()\<close> returns next. \<open>random.uniform(a, b)\<close> is
  \<open>a + (b - a) * random.random()\<close>.
\<close>

type_synonym rng = "real stream"

definition random_uniform :: "real \<Rightarrow> real \<Rightarrow> rng \<Rightarrow> real \<times> rng" where
  "random_uniform a b g = (a + (b - a) * shd g, stl g)"

section \<open>Singing-timing transform\<close>

text \<open>
  The second loop of \<^verbatim>\<open>_apply_singing_timing\<close> (lines 51-59): the processed
  segments in order, and the generator's state afterwards. A segment of fewer than 1000
  samples is kept and draws nothing.
\<close>

fun stretch_segments ::
  "'f libs \<Rightarrow> real list list \<Rightarrow> rng \<Rightarrow> (py_error + real list list) \<times> rng" where
  "stretch_segments L [] g = (Inr [], g)"
| "stretch_segments L (seg # segments) g =
     (if length seg < 1000 then
        (case stretch_segments L segments g of
           (Inl e, g') \<Rightarrow> (Inl e, g')
         | (Inr processed, g') \<Rightarrow> (Inr (seg # processed), g'))
      else
        (let (stretch, g1) = random_uniform 0.75 1.3 g in
         case time_stretch L seg stretch of
           Inl e \<Rightarrow> (Inl e, g1)
         | Inr stretched \<Rightarrow>
             (case stretch_segments L segments g1 of
                (Inl e, g') \<Rightarrow> (Inl e, g')
              | (Inr processed, g') \<Rightarrow> (Inr (stretched # processed), g'))))"

text \<open>\<open>np.concatenate\<close> raises \<open>ValueError\<close> when it is given no array.\<close>

definition np_concatenate :: "real list list \<Rightarrow> py_error + real list" where
  "np_concatenate arrays = (if arrays = [] then Inl ValueError else Inr (concat arrays))"

text \<open>
  The first loop (lines 45-48): the windows \<open>y[i:i + segment_len]\<close> for
  \<open>i\<close> in \<open>range(0, len(y), segment_len)\<close>.
\<close>

definition split_segments :: "real list \<Rightarrow> nat \<Rightarrow> real list list" where
  "split_segments y segment_len =
     map (\<lambda>i. take segment_len (drop i y)) (py_range (length y) segment_len)"

text \<open>
  \<^verbatim>\<open>_apply_singing_timing\<close> (lines 37-61). The function has the parameters \<open>y\<close>
  and \<open>sr\<close> only; the generator \<open>g\<close> is the state of the module \<open>random\<close> that the
  body reads and advances. \<open>range\<close> raises \<open>ValueError\<close> for the step 0.
\<close>

definition segment_len :: "nat \<Rightarrow> nat" where
  "segment_len sr = nat (py_int (0.3 * real sr))"

definition apply_singing_timing ::
  "'f libs \<Rightarrow> real list \<Rightarrow> nat \<Rightarrow> rng \<Rightarrow> (py_error + real list) \<times> rng" where
  "apply_singing_timing L y sr g =
     (if segment_len sr = 0 then (Inl ValueError, g)
      else
        (case stretch_segments L (split_segments y (segment_len sr)) g of
           (Inl e, g') \<Rightarrow> (Inl e, g')
         | (Inr processed, g') \<Rightarrow> (np_concatenate processed, g')))"

text \<open>
  A call \<^verbatim>\<open>_apply_singing_timing(y, sr, *extra)\<close>. The function is defined with the
  two parameters \<open>y\<close> and \<open>sr\<close> (line 37): for any further argument, a random
  source or a seed included, Python raises \<open>TypeError\<close> before the body runs.
\<close>

definition call_apply_singing_timing ::
  "'f libs \<Rightarrow> real list \<Rightarrow> nat \<Rightarrow> 'a list \<Rightarrow> rng \<Rightarrow> (py_error + real list) \<times> rng" where
  "call_apply_singing_timing L y sr extra g =
     (if extra = [] then apply_singing_timing L y sr g else (Inl TypeError, g))"

text \<open>
  The number of windows of at least 1000 samples: the number of stretch factors that a
  run without exception draws.
\<close>

definition draws_needed :: "real list \<Rightarrow> nat \<Rightarrow> nat" where
  "draws_needed y sr =
     length (filter (\<lambda>seg. \<not> length seg < 1000) (split_segments y (segment_len sr)))"

section \<open>Vocal effects\<close>

text \<open>\<open>np.cumsum\<close>: the running sums.\<close>

fun cumsum_from :: "real \<Rightarrow> real list \<Rightarrow> real list" where
  "cumsum_from acc [] = []"
| "cumsum_from acc (x # xs) = (acc + x) # cumsum_from (acc + x) xs"

definition np_cumsum :: "real list \<Rightarrow> real list" where
  "np_cumsum a = cumsum_from 0 a"

text \<open>Lines 86-92: the amplitude modulation that stands for vibrato.\<close>

definition add_vibrato :: "real list \<Rightarrow> nat \<Rightarrow> real list" where
  "add_vibrato y_shifted sr =
     (let t = map (\<lambda>k. real k / real sr) [0..<length y_shifted];
          vibrato_rate = 5.5;
          vibrato_depth = 0.3;
          vibrato = map (\<lambda>x. vibrato_depth * sin (2 * pi * vibrato_rate * x)) t;
          phase_mod = map (\<lambda>c. c * 2 * pi * 100) (np_cumsum (map (\<lambda>v. v / real sr) vibrato))
      in map2 (*) y_shifted (map (\<lambda>p. 1 + 0.02 * sin p) phase_mod))"

definition vocal_board :: "plugin list" where
  "vocal_board =
     [Compressor (- 25) 3 5 50,
      Chorus 2.0 0.5 7 0.3 0.45,
      Reverb 0.65 0.4 0.4 0.75 0.9,
      Compressor (- 18) 4 10 100,
      Gain 3.0]"

text \<open>Line 106: \<open>y_effected / (np.max(np.abs(y_effected)) + 0.01)\<close>.\<close>

definition normalize_vocal :: "real list \<Rightarrow> py_error + real list" where
  "normalize_vocal y_effected =
     bind_err (np_max_abs y_effected) (\<lambda>m. Inr (map (\<lambda>x. x / (m + 0.01)) y_effected))"

text \<open>
  The body of the \<open>try\<close> of \<^verbatim>\<open>apply_vocal_effects\<close> before the write (lines 70-106):
  the waveform to be written, or the exception of the first stage that raised.
\<close>

definition vocal_chain ::
  "'f libs \<Rightarrow> 'f option \<Rightarrow> py_value \<Rightarrow> rng \<Rightarrow> (py_error + real list) \<times> rng" where
  "vocal_chain L file mood g =
     (case librosa_load L file SAMPLE_RATE of
        Inl e \<Rightarrow> (Inl e, g)
      | Inr y \<Rightarrow>
          (let sr = SAMPLE_RATE in
           case apply_singing_timing L y sr g of
             (Inl e, g') \<Rightarrow> (Inl e, g')
           | (Inr y, g') \<Rightarrow>
               (bind_err (pitch_shift L y sr (semitones_shift (str_lower L) mood))
                  (\<lambda>y_shifted. bind_err (pedalboard L vocal_board (add_vibrato y_shifted sr) sr)
                     normalize_vocal),
                g')))"

text \<open>
  \<^verbatim>\<open>apply_vocal_effects\<close> (lines 64-113): the result, the files and the generator
  afterwards. Every exception is caught and turned into \<open>False\<close>; \<open>sf.write\<close> writes
  to the input path itself.
\<close>

definition apply_vocal_effects ::
  "'f libs \<Rightarrow> 'f fs \<Rightarrow> rng \<Rightarrow> string \<Rightarrow> py_value \<Rightarrow> bool \<times> 'f fs \<times> rng" where
  "apply_vocal_effects L files g audio_path mood =
     (case vocal_chain L (files audio_path) mood g of
        (Inl e, g') \<Rightarrow> (False, files, g')
      | (Inr y_effected, g') \<Rightarrow>
          (case sf_write L y_effected SAMPLE_RATE (files audio_path) of
             (None, file') \<Rightarrow> (True, files(audio_path := file'), g')
           | (Some e, file') \<Rightarrow> (False, files(audio_path := file'), g')))"

section \<open>Mixing and mastering\<close>

text \<open>
  Lines 301-310 of \<^verbatim>\<open>mix_and_master\<close>: the vocal buffer. \<open>os.path.exists\<close> asks
  whether the path holds a file. Samples of dtype \<open>int16\<close> become floats scaled by
  \<open>1 / 32767\<close>; an array with channels is averaged over them, which gives floats for
  every dtype; a one-dimensional array of another integer dtype stays an integer array.
  Without a file the buffer is \<open>np.zeros_like(background_music)\<close>.
\<close>

datatype vocal_array = FloatArray "real list" | IntArray int_dtype "int list"

definition load_vocals ::
  "'f libs \<Rightarrow> 'f fs \<Rightarrow> string \<Rightarrow> real list \<Rightarrow> py_error + vocal_array" where
  "load_vocals L files vocal_path background_music =
     (case files vocal_path of
        Some file \<Rightarrow>
          bind_err (wavfile_read L file)
            (\<lambda>w. Inr (case w of
                        FloatMono a \<Rightarrow> FloatArray a
                      | FloatFrames rows \<Rightarrow> FloatArray (map np_mean rows)
                      | IntMono d a \<Rightarrow>
                          if d = Int16 then FloatArray (map (\<lambda>x. real_of_int x / 32767.0) a)
                          else IntArray d a
                      | IntFrames d rows \<Rightarrow>
                          if d = Int16 then
                            FloatArray (map (\<lambda>row. np_mean (map (\<lambda>x. real_of_int x / 32767.0) row)) rows)
                          else FloatArray (map (\<lambda>row. np_mean (map real_of_int row)) rows)))
      | None \<Rightarrow> Inr (FloatArray (replicate (length background_music) 0)))"

text \<open>Lines 312-316: \<open>np.pad(a, (0, k))\<close> appends \<open>k\<close> zeros to the shorter buffer.\<close>

definition match_lengths :: "'a::zero list \<Rightarrow> real list \<Rightarrow> 'a list \<times> real list" where
  "match_lengths vocals background_music =
     (if length vocals < length background_music then
        (vocals @ replicate (length background_music - length vocals) 0, background_music)
      else if length vocals > length background_music then
        (vocals, background_music @ replicate (length vocals - length background_music) 0)
      else (vocals, background_music))"

text \<open>
  \<open>a + b\<close> on two arrays: equal lengths, or one of them of length 1 (broadcast);
  otherwise numpy raises \<open>ValueError\<close>.
\<close>

definition np_add :: "real list \<Rightarrow> real list \<Rightarrow> py_error + real list" where
  "np_add a b =
     (if length a = length b then Inr (map2 (+) a b)
      else if length a = 1 then Inr (map (\<lambda>y. hd a + y) b)
      else if length b = 1 then Inr (map (\<lambda>x. x + hd b) a)
      else Inl ValueError)"

definition music_eq :: "plugin list" where
  "music_eq = [HighpassFilter 120, LowpassFilter 12000]"

definition mastering :: "plugin list" where
  "mastering = [Compressor (- 12) 3 15 150, Compressor (- 6) 10 1 50, Gain 3.5]"

text \<open>
  Lines 299-337 of \<^verbatim>\<open>mix_and_master\<close>: the mix after the mastering board, or the
  exception of the first step that raised. \<open>vocals * 1.0\<close> turns an integer array
  into floats.
\<close>

definition mastered_mix ::
  "'f libs \<Rightarrow> 'f fs \<Rightarrow> string \<Rightarrow> real list \<Rightarrow> py_error + real list" where
  "mastered_mix L files vocal_path background_music =
     (let sr = SAMPLE_RATE in
      bind_err (load_vocals L files vocal_path background_music)
        (\<lambda>loaded.
           bind_err
             (case loaded of
                FloatArray vocals \<Rightarrow>
                  (let (vocals, background_music) = match_lengths vocals background_music in
                   bind_err (apply_sidechain background_music vocals sr)
                     (\<lambda>ducked_music. Inr (map (\<lambda>x. x * 1.0) vocals, ducked_music)))
              | IntArray d vocals \<Rightarrow>
                  (let (vocals, background_music) = match_lengths vocals background_music in
                   bind_err (apply_sidechain_int background_music d vocals sr)
                     (\<lambda>ducked_music. Inr (map (\<lambda>x. real_of_int x * 1.0) vocals, ducked_music))))
             (\<lambda>(vocals_gain, ducked_music).
                bind_err (pedalboard L music_eq ducked_music sr)
                  (\<lambda>ducked_music.
                     bind_err (np_add vocals_gain (map (\<lambda>x. x * 0.35) ducked_music))
                       (\<lambda>mixed. pedalboard L mastering mixed sr)))))"

text \<open>
  Lines 299-344: the 16-bit samples that \<^verbatim>\<open>mix_and_master\<close> hands to
  \<open>wavfile.write\<close>, or the exception of the first step that raised.
\<close>

definition mix_samples ::
  "'f libs \<Rightarrow> 'f fs \<Rightarrow> string \<Rightarrow> real list \<Rightarrow> py_error + 16 word list" where
  "mix_samples L files vocal_path background_music =
     bind_err (mastered_mix L files vocal_path background_music) master_samples"

text \<open>
  \<^verbatim>\<open>mix_and_master\<close> (lines 294-347): the returned path or the exception, and the
  files afterwards. Nothing is caught here.
\<close>

definition mix_and_master ::
  "'f libs \<Rightarrow> 'f fs \<Rightarrow> string \<Rightarrow> real list \<Rightarrow> string \<Rightarrow> (py_error + string) \<times> 'f fs" where
  "mix_and_master L files vocal_path background_music output_path =
     (case mix_samples L files vocal_path background_music of
        Inl e \<Rightarrow> (Inl e, files)
      | Inr mixed \<Rightarrow>
          (case wavfile_write L SAMPLE_RATE mixed (files output_path) of
             (None, file') \<Rightarrow> (Inr output_path, files(output_path := file'))
           | (Some e, file') \<Rightarrow> (Inl e, files(output_path := file'))))"

section \<open>Arrangement mixer\<close>

text \<open>
  A \<open>for\<close> loop whose body may raise or \<open>break\<close>: \<open>Next\<close> goes on with the next
  loop value, \<open>Stop\<close> leaves the loop.
\<close>

datatype 's ctl = Next 's | Stop 's

fun for_loop :: "('s \<Rightarrow> 'a \<Rightarrow> py_error + 's ctl) \<Rightarrow> 'a list \<Rightarrow> 's \<Rightarrow> py_error + 's" where
  "for_loop body [] s = Inr s"
| "for_loop body (x # xs) s =
     (case body s x of
        Inl e \<Rightarrow> Inl e
      | Inr (Stop s') \<Rightarrow> Inr s'
      | Inr (Next s') \<Rightarrow> for_loop body xs s')"

primrec ctl_state :: "'s ctl \<Rightarrow> 's" where
  "ctl_state (Next s) = s"
| "ctl_state (Stop s) = s"

text \<open>
  \<open>a[i:j] += vals\<close> and \<open>a[i:j] *= vals\<close> for \<open>0 \<le> i\<close>, \<open>0 \<le> j\<close>: the slice is cut
  at the end of \<open>a\<close>, and the values must have its length or length 1, as for an
  assignment.
\<close>

definition update_slice ::
  "(real \<Rightarrow> real \<Rightarrow> real) \<Rightarrow> real list \<Rightarrow> nat \<Rightarrow> nat \<Rightarrow> real list \<Rightarrow> py_error + real list" where
  "update_slice f a i j vals =
     (let i' = min i (length a); j' = max i' (min j (length a)); old = take (j' - i') (drop i' a) in
      if length vals = j' - i' then Inr (take i' a @ map2 f old vals @ drop j' a)
      else if length vals = 1 then Inr (take i' a @ map (\<lambda>x. f x (hd vals)) old @ drop j' a)
      else Inl ValueError)"

text \<open>
  The state of numpy's process-wide generator, as the stream of the standard normal values
  it returns next; \<open>np.random.randn(k)\<close> takes \<open>k\<close> of them.
\<close>

definition np_randn :: "nat \<Rightarrow> rng \<Rightarrow> real list \<times> rng" where
  "np_randn k g = (stake k g, sdrop k g)"

text \<open>
  The placement shared by the melody, pad and bass loops (lines 181-184, 198-201,
  210-213): \<open>start = int(i * dur * sr)\<close>, \<open>end = min(start + len(note), num_samples)\<close>,
  and \<open>track[start:end] += note[:end - start] * gain\<close> if \<open>end - start > 0\<close>.
\<close>

definition place_note ::
  "nat \<Rightarrow> nat \<Rightarrow> real \<Rightarrow> nat \<Rightarrow> real \<Rightarrow> real list \<Rightarrow> real list \<Rightarrow> py_error + real list" where
  "place_note num_samples i dur sr gain note track =
     (let start = nat (py_int (real i * dur * real sr));
          end = min (start + length note) num_samples
      in if int end - int start > 0
         then update_slice (+) track start end (map (\<lambda>x. x * gain) (take (end - start) note))
         else Inr track)"

text \<open>The body of the melody loop (lines 177-184), for the pair \<open>(i, freq)\<close> of \<open>enumerate\<close>.\<close>

definition melody_step :: "nat \<Rightarrow> nat \<Rightarrow> real list \<Rightarrow> nat \<times> real \<Rightarrow> py_error + real list ctl" where
  "melody_step num_samples sr melody p =
     (let i = fst p; freq = snd p; note_duration = 2.0 in
      if real i * note_duration * real sr \<ge> real num_samples then Inr (Stop melody)
      else bind_err (generate_instrument freq note_duration sr ''synth'')
             (\<lambda>note. bind_err (place_note num_samples i note_duration sr 0.08 note melody)
                       (\<lambda>melody. Inr (Next melody))))"

text \<open>The body of the pad loop (lines 189-201).\<close>

definition pad_step :: "nat \<Rightarrow> nat \<Rightarrow> real list \<Rightarrow> real list \<Rightarrow> nat \<Rightarrow> py_error + real list ctl" where
  "pad_step num_samples sr melody_freqs pad i =
     (let chord_duration = 4.0 in
      if real i * chord_duration * real sr \<ge> real num_samples then Inr (Stop pad)
      else
        (let root = melody_freqs ! (i mod length melody_freqs);
             third = melody_freqs ! ((i + 2) mod length melody_freqs)
         in bind_err (generate_instrument root chord_duration sr ''pad'')
              (\<lambda>a. bind_err (generate_instrument third chord_duration sr ''pad'')
                 (\<lambda>b. bind_err (np_add a b)
                    (\<lambda>c. let chord = map (\<lambda>x. x * 0.5) c in
                          bind_err (place_note num_samples i chord_duration sr 0.05 chord pad)
                            (\<lambda>pad. Inr (Next pad)))))))"

text \<open>The body of the bass loop (lines 206-213).\<close>

definition bass_step ::
  "nat \<Rightarrow> nat \<Rightarrow> real \<Rightarrow> real \<Rightarrow> real list \<Rightarrow> nat \<Rightarrow> py_error + real list ctl" where
  "bass_step num_samples sr base_freq bass_note_dur bass i =
     (if real i * bass_note_dur * real sr \<ge> real num_samples then Inr (Stop bass)
      else bind_err (generate_instrument (base_freq * 0.5) bass_note_dur sr ''bass'')
             (\<lambda>bass_note. bind_err (place_note num_samples i bass_note_dur sr 0.12 bass_note bass)
                            (\<lambda>bass. Inr (Next bass))))"

text \<open>
  The drum hits (lines 222-249). Each takes the track and the generator and returns both;
  \<open>bs\<close> and \<open>hs\<close> are the first sample of the hit.
\<close>

definition kick_hit :: "nat \<Rightarrow> nat \<Rightarrow> nat \<Rightarrow> real list \<times> rng \<Rightarrow> py_error + real list \<times> rng" where
  "kick_hit num_samples sr bs s =
     (let kick = fst s; g = snd s;
          kd = nat (py_int (0.15 * real sr));
          ke = min (bs + kd) num_samples
      in if bs < num_samples then
           bind_err (np_linspace 0 0.15 (int ke - int bs))
             (\<lambda>kt. let (noise, g') = np_randn (length kt) g;
                       burst = map2 (\<lambda>x z. 0.15 * exp (- 15 * x) *
                                   sin (2 * pi * (60 + 40 * exp (- 20 * x)) * x) + 0.02 * z)
                                 kt noise
                   in bind_err (update_slice (+) kick bs ke burst) (\<lambda>kick. Inr (kick, g')))
         else Inr (kick, g))"

definition snare_hit :: "nat \<Rightarrow> nat \<Rightarrow> nat \<Rightarrow> nat \<Rightarrow> real list \<times> rng \<Rightarrow> py_error + real list \<times> rng" where
  "snare_hit num_samples sr i bs s =
     (let snare = fst s; g = snd s in
      if i mod 2 = 1 \<and> bs < num_samples then
        (let sd = nat (py_int (0.12 * real sr));
             se = min (bs + sd) num_samples
         in bind_err (np_linspace 0 0.12 (int se - int bs))
              (\<lambda>st. let (noise, g') = np_randn (length st) g;
                        burst = map2 (\<lambda>x z. 0.1 * exp (- 20 * x) * sin (2 * pi * 200 * x) +
                                    0.08 * exp (- 15 * x) * z)
                                  st noise
                    in bind_err (update_slice (+) snare bs se burst) (\<lambda>snare. Inr (snare, g'))))
      else Inr (snare, g))"

definition hihat_hit ::
  "nat \<Rightarrow> nat \<Rightarrow> real \<Rightarrow> real \<Rightarrow> real list \<times> rng \<Rightarrow> nat \<Rightarrow> py_error + real list \<times> rng" where
  "hihat_hit num_samples sr beat_duration_s bt s j =
     (let hihat = fst s; g = snd s;
          ht = bt + real j * beat_duration_s / 2;
          hs = nat (py_int (ht * real sr))
      in if hs < num_samples then
           (let hd = nat (py_int (0.05 * real sr));
                he = min (hs + hd) num_samples
            in bind_err (np_linspace 0 0.05 (int he - int hs))
                 (\<lambda>hht. let (noise, g') = np_randn (length hht) g;
                            burst = map2 (\<lambda>x z. 0.03 * exp (- 40 * x) * z) hht noise
                        in bind_err (update_slice (+) hihat hs he burst)
                             (\<lambda>hihat. Inr (hihat, g'))))
         else Inr (hihat, g))"

text \<open>
  The body of the drum loop (lines 221-249) for the pair \<open>(i, bt)\<close>: the three tracks
  and the generator.
\<close>

definition drum_step ::
  "nat \<Rightarrow> nat \<Rightarrow> real \<Rightarrow> real list \<times> real list \<times> real list \<times> rng \<Rightarrow> nat \<times> real \<Rightarrow>
     py_error + (real list \<times> real list \<times> real list \<times> rng) ctl" where
  "drum_step num_samples sr beat_duration_s s p =
     (let kick = fst s; snare = fst (snd s); hihat = fst (snd (snd s)); g = snd (snd (snd s));
          i = fst p; bt = snd p;
          bs = nat (py_int (bt * real sr))
      in bind_err (kick_hit num_samples sr bs (kick, g))
           (\<lambda>(kick, g). bind_err (snare_hit num_samples sr i bs (snare, g))
              (\<lambda>(snare, g). bind_err (foldM_err (hihat_hit num_samples sr beat_duration_s bt)
                                          [0, 1] (hihat, g))
                 (\<lambda>(hihat, g). Inr (Next (kick, snare, hihat, g))))))"

definition music_board :: "plugin list" where
  "music_board = [HighpassFilter 80, Compressor (- 20) 2 20 200, Gain (- 2.0)]"

text \<open>Lines 261-265: the fades, applied when the track is longer than both together.\<close>

definition apply_fades :: "nat \<Rightarrow> real list \<Rightarrow> py_error + real list" where
  "apply_fades sr music =
     (let fade_samples = nat (py_int (real sr * 1.5)) in
      if length music > 2 * fade_samples then
        bind_err (np_linspace 0 1 (int fade_samples))
          (\<lambda>up. bind_err (update_slice (*) music 0 fade_samples up)
             (\<lambda>music. bind_err (np_linspace 1 0 (int fade_samples))
                (\<lambda>down. update_slice (*) music (length music - fade_samples) (length music) down)))
      else Inr music)"

text \<open>
  \<open>int(np.ceil(x))\<close>, as the number of repetitions of a list or the bound of a
  \<open>range\<close> from 0: a negative value counts as 0.
\<close>

definition ceil_count :: "real \<Rightarrow> nat" where
  "ceil_count x = nat \<lceil>x\<rceil>"

text \<open>
  \<^verbatim>\<open>generate_background_music\<close> (lines 165-267): the track or the exception, and
  numpy's generator afterwards (after an exception: the generator at the call).
  \<open>60.0 / tempo_bpm\<close> raises for the tempo 0;
  \<open>np.arange(0, duration_s, beat_duration_s)\<close> has \<open>ceil(duration_s / beat_duration_s)\<close>
  values \<open>k * beat_duration_s\<close>; \<open>xs * k\<close> repeats a list \<open>k\<close> times.
\<close>

definition generate_background_music ::
  "'f libs \<Rightarrow> real \<Rightarrow> int \<Rightarrow> py_value \<Rightarrow> rng \<Rightarrow> (py_error + real list) \<times> rng" where
  "generate_background_music L duration_s tempo_bpm mood g =
     (let sr = SAMPLE_RATE;
          num_samples = py_int (real sr * duration_s)
      in case np_linspace 0 duration_s num_samples of
           Inl e \<Rightarrow> (Inl e, g)
         | Inr t \<Rightarrow>
             if tempo_bpm = 0 then (Inl ZeroDivisionError, g)
             else
               (let n = nat num_samples;
                    beat_duration_s = 60.0 / real_of_int tempo_bpm;
                    (base_freq, melody_freqs) = get_melody_freqs_for_mood (str_lower L) mood;
                    note_duration = 2.0;
                    chord_duration = 4.0;
                    bass_note_dur = beat_duration_s * 2;
                    repeated = concat (replicate
                      (ceil_count (duration_s / (real (length melody_freqs) * note_duration)))
                      melody_freqs);
                    beat_times = map (\<lambda>k. real k * beat_duration_s)
                      [0..<ceil_count (duration_s / beat_duration_s)]
                in case for_loop (melody_step n sr) (zip [0..<length repeated] repeated)
                          (replicate n 0) of
                     Inl e \<Rightarrow> (Inl e, g)
                   | Inr melody \<Rightarrow>
                 (case for_loop (pad_step n sr melody_freqs)
                          [0..<ceil_count (duration_s / chord_duration)] (replicate n 0) of
                     Inl e \<Rightarrow> (Inl e, g)
                   | Inr pad \<Rightarrow>
                 (case for_loop (bass_step n sr base_freq bass_note_dur)
                          [0..<ceil_count (duration_s / bass_note_dur)] (replicate n 0) of
                     Inl e \<Rightarrow> (Inl e, g)
                   | Inr bass \<Rightarrow>
                 (case for_loop (drum_step n sr beat_duration_s)
                          (zip [0..<length beat_times] beat_times)
                          (replicate n 0, replicate n 0, replicate n 0, g) of
                     Inl e \<Rightarrow> (Inl e, g)
                   | Inr (kick, snare, hihat, g') \<Rightarrow>
                       (let music = map (\<lambda>k. melody ! k + pad ! k + bass ! k +
                                              kick ! k + snare ! k + hihat ! k) [0..<n]
                        in (bind_err (pedalboard L music_board music sr) (apply_fades sr), g')))))))"

section \<open>Stand-ins for the libraries, used at concrete inputs\<close>

text \<open>
  A time-stretcher that keeps what the statements below use of librosa's: the output
  has \<open>round(len(y) / rate)\<close> samples. It reads the input at the nearest earlier
  position.
\<close>

definition stretch_nearest :: "real list \<Rightarrow> real \<Rightarrow> py_error + real list" where
  "stretch_nearest y rate =
     Inr (map (\<lambda>k. y ! min (length y - 1) (nat \<lfloor>real k * rate\<rfloor>))
            [0..<nat \<lfloor>real (length y) / rate + 1 / 2\<rfloor>])"

text \<open>
  Libraries over files that hold a waveform: loading returns it (as a mono
  floating-point array), pitch shift and effect boards return their input, writers store
  what they are given and do not raise;
  \<open>str.lower\<close> is the lower-casing of ASCII.
\<close>

definition demo_libs :: "real list libs" where
  "demo_libs =
     \<lparr>str_lower = ascii_lower,
      librosa_load = (\<lambda>file sr. case file of None \<Rightarrow> Inl LibraryError | Some y \<Rightarrow> Inr y),
      time_stretch = stretch_nearest,
      pitch_shift = (\<lambda>y sr n_steps. Inr y),
      pedalboard = (\<lambda>board y sr. Inr y),
      sf_write = (\<lambda>y sr old. (None, Some y)),
      wavfile_read = (\<lambda>file. Inr (FloatMono file)),
      wavfile_write = (\<lambda>sr pcm old. (None, Some (map (\<lambda>w. real_of_int (sint w) / 32767) pcm)))\<rparr>"

text \<open>A writer that raises after it has truncated the target, as a write to a full disk does.\<close>

definition failing_write :: "real list \<Rightarrow> nat \<Rightarrow> real list option \<Rightarrow> py_error option \<times> real list option" where
  "failing_write y sr old = (Some LibraryError, Some [])"

section \<open>Properties of the resolver\<close>

lemma resolver_cases:
  "get_melody_freqs_for_mood lower mood \<in>
     {(220, [220, 247, 277, 330, 370]), (440, [440, 494, 523, 587, 659]),
      (110, [110, 123, 131, 147, 165]), (330, [330, 370, 415, 440, 494]),
      (261.63, [262, 294, 330, 349, 392])}"
  unfolding get_melody_freqs_for_mood_def Let_def by simp

lemma resolver_five_degrees: "length (snd (get_melody_freqs_for_mood lower mood)) = 5"
  using resolver_cases [of lower mood] by auto

lemma resolver_target_above_base:
  "fst (get_melody_freqs_for_mood lower mood) > 0 \<and>
   fst (get_melody_freqs_for_mood lower mood) \<le> snd (get_melody_freqs_for_mood lower mood) ! 2"
  using resolver_cases [of lower mood] by auto

lemma resolver_chain:
  "get_melody_freqs_for_mood lower (PyStr u) =
     (if \<exists>w \<in> set [''calm'', ''peaceful'', ''serene'', ''relaxed'', ''lo-fi'']. sublist w (lower u)
      then (220, [220, 247, 277, 330, 370])
      else if \<exists>w \<in> set [''energetic'', ''exciting'', ''upbeat'', ''edm'', ''pop'']. sublist w (lower u)
      then (440, [440, 494, 523, 587, 659])
      else if \<exists>w \<in> set [''dark'', ''mysterious'', ''ominous'', ''haunting'']. sublist w (lower u)
      then (110, [110, 123, 131, 147, 165])
      else if \<exists>w \<in> set [''cosmic'', ''ethereal'', ''dreamy'', ''ambient'', ''jazz'']. sublist w (lower u)
      then (330, [330, 370, 415, 440, 494])
      else (261.63, [262, 294, 330, 349, 392]))"
  unfolding get_melody_freqs_for_mood_def Let_def py_value.case list_ex_iff ..

lemma resolve_very_calm_day:
  assumes "lower ''very calm day'' = ''very calm day''"
  shows "get_melody_freqs_for_mood lower (PyStr ''very calm day'') = (220, [220, 247, 277, 330, 370])"
  unfolding get_melody_freqs_for_mood_def Let_def py_value.case assms
  by (simp add: sublist_code)

lemma resolve_xyz_unknown:
  assumes "lower ''XYZ-unknown'' = ''xyz-unknown''"
  shows "get_melody_freqs_for_mood lower (PyStr ''XYZ-unknown'') = (261.63, [262, 294, 330, 349, 392])"
  unfolding get_melody_freqs_for_mood_def Let_def py_value.case assms
  by (simp add: sublist_code)

text \<open>
  Claim C5. The resolver tests the keyword groups in order on the lower-cased string,
  whatever \<open>str.lower\<close> returns for it: a string whose lower-cased form contains a
  keyword of the first group resolves to A3 whatever else it contains, one that contains
  none of the first but one of the second resolves to A4, and so on down to the default;
  the result depends on the string only through its lower-cased form. The two examples
  of the specification evaluate as stated, given what \<open>str.lower\<close> returns for these
  two ASCII strings.
\<close>

theorem resolver_first_match_wins:
  "(lower ''very calm day'' = ''very calm day'' \<longrightarrow>
      get_melody_freqs_for_mood lower (PyStr ''very calm day'') = (220, [220, 247, 277, 330, 370])) \<and>
   (lower ''XYZ-unknown'' = ''xyz-unknown'' \<longrightarrow>
      get_melody_freqs_for_mood lower (PyStr ''XYZ-unknown'') = (261.63, [262, 294, 330, 349, 392])) \<and>
   ((\<exists>w \<in> set [''calm'', ''peaceful'', ''serene'', ''relaxed'', ''lo-fi'']. sublist w (lower s)) \<longrightarrow>
      get_melody_freqs_for_mood lower (PyStr s) = (220, [220, 247, 277, 330, 370])) \<and>
   (\<not> (\<exists>w \<in> set [''calm'', ''peaceful'', ''serene'', ''relaxed'', ''lo-fi'']. sublist w (lower s)) \<and>
    (\<exists>w \<in> set [''energetic'', ''exciting'', ''upbeat'', ''edm'', ''pop'']. sublist w (lower s)) \<longrightarrow>
      get_melody_freqs_for_mood lower (PyStr s) = (440, [440, 494, 523, 587, 659])) \<and>
   (\<not> (\<exists>w \<in> set [''calm'', ''peaceful'', ''serene'', ''relaxed'', ''lo-fi'']. sublist w (lower s)) \<and>
    \<not> (\<exists>w \<in> set [''energetic'', ''exciting'', ''upbeat'', ''edm'', ''pop'']. sublist w (lower s)) \<and>
    (\<exists>w \<in> set [''dark'', ''mysterious'', ''ominous'', ''haunting'']. sublist w (lower s)) \<longrightarrow>
      get_melody_freqs_for_mood lower (PyStr s) = (110, [110, 123, 131, 147, 165])) \<and>
   (\<not> (\<exists>w \<in> set [''calm'', ''peaceful'', ''serene'', ''relaxed'', ''lo-fi'']. sublist w (lower s)) \<and>
    \<not> (\<exists>w \<in> set [''energetic'', ''exciting'', ''upbeat'', ''edm'', ''pop'']. sublist w (lower s)) \<and>
    \<not> (\<exists>w \<in> set [''dark'', ''mysterious'', ''ominous'', ''haunting'']. sublist w (lower s)) \<and>
    (\<exists>w \<in> set [''cosmic'', ''ethereal'', ''dreamy'', ''ambient'', ''jazz'']. sublist w (lower s)) \<longrightarrow>
      get_melody_freqs_for_mood lower (PyStr s) = (330, [330, 370, 415, 440, 494])) \<and>
   (\<not> (\<exists>w \<in> set [''calm'', ''peaceful'', ''serene'', ''relaxed'', ''lo-fi'']. sublist w (lower s)) \<and>
    \<not> (\<exists>w \<in> set [''energetic'', ''exciting'', ''upbeat'', ''edm'', ''pop'']. sublist w (lower s)) \<and>
    \<not> (\<exists>w \<in> set [''dark'', ''mysterious'', ''ominous'', ''haunting'']. sublist w (lower s)) \<and>
    \<not> (\<exists>w \<in> set [''cosmic'', ''ethereal'', ''dreamy'', ''ambient'', ''jazz'']. sublist w (lower s)) \<longrightarrow>
      get_melody_freqs_for_mood lower (PyStr s) = (261.63, [262, 294, 330, 349, 392])) \<and>
   (lower s = lower t \<longrightarrow>
      get_melody_freqs_for_mood lower (PyStr s) = get_melody_freqs_for_mood lower (PyStr t))"
proof (intro conjI impI)
  assume "lower ''very calm day'' = ''very calm day''"
  then show "get_melody_freqs_for_mood lower (PyStr ''very calm day'') = (220, [220, 247, 277, 330, 370])"
    by (rule resolve_very_calm_day)
next
  assume "lower ''XYZ-unknown'' = ''xyz-unknown''"
  then show "get_melody_freqs_for_mood lower (PyStr ''XYZ-unknown'') = (261.63, [262, 294, 330, 349, 392])"
    by (rule resolve_xyz_unknown)
next
  assume "lower s = lower t"
  then show "get_melody_freqs_for_mood lower (PyStr s) = get_melody_freqs_for_mood lower (PyStr t)"
    by (simp only: resolver_chain)
qed (simp_all only: resolver_chain [of lower s] if_True if_False)

lemma lower_very_calm_day: "ascii_lower ''very calm day'' = ''very calm day''"
  by code_simp

lemma lower_xyz_unknown: "ascii_lower ''XYZ-unknown'' = ''xyz-unknown''"
  by code_simp

lemma lower_mixed_case: "ascii_lower ''Calm POP, dark JAZZ'' = ''calm pop, dark jazz''"
  by code_simp

lemma lower_mixed_case2: "ascii_lower ''cALM pop, DARK jazz'' = ''calm pop, dark jazz''"
  by code_simp

lemma lower_pop_dark: "ascii_lower ''POP, dark JAZZ'' = ''pop, dark jazz''"
  by code_simp

lemma lower_dark_jazz: "ascii_lower ''Dark JAZZ'' = ''dark jazz''"
  by code_simp

lemma lower_jazz: "ascii_lower ''JAZZ'' = ''jazz''"
  by code_simp

theorem resolver_first_match_wins_witness:
  "ascii_lower ''very calm day'' = ''very calm day'' \<and>
   get_melody_freqs_for_mood ascii_lower (PyStr ''very calm day'') = (220, [220, 247, 277, 330, 370]) \<and>
   ascii_lower ''XYZ-unknown'' = ''xyz-unknown'' \<and>
   get_melody_freqs_for_mood ascii_lower (PyStr ''XYZ-unknown'') = (261.63, [262, 294, 330, 349, 392]) \<and>
   (\<exists>w \<in> set [''calm'', ''peaceful'', ''serene'', ''relaxed'', ''lo-fi''].
      sublist w (ascii_lower ''Calm POP, dark JAZZ'')) \<and>
   (\<exists>w \<in> set [''energetic'', ''exciting'', ''upbeat'', ''edm'', ''pop''].
      sublist w (ascii_lower ''Calm POP, dark JAZZ'')) \<and>
   (\<exists>w \<in> set [''dark'', ''mysterious'', ''ominous'', ''haunting''].
      sublist w (ascii_lower ''Calm POP, dark JAZZ'')) \<and>
   get_melody_freqs_for_mood ascii_lower (PyStr ''Calm POP, dark JAZZ'') =
     (220, [220, 247, 277, 330, 370]) \<and>
   ascii_lower ''Calm POP, dark JAZZ'' = ascii_lower ''cALM pop, DARK jazz'' \<and>
   get_melody_freqs_for_mood ascii_lower (PyStr ''Calm POP, dark JAZZ'') =
     get_melody_freqs_for_mood ascii_lower (PyStr ''cALM pop, DARK jazz'') \<and>
   \<not> (\<exists>w \<in> set [''calm'', ''peaceful'', ''serene'', ''relaxed'', ''lo-fi''].
      sublist w (ascii_lower ''POP, dark JAZZ'')) \<and>
   (\<exists>w \<in> set [''energetic'', ''exciting'', ''upbeat'', ''edm'', ''pop''].
      sublist w (ascii_lower ''POP, dark JAZZ'')) \<and>
   get_melody_freqs_for_mood ascii_lower (PyStr ''POP, dark JAZZ'') =
     (440, [440, 494, 523, 587, 659]) \<and>
   \<not> (\<exists>w \<in> set [''calm'', ''peaceful'', ''serene'', ''relaxed'', ''lo-fi''].
      sublist w (ascii_lower ''Dark JAZZ'')) \<and>
   \<not> (\<exists>w \<in> set [''energetic'', ''exciting'', ''upbeat'', ''edm'', ''pop''].
      sublist w (ascii_lower ''Dark JAZZ'')) \<and>
   (\<exists>w \<in> set [''dark'', ''mysterious'', ''ominous'', ''haunting''].
      sublist w (ascii_lower ''Dark JAZZ'')) \<and>
   get_melody_freqs_for_mood ascii_lower (PyStr ''Dark JAZZ'') =
     (110, [110, 123, 131, 147, 165]) \<and>
   \<not> (\<exists>w \<in> set [''calm'', ''peaceful'', ''serene'', ''relaxed'', ''lo-fi''].
      sublist w (ascii_lower ''JAZZ'')) \<and>
   \<not> (\<exists>w \<in> set [''energetic'', ''exciting'', ''upbeat'', ''edm'', ''pop''].
      sublist w (ascii_lower ''JAZZ'')) \<and>
   \<not> (\<exists>w \<in> set [''dark'', ''mysterious'', ''ominous'', ''haunting''].
      sublist w (ascii_lower ''JAZZ'')) \<and>
   (\<exists>w \<in> set [''cosmic'', ''ethereal'', ''dreamy'', ''ambient'', ''jazz''].
      sublist w (ascii_lower ''JAZZ'')) \<and>
   get_melody_freqs_for_mood ascii_lower (PyStr ''JAZZ'') =
     (330, [330, 370, 415, 440, 494]) \<and>
   \<not> (\<exists>w \<in> set [''calm'', ''peaceful'', ''serene'', ''relaxed'', ''lo-fi''].
      sublist w (ascii_lower ''XYZ-unknown'')) \<and>
   \<not> (\<exists>w \<in> set [''energetic'', ''exciting'', ''upbeat'', ''edm'', ''pop''].
      sublist w (ascii_lower ''XYZ-unknown'')) \<and>
   \<not> (\<exists>w \<in> set [''dark'', ''mysterious'', ''ominous'', ''haunting''].
      sublist w (ascii_lower ''XYZ-unknown'')) \<and>
   \<not> (\<exists>w \<in> set [''cosmic'', ''ethereal'', ''dreamy'', ''ambient'', ''jazz''].
      sublist w (ascii_lower ''XYZ-unknown''))"
proof -
  have calm: "\<exists>w \<in> set [''calm'', ''peaceful'', ''serene'', ''relaxed'', ''lo-fi''].
      sublist w (ascii_lower ''Calm POP, dark JAZZ'')"
    unfolding lower_mixed_case by (simp add: sublist_code)
  have pop: "\<exists>w \<in> set [''energetic'', ''exciting'', ''upbeat'', ''edm'', ''pop''].
      sublist w (ascii_lower ''Calm POP, dark JAZZ'')"
    unfolding lower_mixed_case by (simp add: sublist_code)
  have dark: "\<exists>w \<in> set [''dark'', ''mysterious'', ''ominous'', ''haunting''].
      sublist w (ascii_lower ''Calm POP, dark JAZZ'')"
    unfolding lower_mixed_case by (simp add: sublist_code)
  have same: "ascii_lower ''Calm POP, dark JAZZ'' = ascii_lower ''cALM pop, DARK jazz''"
    unfolding lower_mixed_case lower_mixed_case2 ..
  have p1: "\<not> (\<exists>w \<in> set [''calm'', ''peaceful'', ''serene'', ''relaxed'', ''lo-fi''].
      sublist w (ascii_lower ''POP, dark JAZZ''))"
    unfolding lower_pop_dark by (simp add: sublist_code)
  have p2: "\<exists>w \<in> set [''energetic'', ''exciting'', ''upbeat'', ''edm'', ''pop''].
      sublist w (ascii_lower ''POP, dark JAZZ'')"
    unfolding lower_pop_dark by (simp add: sublist_code)
  have d1: "\<not> (\<exists>w \<in> set [''calm'', ''peaceful'', ''serene'', ''relaxed'', ''lo-fi''].
      sublist w (ascii_lower ''Dark JAZZ''))"
    unfolding lower_dark_jazz by (simp add: sublist_code)
  have d2: "\<not> (\<exists>w \<in> set [''energetic'', ''exciting'', ''upbeat'', ''edm'', ''pop''].
      sublist w (ascii_lower ''Dark JAZZ''))"
    unfolding lower_dark_jazz by (simp add: sublist_code)
  have d3: "\<exists>w \<in> set [''dark'', ''mysterious'', ''ominous'', ''haunting''].
      sublist w (ascii_lower ''Dark JAZZ'')"
    unfolding lower_dark_jazz by (simp add: sublist_code)
  have j1: "\<not> (\<exists>w \<in> set [''calm'', ''peaceful'', ''serene'', ''relaxed'', ''lo-fi''].
      sublist w (ascii_lower ''JAZZ''))"
    unfolding lower_jazz by (simp add: sublist_code)
  have j2: "\<not> (\<exists>w \<in> set [''energetic'', ''exciting'', ''upbeat'', ''edm'', ''pop''].
      sublist w (ascii_lower ''JAZZ''))"
    unfolding lower_jazz by (simp add: sublist_code)
  have j3: "\<not> (\<exists>w \<in> set [''dark'', ''mysterious'', ''ominous'', ''haunting''].
      sublist w (ascii_lower ''JAZZ''))"
    unfolding lower_jazz by (simp add: sublist_code)
  have j4: "\<exists>w \<in> set [''cosmic'', ''ethereal'', ''dreamy'', ''ambient'', ''jazz''].
      sublist w (ascii_lower ''JAZZ'')"
    unfolding lower_jazz by (simp add: sublist_code)
  have x1: "\<not> (\<exists>w \<in> set [''calm'', ''peaceful'', ''serene'', ''relaxed'', ''lo-fi''].
      sublist w (ascii_lower ''XYZ-unknown''))"
    unfolding lower_xyz_unknown by (simp add: sublist_code)
  have x2: "\<not> (\<exists>w \<in> set [''energetic'', ''exciting'', ''upbeat'', ''edm'', ''pop''].
      sublist w (ascii_lower ''XYZ-unknown''))"
    unfolding lower_xyz_unknown by (simp add: sublist_code)
  have x3: "\<not> (\<exists>w \<in> set [''dark'', ''mysterious'', ''ominous'', ''haunting''].
      sublist w (ascii_lower ''XYZ-unknown''))"
    unfolding lower_xyz_unknown by (simp add: sublist_code)
  have x4: "\<not> (\<exists>w \<in> set [''cosmic'', ''ethereal'', ''dreamy'', ''ambient'', ''jazz''].
      sublist w (ascii_lower ''XYZ-unknown''))"
    unfolding lower_xyz_unknown by (simp add: sublist_code)
  note T = resolver_first_match_wins
  from T [of ascii_lower "''Calm POP, dark JAZZ''" "''cALM pop, DARK jazz''"]
  have r1: "get_melody_freqs_for_mood ascii_lower (PyStr ''very calm day'')
        = (220, [220, 247, 277, 330, 370])"
    and r2: "get_melody_freqs_for_mood ascii_lower (PyStr ''XYZ-unknown'')
        = (261.63, [262, 294, 330, 349, 392])"
    and r3: "get_melody_freqs_for_mood ascii_lower (PyStr ''Calm POP, dark JAZZ'')
        = (220, [220, 247, 277, 330, 370])"
    and r4: "get_melody_freqs_for_mood ascii_lower (PyStr ''Calm POP, dark JAZZ'') =
        get_melody_freqs_for_mood ascii_lower (PyStr ''cALM pop, DARK jazz'')"
    using calm same lower_very_calm_day lower_xyz_unknown by blast+
  from T [of ascii_lower "''POP, dark JAZZ''" "''POP, dark JAZZ''"]
  have r5: "get_melody_freqs_for_mood ascii_lower (PyStr ''POP, dark JAZZ'')
        = (440, [440, 494, 523, 587, 659])"
    using p1 p2 by blast
  from T [of ascii_lower "''Dark JAZZ''" "''Dark JAZZ''"]
  have r6: "get_melody_freqs_for_mood ascii_lower (PyStr ''Dark JAZZ'')
        = (110, [110, 123, 131, 147, 165])"
    using d1 d2 d3 by blast
  from T [of ascii_lower "''JAZZ''" "''JAZZ''"]
  have r7: "get_melody_freqs_for_mood ascii_lower (PyStr ''JAZZ'')
        = (330, [330, 370, 415, 440, 494])"
    using j1 j2 j3 j4 by blast
  from T [of ascii_lower "''XYZ-unknown''" "''XYZ-unknown''"]
  have r8: "get_melody_freqs_for_mood ascii_lower (PyStr ''XYZ-unknown'')
        = (261.63, [262, 294, 330, 349, 392])"
    using x1 x2 x3 x4 by blast
  show ?thesis
    apply (intro conjI)
    apply (rule lower_very_calm_day)
    apply (rule r1)
    apply (rule lower_xyz_unknown)
    apply (rule r8)
    apply (rule calm)
    apply (rule pop)
    apply (rule dark)
    apply (rule r3)
    apply (rule same)
    apply (rule r4)
    apply (rule p1)
    apply (rule p2)
    apply (rule r5)
    apply (rule d1)
    apply (rule d2)
    apply (rule d3)
    apply (rule r6)
    apply (rule j1)
    apply (rule j2)
    apply (rule j3)
    apply (rule j4)
    apply (rule r7)
    apply (rule x1)
    apply (rule x2)
    apply (rule x3)
    apply (rule x4)
    done
qed

text \<open>
  Claim C4. For every mood (a string or not) and whatever \<open>str.lower\<close> returns, the
  resolved scale has five degrees, the target frequency is the one at index 2, the shift
  is \<open>max 4 (0.7 * (12 * log2 (target / base)) + 4)\<close>, and it is at least 4 semitones.
\<close>

theorem pitch_shift_formula:
  "length (snd (get_melody_freqs_for_mood lower mood)) = 5 \<and>
   semitones_shift lower mood =
     max 4 (0.7 * (12 * log 2 (snd (get_melody_freqs_for_mood lower mood) ! 2
                                 / fst (get_melody_freqs_for_mood lower mood))) + 4) \<and>
   4 \<le> semitones_shift lower mood"
proof -
  obtain b ds where r: "get_melody_freqs_for_mood lower mood = (b, ds)"
    by (cases "get_melody_freqs_for_mood lower mood")
  have len: "length ds = 5"
    using resolver_five_degrees [of lower mood] r by simp
  have "semitones_shift lower mood = max 4 (0.7 * (12 * log 2 (ds ! 2 / b)) + 4)"
    unfolding semitones_shift_def r Let_def by (simp add: len mult.commute)
  then show ?thesis using r len by simp
qed

section \<open>Properties of normalisation and quantisation\<close>

lemma np_max_abs_Inr:
  "np_max_abs a = Inr p \<Longrightarrow> a \<noteq> [] \<and> p = Max (set (map abs a))"
  by (auto simp: np_max_abs_def split: if_splits)

lemma peak_bounds:
  assumes "np_max_abs a = Inr p"
  shows "\<forall>x \<in> set a. \<bar>x\<bar> \<le> p" and "\<exists>x \<in> set a. \<bar>x\<bar> = p"
proof -
  from assms have ne: "a \<noteq> []" and p: "p = Max (set (map abs a))"
    using np_max_abs_Inr by auto
  show "\<forall>x \<in> set a. \<bar>x\<bar> \<le> p"
    unfolding p by (auto intro: Max_ge)
  have "Max (set (map abs a)) \<in> set (map abs a)"
    using ne by (intro Max_in) auto
  then show "\<exists>x \<in> set a. \<bar>x\<bar> = p"
    unfolding p by auto
qed

lemma scaled_abs:
  "0 < p \<Longrightarrow> \<bar>x / p * 0.95\<bar> = \<bar>x\<bar> / p * (0.95::real)"
  by (simp add: abs_mult)

lemma scaled_peak:
  assumes "np_max_abs a = Inr p" "0 < p"
  shows "np_max_abs (peak_normalize p a) = Inr 0.95"
proof -
  from assms have ne: "a \<noteq> []" using np_max_abs_Inr by auto
  let ?b = "map (\<lambda>x. x / p * 0.95) a"
  have le: "\<forall>y \<in> set (map abs ?b). y \<le> 0.95"
  proof
    fix y assume "y \<in> set (map abs ?b)"
    then obtain x where x: "x \<in> set a" and y: "y = \<bar>x / p * 0.95\<bar>" by auto
    have "\<bar>x\<bar> \<le> p" using peak_bounds(1) [OF assms(1)] x by blast
    then have "\<bar>x\<bar> / p \<le> 1" using assms(2) by simp
    then show "y \<le> 0.95" unfolding y scaled_abs [OF assms(2)] by simp
  qed
  obtain x where x: "x \<in> set a" and xp: "\<bar>x\<bar> = p"
    using peak_bounds(2) [OF assms(1)] by blast
  have "\<bar>x / p * 0.95\<bar> = 0.95"
    unfolding scaled_abs [OF assms(2)] xp using assms(2) by simp
  then have mem: "0.95 \<in> set (map abs ?b)"
    using x by force
  have "Max (set (map abs ?b)) = 0.95"
    using le mem by (intro Max_eqI) auto
  then show ?thesis
    using ne assms(2) by (simp add: np_max_abs_def peak_normalize_def)
qed

lemma sint16_of_int:
  "- 32768 \<le> k \<Longrightarrow> k < 32768 \<Longrightarrow> sint (word_of_int k :: 16 word) = k"
  by (simp add: signed_of_int signed_take_bit_int_eq_self)

lemma py_int_abs: "\<bar>py_int x\<bar> = \<lfloor>\<bar>x\<bar>\<rfloor>"
  unfolding py_int_def by (auto simp: abs_if ceiling_def; linarith)

lemma fl: "\<lfloor>0.95 * 32767 :: real\<rfloor> = 31128"
  by simp

lemma py_int_abs_le: "\<bar>x\<bar> \<le> c \<Longrightarrow> \<bar>py_int x\<bar> \<le> \<lfloor>c\<rfloor>"
  unfolding py_int_abs by (rule floor_mono)


lemma normalized_abs_le:
  assumes "np_max_abs mixed = Inr peak" "0 < peak" "x \<in> set mixed"
  shows "\<bar>x / peak * 0.95\<bar> \<le> 0.95"
proof -
  have "\<bar>x\<bar> \<le> peak" using peak_bounds(1) [OF assms(1)] assms(3) by blast
  then have "\<bar>x\<bar> / peak \<le> 1" using assms(2) by simp
  then show ?thesis unfolding scaled_abs [OF assms(2)] by simp
qed

lemma clip_unit_range: "\<forall>x \<in> set (np_clip a (- 1) 1). - 1 \<le> x \<and> x \<le> 1"
  by (auto simp: np_clip_def)

lemma clip_id: "\<forall>x \<in> set a. \<bar>x\<bar> \<le> 1 \<Longrightarrow> np_clip a (- 1) 1 = a"
  unfolding np_clip_def by (induction a) (auto simp: min_def max_def)

lemma quantized_sint:
  assumes "\<bar>y\<bar> \<le> 1"
  shows "sint (word_of_int (py_int (y * 32767)) :: 16 word) = py_int (y * 32767)"
proof -
  have "\<bar>y * 32767\<bar> \<le> 32767" using assms by (simp add: abs_mult)
  then have "\<bar>py_int (y * 32767)\<bar> \<le> \<lfloor>32767::real\<rfloor>" by (rule py_int_abs_le)
  then have "- 32768 \<le> py_int (y * 32767)" "py_int (y * 32767) < 32768" by auto
  then show ?thesis by (rule sint16_of_int)
qed

lemma master_samples_normalized:
  assumes "np_max_abs mixed = Inr peak" and "0 < peak"
  shows "peak_normalize peak mixed = map (\<lambda>x. x * (0.95 / peak)) mixed \<and>
         np_max_abs (peak_normalize peak mixed) = Inr 0.95 \<and>
         np_clip (peak_normalize peak mixed) (- 1) 1 = peak_normalize peak mixed \<and>
         (\<forall>x \<in> set (np_clip (peak_normalize peak mixed) (- 1) 1). - 1 \<le> x \<and> x \<le> 1) \<and>
         (\<exists>out. master_samples mixed = Inr out \<and> length out = length mixed \<and>
            (\<forall>i < length mixed. sint (out ! i) = py_int (mixed ! i * (0.95 / peak) * 32767)) \<and>
            (\<forall>q \<in> set out. \<bar>sint q\<bar> \<le> 31128) \<and>
            (\<exists>q \<in> set out. \<bar>sint q\<bar> = 31128)) \<and>
         \<bar>31128 / 32767 - 0.95\<bar> < (1 / 32767 :: real)"
proof -
  let ?f = "\<lambda>x. x / peak * 0.95"
  let ?n = "peak_normalize peak mixed"
  have n: "?n = map ?f mixed" using assms(2) by (simp add: peak_normalize_def)
  have scale: "?n = map (\<lambda>x. x * (0.95 / peak)) mixed" unfolding n by simp
  have le: "\<bar>?f x\<bar> \<le> 0.95" if "x \<in> set mixed" for x
    using normalized_abs_le [OF assms that] .
  have le1: "\<bar>?f x\<bar> \<le> 1" if "x \<in> set mixed" for x
    using le [OF that] by (rule order_trans) simp
  have "\<forall>y \<in> set ?n. \<bar>y\<bar> \<le> 1" unfolding n using le1 by auto
  then have clip: "np_clip ?n (- 1) 1 = ?n" by (rule clip_id)
  let ?out = "np_int16 (map (\<lambda>x. x * 32767) ?n)"
  have ms: "master_samples mixed = Inr ?out"
    unfolding master_samples_def assms(1) bind_err_def Let_def using clip by simp
  have nth: "?out ! i = word_of_int (py_int (?f (mixed ! i) * 32767))" if "i < length mixed" for i
    unfolding n np_int16_def using that by simp
  have sint_f: "sint (word_of_int (py_int (?f x * 32767)) :: 16 word) = py_int (?f x * 32767)"
    if "x \<in> set mixed" for x
  proof (rule quantized_sint)
    show "\<bar>?f x\<bar> \<le> 1" using le [OF that] by (rule order_trans) simp
  qed
  have abs_f: "\<bar>py_int (?f x * 32767)\<bar> \<le> 31128" if "x \<in> set mixed" for x
  proof -
    have "\<bar>?f x * 32767\<bar> \<le> 0.95 * 32767" using le [OF that] by (simp add: abs_mult)
    then have "\<bar>py_int (?f x * 32767)\<bar> \<le> \<lfloor>0.95 * 32767 :: real\<rfloor>" by (rule py_int_abs_le)
    then show ?thesis by simp
  qed
  have set_out: "set ?out = (\<lambda>x. word_of_int (py_int (?f x * 32767))) ` set mixed"
    unfolding n np_int16_def by (simp add: image_image)
  have c1: "\<forall>i < length mixed. sint (?out ! i) = py_int (mixed ! i * (0.95 / peak) * 32767)"
  proof (intro allI impI)
    fix i assume i: "i < length mixed"
    have eq: "mixed ! i * (0.95 / peak) * 32767 = ?f (mixed ! i) * 32767" by simp
    show "sint (?out ! i) = py_int (mixed ! i * (0.95 / peak) * 32767)"
      unfolding eq nth [OF i] using i by (intro sint_f) simp
  qed
  have c2: "\<forall>q \<in> set ?out. \<bar>sint q\<bar> \<le> 31128"
    unfolding set_out using sint_f abs_f by simp
  obtain x where x: "x \<in> set mixed" and xp: "\<bar>x\<bar> = peak"
    using peak_bounds(2) [OF assms(1)] by blast
  have "\<bar>?f x\<bar> = 0.95"
    unfolding scaled_abs [OF assms(2)] xp using assms(2) by simp
  then have "\<bar>?f x * 32767\<bar> = 0.95 * 32767"
    by (simp only: abs_mult)
  then have "\<lfloor>\<bar>?f x * 32767\<bar>\<rfloor> = \<lfloor>0.95 * 32767 :: real\<rfloor>"
    by (simp only:)
  also have "\<dots> = 31128" by simp
  finally have "\<bar>py_int (?f x * 32767)\<bar> = 31128"
    by (simp only: py_int_abs)
  then have c3: "\<exists>q \<in> set ?out. \<bar>sint q\<bar> = 31128"
    unfolding set_out using x sint_f by auto
  have len: "length ?out = length mixed" by (simp add: np_int16_def n)
  have arith: "\<bar>31128 / 32767 - 0.95\<bar> < (1 / 32767 :: real)" by simp
  have range: "\<forall>x \<in> set (np_clip ?n (- 1) 1). - 1 \<le> x \<and> x \<le> 1"
    by (rule clip_unit_range)
  have ex: "\<exists>out. master_samples mixed = Inr out \<and> length out = length mixed \<and>
            (\<forall>i < length mixed. sint (out ! i) = py_int (mixed ! i * (0.95 / peak) * 32767)) \<and>
            (\<forall>q \<in> set out. \<bar>sint q\<bar> \<le> 31128) \<and>
            (\<exists>q \<in> set out. \<bar>sint q\<bar> = 31128)"
    using ms len c1 c2 c3 by blast
  show ?thesis
    using scale scaled_peak [OF assms] clip range ex arith by blast
qed


section \<open>Properties of the sidechain\<close>

lemma foldM_err_append:
  "foldM_err f (xs @ ys) s = bind_err (foldM_err f xs s) (foldM_err f ys)"
  by (induction xs arbitrary: s) (auto simp: bind_err_def split: sum.splits)

lemma length_fill_slice: "i \<le> length a \<Longrightarrow> length (fill_slice a i j v) = length a"
  by (auto simp: fill_slice_def min_def max_def)

lemma nth_fill_slice:
  assumes "i \<le> j" "k < length a"
  shows "fill_slice a i j v ! k = (if i \<le> k \<and> k < j then v else a ! k)"
proof -
  have "max i j = j" using assms by simp
  then show ?thesis
    using assms unfolding fill_slice_def
    by (auto simp: nth_append min_def)
qed

lemma length_envelope_step:
  "i \<le> length env \<Longrightarrow> length (envelope_step w vocals i env) = length env"
  by (simp add: envelope_step_def Let_def length_fill_slice)

lemma duck_gain_range: "0.4 \<le> duck_gain active i \<and> duck_gain active i \<le> 1"
  by (induction i) auto

lemma duck_curve_prefix:
  assumes "k \<le> n" "k \<le> length active"
  shows "foldM_err (duck_step active) [0..<k] (replicate n 1) =
           Inr (map (duck_gain active) [0..<k] @ replicate (n - k) 1)"
  using assms
proof (induction k)
  case 0
  then show ?case by simp
next
  case (Suc k)
  let ?s = "map (duck_gain active) [0..<k] @ replicate (n - k) 1"
  have prev: "foldM_err (duck_step active) [0..<k] (replicate n 1) = Inr ?s"
    using Suc by simp
  have rep: "replicate (n - k) (1::real) = 1 # replicate (n - Suc k) 1"
    using Suc.prems by (cases "n - k") (auto simp: Suc_diff_Suc)
  have upd: "?s[k := v] = map (duck_gain active) [0..<k] @ v # replicate (n - Suc k) 1" for v
    unfolding rep by (simp add: list_update_append)
  have pred: "?s ! (k - 1) = duck_gain active (k - 1)" if "0 < k"
    using that by (simp add: nth_append)
  have step: "duck_step active ?s k = Inr (map (duck_gain active) [0..<Suc k] @ replicate (n - Suc k) 1)"
  proof (cases k)
    case 0
    then show ?thesis using Suc.prems unfolding duck_step_def Let_def upd by auto
  next
    case (Suc j)
    then have "0 < k" by simp
    from pred [OF this] show ?thesis
      using Suc Suc.prems unfolding duck_step_def Let_def upd by simp
  qed
  show ?case
    unfolding upt_Suc_append [OF le0] foldM_err_append prev bind_err_def
    using step by simp
qed

lemma ducking_curve_ok:
  "n \<le> length active \<Longrightarrow> ducking_curve active n = Inr (map (duck_gain active) [0..<n])"
  unfolding ducking_curve_def using duck_curve_prefix [of n n active] by simp

lemma ducking_curve_index_error:
  assumes "length active < n"
  shows "ducking_curve active n = Inl IndexError"
proof -
  let ?k = "length active"
  have split: "[0..<n] = [0..<?k] @ ?k # [Suc ?k..<n]"
    using assms by (metis le0 upt_add_eq_append upt_conv_Cons le_add_diff_inverse less_imp_le_nat)
  have prev: "foldM_err (duck_step active) [0..<?k] (replicate n 1) =
      Inr (map (duck_gain active) [0..<?k] @ replicate (n - ?k) 1)"
    using assms by (intro duck_curve_prefix) auto
  show ?thesis
    unfolding ducking_curve_def split foldM_err_append prev bind_err_def
    by (simp add: duck_step_def)
qed


lemma py_range_bound:
  assumes "0 < step" "i \<in> set (py_range stop step)"
  shows "i < stop"
proof -
  from assms(2) obtain k where k: "k < (stop + step - 1) div step" and i: "i = k * step"
    by (auto simp: py_range_def)
  from k have "Suc k \<le> (stop + step - 1) div step" by simp
  then have "Suc k * step \<le> stop + step - 1"
    using assms(1) by (simp add: less_eq_div_iff_mult_less_eq)
  then show ?thesis using assms(1) unfolding i by simp
qed

lemma rms_zeros: "rms (replicate k 0) = 0"
  by (simp add: rms_def np_mean_def sum_list_replicate)

lemma rms_nonneg: "0 \<le> rms a"
  unfolding rms_def np_mean_def
  by (intro real_sqrt_ge_zero divide_nonneg_nonneg sum_list_nonneg) auto

lemma envelope_zero_step:
  assumes "i < n" "rms (take w (drop i vocals)) = 0"
  shows "envelope_step w vocals i (replicate n 0) = replicate n 0"
proof (rule nth_equalityI)
  show len: "length (envelope_step w vocals i (replicate n 0)) = length (replicate n (0::real))"
    using assms(1) by (simp add: length_envelope_step)
  fix k assume "k < length (envelope_step w vocals i (replicate n 0))"
  then have k: "k < n" using len by simp
  show "envelope_step w vocals i (replicate n 0) ! k = replicate n 0 ! k"
    unfolding envelope_step_def Let_def assms(2)
    using k assms(1) by (simp add: nth_fill_slice)
qed

lemma rms_all_zero:
  assumes "\<forall>x \<in> set a. x = 0"
  shows "rms a = 0"
proof -
  have "sum_list (map (\<lambda>x. x\<^sup>2) a) = 0"
    using assms by (induction a) auto
  then show ?thesis by (simp add: rms_def np_mean_def)
qed

lemma fold_envelope_zero:
  assumes "\<forall>i \<in> set idxs. i < n" "\<And>i. rms (take w (drop i vocals)) = 0"
  shows "fold (envelope_step w vocals) idxs (replicate n 0) = replicate n 0"
  using assms(1)
proof (induction idxs)
  case Nil
  show ?case by simp
next
  case (Cons i idxs)
  then have i: "i < n" by simp
  have "envelope_step w vocals i (replicate n 0) = replicate n 0"
    by (rule envelope_zero_step [OF i assms(2)])
  then show ?case using Cons by simp
qed

lemma envelope_of_silence:
  assumes "0 < w div 2" "\<forall>x \<in> set vocals. x = 0"
  shows "vocal_envelope_of w vocals = replicate (length vocals) 0"
proof -
  have r: "rms (take w (drop i vocals)) = 0" for i
  proof (rule rms_all_zero, rule ballI)
    fix x assume "x \<in> set (take w (drop i vocals))"
    then have "x \<in> set (drop i vocals)" by (rule in_set_takeD)
    then have "x \<in> set vocals" by (rule in_set_dropD)
    then show "x = 0" using assms(2) by blast
  qed
  have "\<forall>i \<in> set (py_range (length vocals - w) (w div 2)). i < length vocals"
  proof
    fix i assume "i \<in> set (py_range (length vocals - w) (w div 2))"
    with assms(1) have "i < length vocals - w" by (rule py_range_bound)
    then show "i < length vocals" by simp
  qed
  then show ?thesis
    unfolding vocal_envelope_of_def by (rule fold_envelope_zero) (rule r)
qed

lemma envelope_of_short:
  assumes "length vocals \<le> w"
  shows "vocal_envelope_of w vocals = replicate (length vocals) 0"
proof -
  have "(w div 2 - 1) div (w div 2) = 0"
    by (cases "w div 2 = 0") simp_all
  then show ?thesis
    using assms by (simp add: vocal_envelope_of_def py_range_def)
qed

lemma duck_gain_inactive:
  assumes "\<forall>j \<le> i. \<not> active ! j"
  shows "duck_gain active i = 1"
  using assms by (induction i) auto

lemma duck_gain_active:
  assumes "\<forall>j \<le> i. active ! j"
  shows "duck_gain active i = 0.4"
  using assms by (induction i) auto


text \<open>
  What holds of the ducking curve for every vocal: its values lie in \<open>[0.4, 1]\<close>, and
  over a run of inactive positions the distance to 1 shrinks by the factor 0.99 per sample.
\<close>

lemma ducking_curve_range:
  assumes "ducking_curve active n = Inr d"
  shows "\<forall>x \<in> set d. 0.4 \<le> x \<and> x \<le> 1"
proof (cases "n \<le> length active")
  case True
  then have "d = map (duck_gain active) [0..<n]"
    using assms ducking_curve_ok by simp
  then show ?thesis using duck_gain_range by auto
next
  case False
  then have "ducking_curve active n = Inl IndexError"
    by (intro ducking_curve_index_error) simp
  then show ?thesis using assms by simp
qed

lemma duck_gain_release:
  assumes "\<forall>j. i < j \<and> j \<le> i + k \<longrightarrow> \<not> active ! j"
  shows "1 - duck_gain active (i + k) = (1 - duck_gain active i) * 0.99 ^ k"
  using assms
proof (induction k)
  case 0
  show ?case by simp
next
  case (Suc k)
  have ih: "1 - duck_gain active (i + k) = (1 - duck_gain active i) * 0.99 ^ k"
    using Suc by simp
  have "\<not> active ! Suc (i + k)" using Suc.prems by simp
  then have "1 - duck_gain active (i + Suc k) = (1 - duck_gain active (i + k)) * 0.99"
    by (simp add: algebra_simps)
  then show ?case unfolding ih by simp
qed

lemma envelope_latched_prefix:
  assumes "0 < h" "h < w" "m * h + w < n" "t < rms (take w vocals)"
  shows "length (fold (envelope_step w vocals) (map (\<lambda>k. k * h) [0..<Suc m]) (replicate n 0)) = n \<and>
         (\<forall>j < m * h + w.
            t < fold (envelope_step w vocals) (map (\<lambda>k. k * h) [0..<Suc m]) (replicate n 0) ! j)"
  using assms(3)
proof (induction m)
  case 0
  let ?v = "max (replicate n (0::real) ! 0) (rms (take w vocals))"
  have first: "fold (envelope_step w vocals) (map (\<lambda>k. k * h) [0..<Suc 0]) (replicate n 0)
      = fill_slice (replicate n 0) 0 w ?v"
    by (simp add: envelope_step_def Let_def)
  have v: "t < ?v" using assms(4) by simp
  have "fill_slice (replicate n 0) 0 w ?v ! j = ?v" if "j < w" for j
  proof -
    have "j < length (replicate n (0::real))" using that 0 by simp
    then show ?thesis using that by (subst nth_fill_slice) simp_all
  qed
  then show ?case unfolding first using v by (simp add: length_fill_slice)
next
  case (Suc m)
  let ?prev = "fold (envelope_step w vocals) (map (\<lambda>k. k * h) [0..<Suc m]) (replicate n 0)"
  let ?i = "Suc m * h"
  let ?v = "max (?prev ! ?i) (rms (take w (drop ?i vocals)))"
  have mprev: "m * h + w < n" using Suc.prems by simp
  have len: "length ?prev = n" and old: "\<And>j. j < m * h + w \<Longrightarrow> t < ?prev ! j"
    using Suc.IH [OF mprev] by blast+
  have next_eq: "fold (envelope_step w vocals) (map (\<lambda>k. k * h) [0..<Suc (Suc m)]) (replicate n 0)
      = fill_slice ?prev ?i (?i + w) ?v"
    by (simp add: envelope_step_def Let_def)
  have i_old: "?i < m * h + w" using assms(2) by simp
  have v: "t < ?v" using old [OF i_old] by simp
  have i_le: "?i \<le> length ?prev" using Suc.prems len by simp
  have "t < fill_slice ?prev ?i (?i + w) ?v ! j" if j: "j < ?i + w" for j
  proof -
    have jn: "j < length ?prev" using j Suc.prems len by simp
    have "fill_slice ?prev ?i (?i + w) ?v ! j = (if ?i \<le> j \<and> j < ?i + w then ?v else ?prev ! j)"
      by (rule nth_fill_slice) (use jn in simp_all)
    moreover have "t < ?prev ! j" if "\<not> ?i \<le> j"
      using that i_old by (intro old) simp
    ultimately show ?thesis using v j by auto
  qed
  then show ?case
    unfolding next_eq using i_le len by (simp add: length_fill_slice)
qed

lemma py_range_windows:
  assumes "0 < h" "0 < s"
  shows "\<exists>m. py_range s h = map (\<lambda>k. k * h) [0..<Suc m] \<and> m * h < s \<and> s \<le> m * h + h"
proof -
  let ?M = "(s + h - 1) div h"
  have dm: "?M * h + (s + h - 1) mod h = s + h - 1" by simp
  have md: "(s + h - 1) mod h < h" using assms(1) by simp
  have ge: "s \<le> ?M * h" using dm md by linarith
  have lt: "?M * h < s + h" using dm assms(1) by linarith
  have pos: "0 < ?M" using ge assms(2) by (cases "?M") auto
  then obtain m where m: "?M = Suc m" by (cases "?M") auto
  have "m * h < s" using lt unfolding m by simp
  moreover have "s \<le> m * h + h" using ge unfolding m by simp
  ultimately show ?thesis unfolding py_range_def m by blast
qed

lemma envelope_latched:
  assumes "2 \<le> w" "w < length vocals" "t < rms (take w vocals)"
  shows "length (vocal_envelope_of w vocals) = length vocals \<and>
         (\<forall>j. j + w div 2 < length vocals \<longrightarrow> t < vocal_envelope_of w vocals ! j)"
proof -
  let ?h = "w div 2"
  let ?n = "length vocals"
  have h: "0 < ?h" "?h < w" using assms(1) by auto
  have s: "0 < ?n - w" using assms(2) by simp
  obtain m where r: "py_range (?n - w) ?h = map (\<lambda>k. k * ?h) [0..<Suc m]"
    and lo: "m * ?h < ?n - w" and hi: "?n - w \<le> m * ?h + ?h"
    using py_range_windows [OF h(1) s] by blast
  have fit: "m * ?h + w < ?n" using lo by simp
  have env: "vocal_envelope_of w vocals =
      fold (envelope_step w vocals) (map (\<lambda>k. k * ?h) [0..<Suc m]) (replicate ?n 0)"
    unfolding vocal_envelope_of_def r ..
  have P: "length (vocal_envelope_of w vocals) = ?n"
    and Q: "\<And>j. j < m * ?h + w \<Longrightarrow> t < vocal_envelope_of w vocals ! j"
    unfolding env using envelope_latched_prefix [OF h fit assms(3)] by blast+
  have "t < vocal_envelope_of w vocals ! j" if "j + ?h < ?n" for j
  proof (rule Q)
    show "j < m * ?h + w" using that hi assms(2) by linarith
  qed
  then show ?thesis using P by blast
qed

lemma map2_mult_ones: "map2 (*) music (replicate (length music) (1::real)) = music"
  by (induction music) auto

lemma window_at_sample_rate: "window_size 44100 = 2205"
  by (simp add: window_size_def py_int_def)

lemma length_active_of: "length (active_of env) = length env"
  by (simp add: active_of_def)

lemma nth_active_of: "j < length env \<Longrightarrow> active_of env ! j = (0.01 < env ! j)"
  by (simp add: active_of_def)

lemma active_of_zeros: "active_of (replicate n 0) = replicate n False"
  by (simp add: active_of_def)

lemma sidechain_zero_envelope:
  assumes "0 < window_size sr div 2"
    and "length music \<le> length vocals"
    and "vocal_envelope_of (window_size sr) vocals = replicate (length vocals) 0"
  shows "apply_sidechain music vocals sr = Inr music"
proof -
  let ?active = "active_of (vocal_envelope_of (window_size sr) vocals)"
  have active: "?active = replicate (length vocals) False"
    unfolding assms(3) by (rule active_of_zeros)
  have gain: "duck_gain ?active i = 1" if "i < length music" for i
  proof (rule duck_gain_inactive, intro allI impI)
    fix j assume "j \<le> i"
    then have "j < length vocals" using that assms(2) by simp
    then show "\<not> ?active ! j" unfolding active by simp
  qed
  have "ducking_curve ?active (length music) = Inr (map (duck_gain ?active) [0..<length music])"
    by (rule ducking_curve_ok) (simp add: active assms(2))
  also have "map (duck_gain ?active) [0..<length music] = replicate (length music) 1"
    by (rule nth_equalityI) (simp_all add: gain)
  finally have curve: "ducking_curve ?active (length music) = Inr (replicate (length music) 1)" .
  show ?thesis
    unfolding apply_sidechain_def Let_def curve bind_err_def
    using assms(1) by (simp add: map2_mult_ones)
qed

lemma sidechain_of_silence:
  assumes "\<forall>x \<in> set vocals. x = 0" "length music \<le> length vocals"
  shows "apply_sidechain music vocals SAMPLE_RATE = Inr music"
proof -
  have h: "0 < window_size SAMPLE_RATE div 2"
    unfolding SAMPLE_RATE_def window_at_sample_rate by simp
  show ?thesis
    by (rule sidechain_zero_envelope [OF h assms(2) envelope_of_silence [OF h assms(1)]])
qed

lemma sidechain_of_short:
  assumes "length vocals \<le> 2205" "length music \<le> length vocals"
  shows "apply_sidechain music vocals SAMPLE_RATE = Inr music"
proof -
  have h: "0 < window_size SAMPLE_RATE div 2"
    unfolding SAMPLE_RATE_def window_at_sample_rate by simp
  have "length vocals \<le> window_size SAMPLE_RATE"
    unfolding SAMPLE_RATE_def window_at_sample_rate by (rule assms(1))
  then show ?thesis
    by (rule sidechain_zero_envelope [OF h assms(2) envelope_of_short])
qed

text \<open>
  Claim C10. If the backing track is not longer than the vocal buffer (as
  \<^verbatim>\<open>mix_and_master\<close> guarantees by padding) and the vocal is identically zero or not
  longer than one RMS window, every ducking gain is exactly 1 and \<^verbatim>\<open>_apply_sidechain\<close>
  returns the backing track unchanged. At the sample rate 44100 the window has 2205
  samples.
\<close>

theorem sidechain_silence_identity:
  assumes "2 \<le> window_size sr"
    and "length music \<le> length vocals"
    and "(\<forall>x \<in> set vocals. x = 0) \<or> length vocals \<le> window_size sr"
  shows "ducking_curve
           (active_of (vocal_envelope_of (window_size sr) vocals))
           (length music) = Inr (replicate (length music) 1) \<and>
         apply_sidechain music vocals sr = Inr music"
proof -
  let ?w = "window_size sr"
  let ?active = "active_of (vocal_envelope_of ?w vocals)"
  have h: "0 < ?w div 2" using assms(1) by simp
  have env: "vocal_envelope_of ?w vocals = replicate (length vocals) 0"
    using assms(3) envelope_of_silence [OF h] envelope_of_short by blast
  have active: "?active = replicate (length vocals) False"
    unfolding env by (rule active_of_zeros)
  have gain: "duck_gain ?active i = 1" if "i < length music" for i
  proof (rule duck_gain_inactive, intro allI impI)
    fix j assume "j \<le> i"
    then have "j < length vocals" using that assms(2) by simp
    then show "\<not> ?active ! j" unfolding active by simp
  qed
  have "ducking_curve ?active (length music) = Inr (map (duck_gain ?active) [0..<length music])"
    by (rule ducking_curve_ok) (simp add: active assms(2))
  also have "map (duck_gain ?active) [0..<length music] = replicate (length music) 1"
    by (rule nth_equalityI) (simp_all add: gain)
  finally have curve: "ducking_curve ?active (length music) = Inr (replicate (length music) 1)" .
  have "apply_sidechain music vocals sr = Inr music"
    unfolding apply_sidechain_def Let_def curve bind_err_def
    using h by (simp add: map2_mult_ones)
  then show ?thesis using curve by simp
qed

theorem sidechain_silence_identity_witness:
  "2 \<le> window_size 44100 \<and>
   length [0.5, - 0.25, 0.125 :: real] \<le> length [0, 0, 0, 0 :: real] \<and>
   list_all (\<lambda>x. x = 0) [0, 0, 0, 0 :: real] \<and>
   length [0.5, - 0.25, 0.125 :: real] \<le> length [0.3, 0.9, - 0.7 :: real] \<and>
   length [0.3, 0.9, - 0.7 :: real] \<le> window_size 44100 \<and>
   apply_sidechain [0.5, - 0.25, 0.125] [0, 0, 0, 0] 44100 = Inr [0.5, - 0.25, 0.125] \<and>
   apply_sidechain [0.5, - 0.25, 0.125] [0.3, 0.9, - 0.7] 44100 = Inr [0.5, - 0.25, 0.125]"
proof -
  have w: "2 \<le> window_size 44100"
    unfolding window_at_sample_rate by simp
  have l1: "length [0.5, - 0.25, 0.125 :: real] \<le> length [0, 0, 0, 0 :: real]" by simp
  have z: "\<forall>x \<in> set [0, 0, 0, 0 :: real]. x = 0" by simp
  have l2: "length [0.5, - 0.25, 0.125 :: real] \<le> length [0.3, 0.9, - 0.7 :: real]" by simp
  have s: "length [0.3, 0.9, - 0.7 :: real] \<le> window_size 44100"
    unfolding window_at_sample_rate by simp
  have z': "list_all (\<lambda>x. x = 0) [0, 0, 0, 0 :: real]" by simp
  from sidechain_silence_identity [OF w l1 disjI1 [OF z]]
    sidechain_silence_identity [OF w l2 disjI2 [OF s]]
  show ?thesis using w l1 z' l2 s by blast
qed

text \<open>
  Claim C10 as stated, for every backing track: a backing track longer than the vocal
  buffer makes the smoothing loop read \<open>active[i]\<close> beyond the end, and the call raises
  instead of returning the track.
\<close>

theorem sidechain_longer_music_raises:
  "apply_sidechain [1, 1, 1] [0, 0] 44100 = Inl IndexError"
proof -
  have env: "vocal_envelope_of 2205 [0, 0] = replicate (length [0, 0 :: real]) 0"
    by (rule envelope_of_short) simp
  have "ducking_curve (active_of (vocal_envelope_of 2205 [0, 0])) (length [1, 1, 1 :: real])
      = Inl IndexError"
    by (rule ducking_curve_index_error) (simp add: env length_active_of)
  then show ?thesis
    unfolding apply_sidechain_def Let_def window_at_sample_rate bind_err_def by simp
qed

text \<open>
  Claim C3, the behaviour of the code on a vocal that falls silent. Each window writes
  \<open>max(vocal_envelope[i], rms)\<close>, and \<open>vocal_envelope[i]\<close> is what the window before
  wrote, so the envelope is a running maximum: once the first window is louder than 0.01,
  every position up to the last half window stays active whatever the vocal does later,
  and the backing track is multiplied by exactly 0.4 there. The gain does not return to 1
  during a later silence, however long.
\<close>

theorem ducking_latched_after_first_window:
  assumes "2 \<le> window_size sr"
    and "window_size sr < length vocals"
    and "0.01 < rms (take (window_size sr) vocals)"
    and "length music \<le> length vocals"
  shows "\<exists>out. apply_sidechain music vocals sr = Inr out \<and> length out = length music \<and>
           (\<forall>i < length music. i + window_size sr div 2 < length vocals \<longrightarrow>
              out ! i = music ! i * 0.4)"
proof -
  let ?w = "window_size sr"
  let ?env = "vocal_envelope_of ?w vocals"
  let ?active = "active_of ?env"
  let ?gains = "map (duck_gain ?active) [0..<length music]"
  have len: "length ?env = length vocals"
    and loud: "\<And>j. j + ?w div 2 < length vocals \<Longrightarrow> 0.01 < ?env ! j"
    using envelope_latched [OF assms(1,2,3)] by blast+
  have curve: "ducking_curve ?active (length music) = Inr ?gains"
    by (rule ducking_curve_ok) (simp add: len assms(4) length_active_of)
  have h: "0 < ?w div 2" using assms(1) by simp
  have out: "apply_sidechain music vocals sr = Inr (map2 (*) music ?gains)"
    unfolding apply_sidechain_def Let_def curve bind_err_def using h by simp
  have "map2 (*) music ?gains ! i = music ! i * 0.4"
    if i: "i < length music" and c: "i + ?w div 2 < length vocals" for i
  proof -
    have "duck_gain ?active i = 0.4"
    proof (rule duck_gain_active, intro allI impI)
      fix j assume j: "j \<le> i"
      then have "j + ?w div 2 < length vocals" using c by simp
      note this
      have "j < length ?env" using j c len by simp
      from nth_active_of [OF this] loud [OF \<open>j + ?w div 2 < length vocals\<close>]
      show "?active ! j" by simp
    qed
    then show ?thesis using i by simp
  qed
  then show ?thesis using out by simp
qed

lemma rms_ones: "0 < k \<Longrightarrow> rms (replicate k 1) = 1"
  by (simp add: rms_def np_mean_def sum_list_replicate)

theorem ducking_latched_after_first_window_witness:
  "2 \<le> window_size 44100 \<and>
   window_size 44100 < length (replicate 2205 (1::real) @ replicate 88200 0) \<and>
   0.01 < rms (take (window_size 44100)
                 (replicate 2205 (1::real) @ replicate 88200 0)) \<and>
   length (replicate 90405 (1::real)) \<le> length (replicate 2205 (1::real) @ replicate 88200 0) \<and>
   (\<exists>out. apply_sidechain (replicate 90405 1) (replicate 2205 1 @ replicate 88200 0) 44100 = Inr out \<and>
      out ! 2205 = 0.4 \<and> out ! 46305 = 0.4 \<and> out ! 89302 = 0.4)"
proof -
  let ?vocals = "replicate 2205 (1::real) @ replicate 88200 0"
  let ?music = "replicate 90405 (1::real)"
  have a1: "2 \<le> window_size 44100"
    unfolding window_at_sample_rate by simp
  have a2: "window_size 44100 < length ?vocals"
    unfolding window_at_sample_rate by simp
  have a3: "0.01 < rms (take (window_size 44100) ?vocals)"
    unfolding window_at_sample_rate by (simp add: rms_ones)
  have a4: "length ?music \<le> length ?vocals" by simp
  from ducking_latched_after_first_window [OF a1 a2 a3 a4]
  obtain out where out: "apply_sidechain ?music ?vocals 44100 = Inr out"
    and held: "\<And>i. i < length ?music \<Longrightarrow>
        i + window_size 44100 div 2 < length ?vocals \<Longrightarrow>
        out ! i = ?music ! i * 0.4"
    by blast
  have "out ! 2205 = 0.4" "out ! 46305 = 0.4" "out ! 89302 = 0.4"
    using held [of 2205] held [of 46305] held [of 89302]
    unfolding window_at_sample_rate by simp_all
  then show ?thesis using a1 a2 a3 a4 out by blast
qed

section \<open>Properties of the instrument synthesizer\<close>

lemma bind_err_Inr [simp]: "bind_err (Inr v) f = f v"
  by (simp add: bind_err_def)

lemma bind_err_Inl [simp]: "bind_err (Inl e) f = Inl e"
  by (simp add: bind_err_def)

lemma np_linspace_nat:
  "\<exists>l. np_linspace a b (int k) = Inr l \<and> length l = k \<and>
       (\<forall>j < k. l ! j = a + real j * ((b - a) / real (k - 1)))"
  by (simp add: np_linspace_def)

lemma np_linspace_negative: "num < 0 \<Longrightarrow> np_linspace a b num = Inl ValueError"
  by (simp add: np_linspace_def)

lemma assign_slice_mismatch:
  assumes "length vals \<noteq> max (min i (length a)) (min j (length a)) - min i (length a)"
    and "length vals \<noteq> 1"
  shows "assign_slice a i j vals = Inl ValueError"
  using assms by (simp add: assign_slice_def Let_def)

lemma assign_slice_fits:
  assumes "i \<le> j" "j \<le> length a" "length vals = j - i"
  shows "assign_slice a i j vals = Inr (take i a @ vals @ drop j a)"
  using assms by (simp add: assign_slice_def Let_def min_def max_def)

lemma length_assign_slice_fits:
  assumes "i \<le> j" "j \<le> length a" "length vals = j - i"
  shows "length (take i a @ vals @ drop j a) = length a"
  using assms by simp

lemma adsr_samples_44100:
  "attack_samples 44100 = 882" "decay_samples 44100 = 2205" "release_samples 44100 = 4410"
  by (simp_all add: attack_samples_def decay_samples_def release_samples_def py_int_def)

lemma attack_too_short:
  assumes "length e < attack_samples sr" "attack_samples sr \<noteq> 1"
  shows "attack_stage sr e = Inl ValueError"
proof -
  obtain ramp where r: "np_linspace 0 1 (int (attack_samples sr)) = Inr ramp"
    and l: "length ramp = attack_samples sr"
    using np_linspace_nat by blast
  have "assign_slice e 0 (attack_samples sr) ramp = Inl ValueError"
    by (rule assign_slice_mismatch) (use assms l in simp_all)
  then show ?thesis using assms(1) by (simp add: attack_stage_def r)
qed

lemma attack_fits:
  assumes "attack_samples sr \<le> length e"
  shows "\<exists>e'. attack_stage sr e = Inr e' \<and> length e' = length e"
proof (cases "attack_samples sr > 0")
  case True
  obtain ramp where r: "np_linspace 0 1 (int (attack_samples sr)) = Inr ramp"
    and l: "length ramp = attack_samples sr"
    using np_linspace_nat by blast
  have "assign_slice e 0 (attack_samples sr) ramp = Inr (take 0 e @ ramp @ drop (attack_samples sr) e)"
    by (rule assign_slice_fits) (use assms l in simp_all)
  then show ?thesis using True assms l by (simp add: attack_stage_def r)
next
  case False
  then show ?thesis by (simp add: attack_stage_def)
qed

lemma decay_never_raises:
  "\<exists>e'. decay_stage sr e = Inr e' \<and> length e' = length e"
proof (cases "decay_samples sr > 0 \<and> attack_samples sr + decay_samples sr < length e")
  case True
  obtain ramp where r: "np_linspace 1 sustain_level (int (decay_samples sr)) = Inr ramp"
    and l: "length ramp = decay_samples sr"
    using np_linspace_nat by blast
  have "assign_slice e (attack_samples sr) (attack_samples sr + decay_samples sr) ramp =
      Inr (take (attack_samples sr) e @ ramp @ drop (attack_samples sr + decay_samples sr) e)"
    by (rule assign_slice_fits) (use True l in simp_all)
  then show ?thesis using True l by (simp add: decay_stage_def r)
next
  case False
  then show ?thesis by (auto simp add: decay_stage_def)
qed

lemma length_sustain_stage: "length (sustain_stage sr e) = length e"
  by (simp add: sustain_stage_def Let_def length_fill_slice)

lemma release_too_short:
  assumes "length e < release_samples sr" "release_samples sr \<noteq> 1"
  shows "release_stage sr e = Inl ValueError"
proof -
  obtain ramp where r: "np_linspace sustain_level 0 (int (release_samples sr)) = Inr ramp"
    and l: "length ramp = release_samples sr"
    using np_linspace_nat by blast
  have "assign_slice e (length e - release_samples sr) (length e) ramp = Inl ValueError"
    by (rule assign_slice_mismatch) (use assms l in simp_all)
  then show ?thesis using assms(1) by (simp add: release_stage_def r)
qed

lemma adsr_too_short:
  assumes "n < release_samples sr" "release_samples sr \<noteq> 1" "attack_samples sr \<noteq> 1"
  shows "adsr_envelope sr n = Inl ValueError"
proof (cases "n < attack_samples sr")
  case True
  then have "attack_stage sr (replicate n 1) = Inl ValueError"
    using assms(3) by (intro attack_too_short) simp_all
  then show ?thesis by (simp add: adsr_envelope_def)
next
  case False
  then obtain e1 where a: "attack_stage sr (replicate n 1) = Inr e1" and l1: "length e1 = n"
    using attack_fits [of sr "replicate n 1"] by auto
  obtain e2 where d: "decay_stage sr e1 = Inr e2" and l2: "length e2 = n"
    using decay_never_raises [of sr e1] l1 by auto
  have "release_stage sr (sustain_stage sr e2) = Inl ValueError"
    by (rule release_too_short) (use assms l2 in \<open>simp_all add: length_sustain_stage\<close>)
  then show ?thesis by (simp add: adsr_envelope_def a d)
qed


lemma length_harmonic_signal: "length (harmonic_signal ty freq t) = length t"
  by (simp add: harmonic_signal_def)

lemma release_fits:
  assumes "release_samples sr \<le> length e"
  shows "\<exists>e'. release_stage sr e = Inr e' \<and> length e' = length e \<and>
           (2 \<le> release_samples sr \<longrightarrow> last e' = 0)"
proof (cases "release_samples sr > 0")
  case True
  let ?r = "release_samples sr"
  obtain ramp where r: "np_linspace sustain_level 0 (int ?r) = Inr ramp"
    and l: "length ramp = ?r"
    and v: "\<forall>j < ?r. ramp ! j = sustain_level + real j * ((0 - sustain_level) / real (?r - 1))"
    using np_linspace_nat by blast
  let ?e' = "take (length e - ?r) e @ ramp @ drop (length e) e"
  have fit: "assign_slice e (length e - ?r) (length e) ramp = Inr ?e'"
    by (rule assign_slice_fits) (use assms l in simp_all)
  have ne: "ramp \<noteq> []" using True l by auto
  have "last ?e' = last ramp" using ne by simp
  also have "\<dots> = ramp ! (?r - 1)" using ne l by (simp add: last_conv_nth)
  also have "\<dots> = sustain_level + real (?r - 1) * ((0 - sustain_level) / real (?r - 1))"
    using v True by simp
  finally have "last ?e' = 0" if "2 \<le> ?r" using that by simp
  then show ?thesis using True assms l by (simp add: release_stage_def r fit)
next
  case False
  then show ?thesis by (simp add: release_stage_def)
qed

lemma adsr_long_enough:
  assumes "release_samples sr \<le> n" "attack_samples sr \<le> n"
  shows "\<exists>e. adsr_envelope sr n = Inr e \<and> length e = n \<and> (2 \<le> release_samples sr \<longrightarrow> last e = 0)"
proof -
  obtain e1 where a: "attack_stage sr (replicate n 1) = Inr e1" and l1: "length e1 = n"
    using attack_fits [of sr "replicate n 1"] assms(2) by auto
  obtain e2 where d: "decay_stage sr e1 = Inr e2" and l2: "length e2 = n"
    using decay_never_raises [of sr e1] l1 by auto
  have "release_samples sr \<le> length (sustain_stage sr e2)"
    using assms(1) l2 by (simp add: length_sustain_stage)
  from release_fits [OF this] show ?thesis
    by (simp add: adsr_envelope_def a d length_sustain_stage l2)
qed

lemma py_int_nonneg: "0 \<le> x \<Longrightarrow> py_int x = \<lfloor>x\<rfloor>"
  by (simp add: py_int_def)

lemma py_int_less: "x < real_of_int k \<Longrightarrow> 0 < k \<Longrightarrow> py_int x < k"
  unfolding py_int_def by (auto simp: floor_less_iff ceiling_less_iff)

lemma generate_instrument_samples:
  assumes "0 \<le> py_int (real sr * duration)"
  shows "generate_instrument freq duration sr ty =
           bind_err (adsr_envelope sr (nat (py_int (real sr * duration))))
             (\<lambda>envelope. Inr (map2 (*)
                (harmonic_signal ty freq
                  (map (\<lambda>k. 0 + real k * ((duration - 0) / real (nat (py_int (real sr * duration)) - 1)))
                     [0..<nat (py_int (real sr * duration))]))
                envelope))"
  using assms
  by (simp add: generate_instrument_def Let_def np_linspace_def length_harmonic_signal)

text \<open>
  Claim C2, the behaviour of the code on a short note. At the sample rate 44100 the
  attack has 882 samples and the release 4410. The decay and the sustain are guarded by
  the length of the envelope, the attack and the release are not: a note of fewer than
  4410 samples (any duration below 100 ms, a negative one included) makes numpy raise
  \<open>ValueError\<close>, at the attack when the note has fewer than 882 samples and at the
  release otherwise. No tone is returned.
\<close>

theorem short_note_raises:
  assumes "duration < 0.1"
  shows "generate_instrument freq duration 44100 instrument_type = Inl ValueError"
proof (cases "py_int (real (44100::nat) * duration) < 0")
  case True
  then show ?thesis
    by (simp add: generate_instrument_def Let_def np_linspace_negative)
next
  case False
  have "real (44100::nat) * duration < real_of_int 4410" using assms by simp
  then have "py_int (real (44100::nat) * duration) < 4410" by (rule py_int_less) simp
  then have "nat (py_int (real (44100::nat) * duration)) < release_samples 44100"
    unfolding adsr_samples_44100 by simp
  then have "adsr_envelope 44100 (nat (py_int (real (44100::nat) * duration))) = Inl ValueError"
    by (rule adsr_too_short) (simp_all add: adsr_samples_44100)
  then show ?thesis
    using False by (simp add: generate_instrument_samples)
qed

theorem short_note_raises_witness:
  "(0.05::real) < 0.1 \<and> generate_instrument 440 0.05 44100 ''synth'' = Inl ValueError \<and>
   (0.01::real) < 0.1 \<and> generate_instrument 440 0.01 44100 ''bass'' = Inl ValueError"
  using short_note_raises [of "0.05" 440 "''synth''"] short_note_raises [of "0.01" 440 "''bass''"]
  by simp

lemma last_map2_mult:
  fixes xs ys :: "real list"
  assumes "length xs = length ys" "ys \<noteq> []"
  shows "last (map2 (*) xs ys) = last xs * last ys"
proof -
  have ne: "xs \<noteq> []" "zip xs ys \<noteq> []" using assms by auto
  have "last (map2 (*) xs ys) = map2 (*) xs ys ! (length ys - 1)"
    using ne assms by (simp add: last_conv_nth)
  also have "\<dots> = xs ! (length ys - 1) * ys ! (length ys - 1)"
    using assms by (subst nth_map) (auto simp: Suc_le_eq)
  finally show ?thesis using assms ne by (simp add: last_conv_nth)
qed

text \<open>
  A note of at least 100 ms is generated without error, sustain or not, and its last
  sample is 0: the release ramp ends the envelope at zero.
\<close>

lemma long_note_ok:
  assumes "0.1 \<le> duration"
  shows "\<exists>tone. generate_instrument freq duration 44100 instrument_type = Inr tone \<and>
           length tone = nat \<lfloor>44100 * duration\<rfloor> \<and> last tone = 0"
proof -
  let ?n = "nat (py_int (real (44100::nat) * duration))"
  have nn: "0 \<le> real (44100::nat) * duration" using assms by simp
  have pi: "py_int (real (44100::nat) * duration) = \<lfloor>44100 * duration\<rfloor>"
    using nn by (simp add: py_int_nonneg)
  have "real_of_int 4410 \<le> 44100 * duration" using assms by simp
  then have "(4410::int) \<le> \<lfloor>44100 * duration\<rfloor>" by (simp only: le_floor_iff)
  then have big: "4410 \<le> ?n" unfolding pi by linarith
  have "\<exists>e. adsr_envelope 44100 ?n = Inr e \<and> length e = ?n \<and>
      (2 \<le> release_samples 44100 \<longrightarrow> last e = 0)"
    by (rule adsr_long_enough) (use big in \<open>simp_all add: adsr_samples_44100\<close>)
  then obtain e where e: "adsr_envelope 44100 ?n = Inr e" and le: "length e = ?n" and z: "last e = 0"
    by (auto simp: adsr_samples_44100)
  let ?sig = "harmonic_signal instrument_type freq
      (map (\<lambda>k. 0 + real k * ((duration - 0) / real (?n - 1))) [0..<?n])"
  have ls: "length ?sig = ?n" by (simp add: length_harmonic_signal)
  have ne: "e \<noteq> []" using le big by auto
  have gi: "generate_instrument freq duration 44100 instrument_type = Inr (map2 (*) ?sig e)"
  proof -
    have p: "0 \<le> py_int (real (44100::nat) * duration)" using nn by (simp add: py_int_def)
    show ?thesis
      unfolding generate_instrument_samples [OF p] e bind_err_Inr by (rule refl)
  qed
  have "last (map2 (*) ?sig e) = last ?sig * last e"
    by (rule last_map2_mult) (use ls le ne in simp_all)
  then have "last (map2 (*) ?sig e) = 0" using z by simp
  moreover have "length (map2 (*) ?sig e) = nat \<lfloor>44100 * duration\<rfloor>"
    using ls le pi by simp
  ultimately show ?thesis using gi by blast
qed

section \<open>Properties of the vocal transform and of the vocal buffer\<close>

lemma fst_case_result:
  "fst (case r of (Inl e, g') \<Rightarrow> (Inl e, g') | (Inr ps, g') \<Rightarrow> (Inr (f ps), g')) =
     (case fst r of Inl e \<Rightarrow> Inl e | Inr ps \<Rightarrow> Inr (f ps))"
  by (cases r; cases "fst r") auto

lemma snd_case_result:
  "snd (case r of (Inl e, g') \<Rightarrow> (Inl e, g') | (Inr ps, g') \<Rightarrow> (Inr (f ps), g')) = snd r"
  by (cases r; cases "fst r") auto

lemma stretch_short:
  "length seg < 1000 \<Longrightarrow>
   stretch_segments L (seg # segs) g =
     (case stretch_segments L segs g of
        (Inl e, g') \<Rightarrow> (Inl e, g')
      | (Inr processed, g') \<Rightarrow> (Inr (seg # processed), g'))"
  by simp

lemma stretch_long:
  "\<not> length seg < 1000 \<Longrightarrow>
   stretch_segments L (seg # segs) g =
     (case time_stretch L seg (fst (random_uniform 0.75 1.3 g)) of
        Inl e \<Rightarrow> (Inl e, stl g)
      | Inr stretched \<Rightarrow>
          (case stretch_segments L segs (stl g) of
             (Inl e, g') \<Rightarrow> (Inl e, g')
           | (Inr processed, g') \<Rightarrow> (Inr (stretched # processed), g')))"
  by (simp add: random_uniform_def)

lemma stretch_segments_same_draws:
  assumes "stake (length (filter (\<lambda>seg. \<not> length seg < 1000) segs)) g1 =
           stake (length (filter (\<lambda>seg. \<not> length seg < 1000) segs)) g2"
  shows "fst (stretch_segments L segs g1) = fst (stretch_segments L segs g2)"
  using assms
proof (induction segs arbitrary: g1 g2)
  case Nil
  show ?case by simp
next
  case (Cons seg segs)
  let ?k = "length (filter (\<lambda>seg. \<not> length seg < 1000) segs)"
  show ?case
  proof (cases "length seg < 1000")
    case True
    have "stake ?k g1 = stake ?k g2" using Cons.prems True by simp
    then have "fst (stretch_segments L segs g1) = fst (stretch_segments L segs g2)"
      by (rule Cons.IH)
    then show ?thesis
      unfolding stretch_short [OF True] fst_case_result by (rule arg_cong)
  next
    case False
    have "stake (Suc ?k) g1 = stake (Suc ?k) g2" using Cons.prems False by simp
    then have hd: "shd g1 = shd g2" and tl: "stake ?k (stl g1) = stake ?k (stl g2)"
      by simp_all
    have rec: "fst (stretch_segments L segs (stl g1)) = fst (stretch_segments L segs (stl g2))"
      using tl by (rule Cons.IH)
    have u: "fst (random_uniform 0.75 1.3 g1) = fst (random_uniform 0.75 1.3 g2)"
      unfolding random_uniform_def fst_conv hd ..
    show ?thesis
      unfolding stretch_long [OF False] u
      by (cases "time_stretch L seg (fst (random_uniform 0.75 1.3 g2))")
         (simp_all only: sum.case fst_conv fst_case_result rec)
  qed
qed

lemma stretch_segments_advances:
  assumes "fst (stretch_segments L segs g) = Inr ps"
  shows "snd (stretch_segments L segs g) =
           sdrop (length (filter (\<lambda>seg. \<not> length seg < 1000) segs)) g"
  using assms
proof (induction segs arbitrary: g ps)
  case Nil
  show ?case by simp
next
  case (Cons seg segs)
  show ?case
  proof (cases "length seg < 1000")
    case True
    with Cons.prems obtain qs where "fst (stretch_segments L segs g) = Inr qs"
      by (auto simp: fst_case_result split: sum.splits)
    from Cons.IH [OF this] show ?thesis using True by (simp add: snd_case_result)
  next
    case False
    show ?thesis
    proof (cases "time_stretch L seg (0.75 + (1.3 - 0.75) * shd g)")
      case (Inl e)
      then show ?thesis using Cons.prems False by (simp add: random_uniform_def)
    next
      case (Inr stretched)
      with Cons.prems False obtain qs where "fst (stretch_segments L segs (stl g)) = Inr qs"
        by (auto simp: random_uniform_def fst_case_result split: sum.splits)
      from Cons.IH [OF this] show ?thesis
        using False Inr by (simp add: random_uniform_def snd_case_result)
    qed
  qed
qed

lemma fst_case_concat:
  "fst (case r of (Inl e, g') \<Rightarrow> (Inl e, g') | (Inr ps, g') \<Rightarrow> (np_concatenate ps, g')) =
     (case fst r of Inl e \<Rightarrow> Inl e | Inr ps \<Rightarrow> np_concatenate ps)"
  by (cases r; cases "fst r") auto

lemma snd_case_concat:
  "snd (case r of (Inl e, g') \<Rightarrow> (Inl e, g') | (Inr ps, g') \<Rightarrow> (np_concatenate ps, g')) = snd r"
  by (cases r; cases "fst r") auto



lemma segment_len_44100: "segment_len 44100 = 13230"
  by (simp add: segment_len_def py_int_def)

lemma py_range_single: "0 < stop \<Longrightarrow> stop \<le> step \<Longrightarrow> py_range stop step = [0]"
proof -
  assume a: "0 < stop" "stop \<le> step"
  have "(stop + step - 1) div step = 1"
    by (rule div_nat_eqI) (use a in simp_all)
  then show ?thesis by (simp add: py_range_def)
qed

lemma split_single_window:
  "y \<noteq> [] \<Longrightarrow> length y \<le> n \<Longrightarrow> split_segments y n = [y]"
  by (simp add: split_segments_def py_range_single)

lemma split_empty: "split_segments [] n = []"
proof -
  have "(n - 1) div n = 0" by (cases "n = 0") simp_all
  then show ?thesis by (simp add: split_segments_def py_range_def)
qed

lemma stretch_nearest_zeros:
  "stretch_nearest (replicate n 0) rate =
     Inr (replicate (nat \<lfloor>real n / rate + 1 / 2\<rfloor>) 0)" if "0 < n"
proof -
  have "map (\<lambda>k. replicate n (0::real) ! min (n - 1) (nat \<lfloor>real k * rate\<rfloor>)) [0..<m] =
        replicate m 0" for m
    by (rule nth_equalityI) (use that in \<open>simp_all add: min_def\<close>)
  then show ?thesis by (simp add: stretch_nearest_def)
qed

lemma demo_timing_run:
  "apply_singing_timing demo_libs (replicate 1000 0) 44100 g =
     (Inr (replicate (nat \<lfloor>1000 / (0.75 + (1.3 - 0.75) * shd g) + 1 / 2\<rfloor>) 0), stl g)"
proof -
  have seg: "split_segments (replicate 1000 (0::real)) 13230 = [replicate 1000 0]"
    by (rule split_single_window) simp_all
  have ts: "time_stretch demo_libs = stretch_nearest" by (simp add: demo_libs_def)
  have "stretch_segments demo_libs [replicate 1000 0] g =
      (Inr [replicate (nat \<lfloor>1000 / (0.75 + (1.3 - 0.75) * shd g) + 1 / 2\<rfloor>) 0], stl g)"
    by (subst stretch_long) (simp_all add: ts stretch_nearest_zeros random_uniform_def)
  then show ?thesis
    by (simp add: apply_singing_timing_def segment_len_44100 seg np_concatenate_def)
qed

lemma draws_needed_demo: "draws_needed (replicate 1000 0) 44100 = 1"
proof -
  have seg: "split_segments (replicate 1000 (0::real)) 13230 = [replicate 1000 0]"
    by (rule split_single_window) simp_all
  show ?thesis by (simp add: draws_needed_def segment_len_44100 seg)
qed



lemma timing_short_waveform:
  assumes "y \<noteq> []" "length y < 1000"
  shows "apply_singing_timing L y SAMPLE_RATE g = (Inr y, g)"
proof -
  have seg: "split_segments y 13230 = [y]"
    by (rule split_single_window) (use assms in simp_all)
  have "stretch_segments L [y] g = (Inr [y], g)"
    by (subst stretch_short) (use assms in simp_all)
  then show ?thesis
    by (simp add: apply_singing_timing_def SAMPLE_RATE_def segment_len_44100 seg np_concatenate_def)
qed

lemma timing_empty_waveform:
  "apply_singing_timing L [] SAMPLE_RATE g = (Inl ValueError, g)"
  by (simp add: apply_singing_timing_def SAMPLE_RATE_def segment_len_44100 split_empty
      np_concatenate_def)

lemma length_cumsum_from: "length (cumsum_from acc xs) = length xs"
  by (induction xs arbitrary: acc) simp_all

lemma length_add_vibrato: "length (add_vibrato y sr) = length y"
  by (simp add: add_vibrato_def Let_def np_cumsum_def length_cumsum_from)

lemma normalize_vocal_nonempty:
  "y \<noteq> [] \<Longrightarrow> \<exists>z. normalize_vocal y = Inr z \<and> length z = length y"
  by (simp add: normalize_vocal_def np_max_abs_def)

lemma normalize_vocal_empty: "normalize_vocal [] = Inl ValueError"
  by (simp add: normalize_vocal_def np_max_abs_def)

text \<open>
  Claim C7, for the stages before the write. Whenever loading, the timing transform, the
  pitch shift, the effects board or the normalisation raises, \<^verbatim>\<open>apply_vocal_effects\<close>
  returns \<open>False\<close> and no file has changed. \<open>sf.write\<close> is called only when all of
  them have succeeded; the result is then whether the write succeeded, and the file at the
  input path holds what the write left there. No other path is ever touched.
\<close>

theorem vocal_failure_leaves_file:
  "(librosa_load L (files p) SAMPLE_RATE = Inl e \<longrightarrow>
      fst (apply_vocal_effects L files g p mood) = False \<and>
      fst (snd (apply_vocal_effects L files g p mood)) = files) \<and>
   (librosa_load L (files p) SAMPLE_RATE = Inr y \<and>
    fst (apply_singing_timing L y SAMPLE_RATE g) = Inl e \<longrightarrow>
      fst (apply_vocal_effects L files g p mood) = False \<and>
      fst (snd (apply_vocal_effects L files g p mood)) = files) \<and>
   (librosa_load L (files p) SAMPLE_RATE = Inr y \<and>
    fst (apply_singing_timing L y SAMPLE_RATE g) = Inr y1 \<and>
    pitch_shift L y1 SAMPLE_RATE (semitones_shift (str_lower L) mood) = Inl e \<longrightarrow>
      fst (apply_vocal_effects L files g p mood) = False \<and>
      fst (snd (apply_vocal_effects L files g p mood)) = files) \<and>
   (librosa_load L (files p) SAMPLE_RATE = Inr y \<and>
    fst (apply_singing_timing L y SAMPLE_RATE g) = Inr y1 \<and>
    pitch_shift L y1 SAMPLE_RATE (semitones_shift (str_lower L) mood) = Inr y2 \<and>
    pedalboard L vocal_board (add_vibrato y2 SAMPLE_RATE) SAMPLE_RATE = Inl e \<longrightarrow>
      fst (apply_vocal_effects L files g p mood) = False \<and>
      fst (snd (apply_vocal_effects L files g p mood)) = files) \<and>
   (librosa_load L (files p) SAMPLE_RATE = Inr y \<and>
    fst (apply_singing_timing L y SAMPLE_RATE g) = Inr y1 \<and>
    pitch_shift L y1 SAMPLE_RATE (semitones_shift (str_lower L) mood) = Inr y2 \<and>
    pedalboard L vocal_board (add_vibrato y2 SAMPLE_RATE) SAMPLE_RATE = Inr y3 \<and>
    normalize_vocal y3 = Inl e \<longrightarrow>
      fst (apply_vocal_effects L files g p mood) = False \<and>
      fst (snd (apply_vocal_effects L files g p mood)) = files) \<and>
   (librosa_load L (files p) SAMPLE_RATE = Inr y \<and>
    fst (apply_singing_timing L y SAMPLE_RATE g) = Inr y1 \<and>
    pitch_shift L y1 SAMPLE_RATE (semitones_shift (str_lower L) mood) = Inr y2 \<and>
    pedalboard L vocal_board (add_vibrato y2 SAMPLE_RATE) SAMPLE_RATE = Inr y3 \<and>
    normalize_vocal y3 = Inr y4 \<longrightarrow>
      fst (apply_vocal_effects L files g p mood) =
        (fst (sf_write L y4 SAMPLE_RATE (files p)) = None) \<and>
      fst (snd (apply_vocal_effects L files g p mood)) =
        files(p := snd (sf_write L y4 SAMPLE_RATE (files p)))) \<and>
   (\<forall>q. q \<noteq> p \<longrightarrow> fst (snd (apply_vocal_effects L files g p mood)) q = files q)"
proof -
  obtain r g' where t: "apply_singing_timing L y SAMPLE_RATE g = (r, g')"
    by (cases "apply_singing_timing L y SAMPLE_RATE g")
  obtain w f' where s: "sf_write L y4 SAMPLE_RATE (files p) = (w, f')"
    by (cases "sf_write L y4 SAMPLE_RATE (files p)")
  have frame: "fst (snd (apply_vocal_effects L files g p mood)) q = files q" if "q \<noteq> p" for q
    using that
    by (auto simp: apply_vocal_effects_def split: prod.splits sum.splits option.splits)
  show ?thesis
    using frame
    by (auto simp: apply_vocal_effects_def vocal_chain_def Let_def t s
        split: sum.splits option.splits)
qed


theorem vocal_failure_leaves_file_witness:
  "librosa_load demo_libs ([''vocal.wav'' \<mapsto> [1 / 2, 1 / 4]] ''missing.wav'') SAMPLE_RATE
     = Inl LibraryError \<and>
   fst (apply_vocal_effects demo_libs [''vocal.wav'' \<mapsto> [1 / 2, 1 / 4]] (sconst 0)
          ''missing.wav'' (PyStr ''calm'')) = False \<and>
   fst (snd (apply_vocal_effects demo_libs [''vocal.wav'' \<mapsto> [1 / 2, 1 / 4]] (sconst 0)
          ''missing.wav'' (PyStr ''calm''))) = [''vocal.wav'' \<mapsto> [1 / 2, 1 / 4]] \<and>
   librosa_load demo_libs ([''vocal.wav'' \<mapsto> []] ''vocal.wav'') SAMPLE_RATE = Inr [] \<and>
   fst (apply_singing_timing demo_libs [] SAMPLE_RATE (sconst 0)) = Inl ValueError \<and>
   fst (apply_vocal_effects demo_libs [''vocal.wav'' \<mapsto> []] (sconst 0)
          ''vocal.wav'' (PyStr ''calm'')) = False \<and>
   fst (snd (apply_vocal_effects demo_libs [''vocal.wav'' \<mapsto> []] (sconst 0)
          ''vocal.wav'' (PyStr ''calm''))) = [''vocal.wav'' \<mapsto> []] \<and>
   pitch_shift (demo_libs\<lparr>pitch_shift := \<lambda>y sr n. Inl LibraryError\<rparr>) [1 / 2, 1 / 4] SAMPLE_RATE
       (semitones_shift ascii_lower (PyStr ''calm'')) = Inl LibraryError \<and>
   fst (apply_vocal_effects (demo_libs\<lparr>pitch_shift := \<lambda>y sr n. Inl LibraryError\<rparr>)
          [''vocal.wav'' \<mapsto> [1 / 2, 1 / 4]] (sconst 0) ''vocal.wav'' (PyStr ''calm'')) = False \<and>
   fst (snd (apply_vocal_effects (demo_libs\<lparr>pitch_shift := \<lambda>y sr n. Inl LibraryError\<rparr>)
          [''vocal.wav'' \<mapsto> [1 / 2, 1 / 4]] (sconst 0) ''vocal.wav'' (PyStr ''calm'')))
     = [''vocal.wav'' \<mapsto> [1 / 2, 1 / 4]] \<and>
   pedalboard (demo_libs\<lparr>pedalboard := \<lambda>board y sr. Inl LibraryError\<rparr>) vocal_board
       (add_vibrato [1 / 2, 1 / 4] SAMPLE_RATE) SAMPLE_RATE = Inl LibraryError \<and>
   fst (apply_vocal_effects (demo_libs\<lparr>pedalboard := \<lambda>board y sr. Inl LibraryError\<rparr>)
          [''vocal.wav'' \<mapsto> [1 / 2, 1 / 4]] (sconst 0) ''vocal.wav'' (PyStr ''calm'')) = False \<and>
   fst (snd (apply_vocal_effects (demo_libs\<lparr>pedalboard := \<lambda>board y sr. Inl LibraryError\<rparr>)
          [''vocal.wav'' \<mapsto> [1 / 2, 1 / 4]] (sconst 0) ''vocal.wav'' (PyStr ''calm'')))
     = [''vocal.wav'' \<mapsto> [1 / 2, 1 / 4]] \<and>
   normalize_vocal [] = Inl ValueError \<and>
   fst (apply_vocal_effects (demo_libs\<lparr>pedalboard := \<lambda>board y sr. Inr []\<rparr>)
          [''vocal.wav'' \<mapsto> [1 / 2, 1 / 4]] (sconst 0) ''vocal.wav'' (PyStr ''calm'')) = False \<and>
   fst (snd (apply_vocal_effects (demo_libs\<lparr>pedalboard := \<lambda>board y sr. Inr []\<rparr>)
          [''vocal.wav'' \<mapsto> [1 / 2, 1 / 4]] (sconst 0) ''vocal.wav'' (PyStr ''calm'')))
     = [''vocal.wav'' \<mapsto> [1 / 2, 1 / 4]] \<and>
   (\<exists>y4. normalize_vocal (add_vibrato [1 / 2, 1 / 4] SAMPLE_RATE) = Inr y4 \<and>
      fst (apply_vocal_effects demo_libs [''vocal.wav'' \<mapsto> [1 / 2, 1 / 4]] (sconst 0)
             ''vocal.wav'' (PyStr ''calm'')) = True \<and>
      fst (snd (apply_vocal_effects demo_libs [''vocal.wav'' \<mapsto> [1 / 2, 1 / 4]] (sconst 0)
             ''vocal.wav'' (PyStr ''calm''))) = [''vocal.wav'' \<mapsto> y4])"
proof -
  let ?y = "[1 / 2, 1 / 4 :: real]"
  let ?files = "[''vocal.wav'' \<mapsto> ?y]"
  let ?empty = "[''vocal.wav'' \<mapsto> ([] :: real list)]"
  let ?g = "sconst (0::real)"
  let ?mood = "PyStr ''calm''"
  let ?Lp = "demo_libs\<lparr>pitch_shift := \<lambda>y sr n. Inl LibraryError\<rparr>"
  let ?Lb = "demo_libs\<lparr>pedalboard := \<lambda>board y sr. Inl LibraryError\<rparr>"
  let ?Le = "demo_libs\<lparr>pedalboard := \<lambda>board y sr. Inr []\<rparr>"
  have load_missing: "librosa_load demo_libs (?files ''missing.wav'') SAMPLE_RATE = Inl LibraryError"
    by (simp add: demo_libs_def)
  have load_empty: "librosa_load demo_libs (?empty ''vocal.wav'') SAMPLE_RATE = Inr []"
    by (simp add: demo_libs_def)
  have load: "librosa_load L (?files ''vocal.wav'') SAMPLE_RATE = Inr ?y"
    if "librosa_load L = librosa_load demo_libs" for L :: "real list libs"
    by (simp add: that demo_libs_def)
  have timing_empty: "fst (apply_singing_timing demo_libs [] SAMPLE_RATE ?g) = Inl ValueError"
    by (simp add: timing_empty_waveform)
  have timing: "fst (apply_singing_timing L ?y SAMPLE_RATE ?g) = Inr ?y" for L :: "real list libs"
    by (subst timing_short_waveform) simp_all
  have shift_fails: "pitch_shift ?Lp ?y SAMPLE_RATE (semitones_shift (str_lower ?Lp) ?mood) = Inl LibraryError"
    by simp
  have shift_fails_ascii: "pitch_shift ?Lp ?y SAMPLE_RATE (semitones_shift ascii_lower ?mood) = Inl LibraryError"
    by simp
  have shift: "pitch_shift L ?y SAMPLE_RATE (semitones_shift (str_lower L) ?mood) = Inr ?y"
    if "pitch_shift L = pitch_shift demo_libs" for L :: "real list libs"
    by (simp add: that demo_libs_def)
  have board_fails: "pedalboard ?Lb vocal_board (add_vibrato ?y SAMPLE_RATE) SAMPLE_RATE
      = Inl LibraryError"
    by simp
  have board_empty: "pedalboard ?Le vocal_board (add_vibrato ?y SAMPLE_RATE) SAMPLE_RATE = Inr []"
    by simp
  have board: "pedalboard demo_libs vocal_board (add_vibrato ?y SAMPLE_RATE) SAMPLE_RATE
      = Inr (add_vibrato ?y SAMPLE_RATE)"
    by (simp add: demo_libs_def)
  obtain y4 where norm: "normalize_vocal (add_vibrato ?y SAMPLE_RATE) = Inr y4"
    using normalize_vocal_nonempty [of "add_vibrato ?y SAMPLE_RATE"] length_add_vibrato [of ?y SAMPLE_RATE]
    by fastforce
  have wr: "sf_write demo_libs y4 SAMPLE_RATE (?files ''vocal.wav'') = (None, Some y4)"
    by (simp add: demo_libs_def)
  note T = vocal_failure_leaves_file
  have c1: "fst (apply_vocal_effects demo_libs ?files ?g ''missing.wav'' ?mood) = False \<and>
            fst (snd (apply_vocal_effects demo_libs ?files ?g ''missing.wav'' ?mood)) = ?files"
    using T [of demo_libs ?files "''missing.wav''" LibraryError ?g ?mood] load_missing by blast
  have c2: "fst (apply_vocal_effects demo_libs ?empty ?g ''vocal.wav'' ?mood) = False \<and>
            fst (snd (apply_vocal_effects demo_libs ?empty ?g ''vocal.wav'' ?mood)) = ?empty"
    using T [of demo_libs ?empty "''vocal.wav''" ValueError ?g ?mood "[]"] load_empty timing_empty
    by blast
  have c3: "fst (apply_vocal_effects ?Lp ?files ?g ''vocal.wav'' ?mood) = False \<and>
            fst (snd (apply_vocal_effects ?Lp ?files ?g ''vocal.wav'' ?mood)) = ?files"
    using T [of ?Lp ?files "''vocal.wav''" LibraryError ?g ?mood ?y ?y]
      load [of ?Lp] timing [of ?Lp] shift_fails by simp
  have c4: "fst (apply_vocal_effects ?Lb ?files ?g ''vocal.wav'' ?mood) = False \<and>
            fst (snd (apply_vocal_effects ?Lb ?files ?g ''vocal.wav'' ?mood)) = ?files"
    using T [of ?Lb ?files "''vocal.wav''" LibraryError ?g ?mood ?y ?y ?y]
      load [of ?Lb] timing [of ?Lb] shift [of ?Lb] board_fails by simp
  have c5: "fst (apply_vocal_effects ?Le ?files ?g ''vocal.wav'' ?mood) = False \<and>
            fst (snd (apply_vocal_effects ?Le ?files ?g ''vocal.wav'' ?mood)) = ?files"
    using T [of ?Le ?files "''vocal.wav''" ValueError ?g ?mood ?y ?y ?y "[]"]
      load [of ?Le] timing [of ?Le] shift [of ?Le] board_empty normalize_vocal_empty by simp
  have c6: "fst (apply_vocal_effects demo_libs ?files ?g ''vocal.wav'' ?mood) = True \<and>
            fst (snd (apply_vocal_effects demo_libs ?files ?g ''vocal.wav'' ?mood))
              = [''vocal.wav'' \<mapsto> y4]"
    using T [of demo_libs ?files "''vocal.wav''" ValueError ?g ?mood ?y ?y ?y
        "add_vibrato ?y SAMPLE_RATE" y4]
      load [of demo_libs] timing [of demo_libs] shift [of demo_libs] board norm wr by simp
  show ?thesis
    using load_missing c1 load_empty timing_empty c2 shift_fails_ascii c3 board_fails c4
      normalize_vocal_empty c5 norm c6
    by blast
qed

text \<open>
  Claim C7 as stated, for a failure of the write itself: the code writes in place, so a
  write that raises after truncating the target gives \<open>False\<close> and a changed file.
\<close>

theorem failed_write_changes_file:
  "fst (apply_vocal_effects (demo_libs\<lparr>sf_write := failing_write\<rparr>)
          [''vocal.wav'' \<mapsto> [1 / 2, 1 / 4]] (sconst 0) ''vocal.wav'' (PyStr ''calm'')) = False \<and>
   fst (snd (apply_vocal_effects (demo_libs\<lparr>sf_write := failing_write\<rparr>)
          [''vocal.wav'' \<mapsto> [1 / 2, 1 / 4]] (sconst 0) ''vocal.wav'' (PyStr ''calm'')))
      ''vocal.wav'' = Some [] \<and>
   [''vocal.wav'' \<mapsto> [1 / 2, 1 / 4 :: real]] ''vocal.wav'' = Some [1 / 2, 1 / 4]"
proof -
  let ?y = "[1 / 2, 1 / 4 :: real]"
  let ?L = "demo_libs\<lparr>sf_write := failing_write\<rparr>"
  obtain y4 where norm: "normalize_vocal (add_vibrato ?y SAMPLE_RATE) = Inr y4"
    using normalize_vocal_nonempty [of "add_vibrato ?y SAMPLE_RATE"] length_add_vibrato [of ?y SAMPLE_RATE]
    by fastforce
  have timing: "apply_singing_timing ?L ?y SAMPLE_RATE (sconst 0) = (Inr ?y, sconst 0)"
    by (rule timing_short_waveform) simp_all
  have load: "librosa_load ?L (Some ?y) SAMPLE_RATE = Inr ?y"
    by (simp add: demo_libs_def)
  have shift: "pitch_shift ?L ?y SAMPLE_RATE (semitones_shift (str_lower ?L) (PyStr ''calm'')) = Inr ?y"
    by (simp add: demo_libs_def)
  have board: "pedalboard ?L vocal_board (add_vibrato ?y SAMPLE_RATE) SAMPLE_RATE
      = Inr (add_vibrato ?y SAMPLE_RATE)"
    by (simp add: demo_libs_def)
  have chain: "vocal_chain ?L (Some ?y) (PyStr ''calm'') (sconst 0) = (Inr y4, sconst 0)"
    unfolding vocal_chain_def Let_def load sum.case timing prod.case shift bind_err_Inr board norm
    by (rule refl)
  have wr: "sf_write ?L = failing_write" by simp
  show ?thesis
    by (simp add: apply_vocal_effects_def chain wr failing_write_def del: select_convs)
qed



section \<open>Properties of mixing and mastering\<close>

text \<open>
  Claim C1. When the mix that leaves the mastering board has a peak above 0,
  \<^verbatim>\<open>mix_and_master\<close> hands to \<open>wavfile.write\<close>, for the output path, the 16-bit
  samples obtained as follows, and returns the path when the write does not raise:
  every sample is multiplied by \<open>0.95 / peak\<close>, so that the largest absolute value of
  the normalised signal is exactly 0.95; the signal is clipped to \<open>[-1, 1]\<close>, which
  changes nothing; it is multiplied by 32767 and truncated to 16 bits. Every persisted
  sample is within one quantisation step of the truncation of
  \<open>sample * 0.95 / peak * 32767\<close> (in exact arithmetic it is that truncation; the
  floating-point product can fall on the other side of an integer), all are within
  \<open>\<plusminus>31128\<close>, and 31128 is reached, which is \<open>0.95\<close> of full scale up to one
  quantisation step.
\<close>

theorem master_peak_is_095:
  assumes "mastered_mix L files vocal_path background_music = Inr mixed"
    and "np_max_abs mixed = Inr peak" and "0 < peak"
  shows "\<exists>out.
           mix_samples L files vocal_path background_music = Inr out \<and>
           mix_and_master L files vocal_path background_music output_path =
             (case wavfile_write L SAMPLE_RATE out (files output_path) of
                (None, file') \<Rightarrow> (Inr output_path, files(output_path := file'))
              | (Some e, file') \<Rightarrow> (Inl e, files(output_path := file'))) \<and>
           out = np_int16 (map (\<lambda>x. x * 32767) (np_clip (peak_normalize peak mixed) (- 1) 1)) \<and>
           peak_normalize peak mixed = map (\<lambda>x. x * (0.95 / peak)) mixed \<and>
           np_max_abs (peak_normalize peak mixed) = Inr 0.95 \<and>
           np_clip (peak_normalize peak mixed) (- 1) 1 = peak_normalize peak mixed \<and>
           (\<forall>x \<in> set (np_clip (peak_normalize peak mixed) (- 1) 1). - 1 \<le> x \<and> x \<le> 1) \<and>
           length out = length mixed \<and>
           (\<forall>i < length mixed.
              \<bar>sint (out ! i) - py_int (mixed ! i * (0.95 / peak) * 32767)\<bar> \<le> 1) \<and>
           (\<forall>q \<in> set out. \<bar>sint q\<bar> \<le> 31128) \<and>
           (\<exists>q \<in> set out. \<bar>sint q\<bar> = 31128) \<and>
           \<bar>31128 / 32767 - 0.95\<bar> < (1 / 32767 :: real)"
proof -
  let ?n = "peak_normalize peak mixed"
  let ?out = "np_int16 (map (\<lambda>x. x * 32767) (np_clip ?n (- 1) 1))"
  note N = master_samples_normalized [OF assms(2,3)]
  have ms: "master_samples mixed = Inr ?out"
    unfolding master_samples_def assms(2) bind_err_def Let_def by simp
  with N have facts:
    "length ?out = length mixed"
    "\<forall>i < length mixed. sint (?out ! i) = py_int (mixed ! i * (0.95 / peak) * 32767)"
    "\<forall>q \<in> set ?out. \<bar>sint q\<bar> \<le> 31128"
    "\<exists>q \<in> set ?out. \<bar>sint q\<bar> = 31128"
    by auto
  have near: "\<forall>i < length mixed.
      \<bar>sint (?out ! i) - py_int (mixed ! i * (0.95 / peak) * 32767)\<bar> \<le> 1"
    using facts(2) by simp
  have samples: "mix_samples L files vocal_path background_music = Inr ?out"
    unfolding mix_samples_def assms(1) bind_err_def using ms by simp
  have mm: "mix_and_master L files vocal_path background_music output_path =
      (case wavfile_write L SAMPLE_RATE ?out (files output_path) of
         (None, file') \<Rightarrow> (Inr output_path, files(output_path := file'))
       | (Some e, file') \<Rightarrow> (Inl e, files(output_path := file')))"
    unfolding mix_and_master_def samples by simp
  from N have n1: "?n = map (\<lambda>x. x * (0.95 / peak)) mixed"
    and n2: "np_max_abs ?n = Inr 0.95"
    and n3: "np_clip ?n (- 1) 1 = ?n"
    and n4: "\<forall>x \<in> set (np_clip ?n (- 1) 1). - 1 \<le> x \<and> x \<le> 1"
    and n5: "\<bar>31128 / 32767 - 0.95\<bar> < (1 / 32767 :: real)"
    by blast+
  show ?thesis
    apply (rule exI [of _ ?out])
    apply (intro conjI)
    apply (rule samples)
    apply (rule mm)
    apply (rule refl)
    apply (rule n1)
    apply (rule n2)
    apply (rule n3)
    apply (rule n4)
    apply (rule facts(1))
    apply (rule near)
    apply (rule facts(3))
    apply (rule facts(4))
    apply (rule n5)
    done
qed

lemma demo_mastered_mix:
  "mastered_mix demo_libs [''vocal.wav'' \<mapsto> [1 / 2, - 1 / 4]] ''vocal.wav'' [0, 0]
     = Inr [1 / 2, - 1 / 4]"
proof -
  have load: "load_vocals demo_libs [''vocal.wav'' \<mapsto> [1 / 2, - 1 / 4]] ''vocal.wav'' [0, 0]
      = Inr (FloatArray [1 / 2, - 1 / 4])"
    by (simp add: load_vocals_def demo_libs_def)
  have ml: "match_lengths [1 / 2, - 1 / 4 :: real] [0, 0] = ([1 / 2, - 1 / 4], [0, 0])"
    by (simp add: match_lengths_def)
  have sc: "apply_sidechain [0, 0] [1 / 2, - 1 / 4] SAMPLE_RATE = Inr [0, 0]"
    by (rule sidechain_of_short) simp_all
  have pb: "pedalboard demo_libs board x sr = Inr x" for board x sr
    by (simp add: demo_libs_def)
  show ?thesis
    unfolding mastered_mix_def Let_def load bind_err_Inr vocal_array.case ml prod.case sc pb
    by (simp add: np_add_def)
qed

theorem master_peak_is_095_witness:
  "mastered_mix demo_libs [''vocal.wav'' \<mapsto> [1 / 2, - 1 / 4]] ''vocal.wav'' [0, 0]
     = Inr [1 / 2, - 1 / 4] \<and>
   np_max_abs [1 / 2, - 1 / 4] = Inr (1 / 2) \<and> (0::real) < 1 / 2 \<and>
   peak_normalize (1 / 2) [1 / 2, - 1 / 4] = [0.95, - 0.475] \<and>
   mix_samples demo_libs [''vocal.wav'' \<mapsto> [1 / 2, - 1 / 4]] ''vocal.wav'' [0, 0]
     = Inr [31128, - 15564] \<and>
   mix_and_master demo_libs [''vocal.wav'' \<mapsto> [1 / 2, - 1 / 4]] ''vocal.wav'' [0, 0] ''out.wav''
     = (Inr ''out.wav'',
        [''vocal.wav'' \<mapsto> [1 / 2, - 1 / 4], ''out.wav'' \<mapsto> [31128 / 32767, - 15564 / 32767]])"
proof -
  let ?files = "[''vocal.wav'' \<mapsto> [1 / 2, - 1 / 4 :: real]]"
  have p: "np_max_abs [1 / 2, - 1 / 4] = Inr (1 / 2)"
    by (simp add: np_max_abs_def)
  have pos: "(0::real) < 1 / 2" by simp
  have q: "np_int16 (map (\<lambda>x. x * 32767) (np_clip (peak_normalize (1 / 2) [1 / 2, - 1 / 4]) (- 1) 1))
      = [31128, - 15564]"
    by (simp add: peak_normalize_def np_clip_def np_int16_def py_int_def)
  have wr: "wavfile_write demo_libs sr pcm old
      = (None, Some (map (\<lambda>w. real_of_int (sint w) / 32767) pcm))" for sr pcm old
    by (simp add: demo_libs_def)
  from master_peak_is_095 [OF demo_mastered_mix p pos, of "''out.wav''"]
  obtain out where out: "mix_samples demo_libs ?files ''vocal.wav'' [0, 0] = Inr out"
    and mm: "mix_and_master demo_libs ?files ''vocal.wav'' [0, 0] ''out.wav'' =
      (case wavfile_write demo_libs SAMPLE_RATE out (?files ''out.wav'') of
         (None, file') \<Rightarrow> (Inr ''out.wav'', ?files(''out.wav'' := file'))
       | (Some e, file') \<Rightarrow> (Inl e, ?files(''out.wav'' := file')))"
    and eq: "out = np_int16 (map (\<lambda>x. x * 32767)
               (np_clip (peak_normalize (1 / 2) [1 / 2, - 1 / 4]) (- 1) 1))"
    and pn: "peak_normalize (1 / 2) [1 / 2, - 1 / 4] = map (\<lambda>x. x * (0.95 / (1 / 2))) [1 / 2, - 1 / 4]"
    by blast
  have out': "out = [31128, - 15564]" unfolding eq q ..
  have mm': "mix_and_master demo_libs ?files ''vocal.wav'' [0, 0] ''out.wav''
      = (Inr ''out.wav'', ?files(''out.wav'' \<mapsto> [31128 / 32767, - 15564 / 32767]))"
    unfolding mm out' wr by simp
  show ?thesis
    using demo_mastered_mix p pos pn out [unfolded out'] mm' by simp
qed

lemma master_samples_total:
  assumes "mixed \<noteq> []"
  shows "\<exists>out. master_samples mixed = Inr out \<and> length out = length mixed"
  using assms
  by (simp add: master_samples_def np_max_abs_def Let_def np_int16_def np_clip_def
      peak_normalize_def)

lemma master_samples_empty: "master_samples [] = Inl ValueError"
  by (simp add: master_samples_def np_max_abs_def)

lemma add_zeros:
  "length b = n \<Longrightarrow> map2 (+) (map (\<lambda>x. x * 1.0) (replicate n (0::real))) b = b"
  by (induction b arbitrary: n) auto

lemma mastered_mix_of_silence:
  assumes load: "load_vocals L files vocal_path background_music = Inr (FloatArray loaded)"
    and ml: "match_lengths loaded background_music
               = (replicate (length background_music) 0, background_music)"
    and eq: "pedalboard L music_eq background_music SAMPLE_RATE = Inr ducked"
    and len: "length ducked = length background_music"
    and ms: "pedalboard L mastering (map (\<lambda>x. x * 0.35) ducked) SAMPLE_RATE = Inr mastered"
  shows "mastered_mix L files vocal_path background_music = Inr mastered"
proof -
  have sc: "apply_sidechain background_music (replicate (length background_music) 0) SAMPLE_RATE
      = Inr background_music"
    by (rule sidechain_of_silence) simp_all
  have add: "np_add (map (\<lambda>x. x * 1.0) (replicate (length background_music) 0))
        (map (\<lambda>x. x * 0.35) ducked) = Inr (map (\<lambda>x. x * 0.35) ducked)"
    unfolding np_add_def using len add_zeros [of "map (\<lambda>x. x * 0.35) ducked" "length background_music"]
    by simp
  show ?thesis
    unfolding mastered_mix_def Let_def load bind_err_Inr vocal_array.case ml prod.case sc eq add
    by (rule ms)
qed

text \<open>
  Claim C8, for what the code handles. A non-empty waveform of fewer than 1000 samples
  passes the timing transform unchanged, without a draw. With a backing track that has
  samples, and a vocal file that is absent or holds no sample (read as a floating-point
  or a 16-bit array), \<^verbatim>\<open>mix_and_master\<close> uses a zero vocal buffer of the backing
  track's length, the sidechain returns the backing track as it is, and, when the two
  effect boards return (the first a signal of the backing track's length, the second a
  signal with samples), the mix is what the mastering board returns for 0.35 times the
  equalised backing track; \<^verbatim>\<open>mix_and_master\<close> hands one 16-bit sample per sample of
  it to \<open>wavfile.write\<close> and returns the output path when the write does not raise.
\<close>

theorem zero_vocal_buffer:
  "(y \<noteq> [] \<and> length y < 1000 \<longrightarrow> apply_singing_timing L y SAMPLE_RATE g = (Inr y, g)) \<and>
   (background_music \<noteq> [] \<and>
    (files vocal_path = None \<or>
     (\<exists>file. files vocal_path = Some file \<and>
        (wavfile_read L file = Inr (FloatMono []) \<or>
         wavfile_read L file = Inr (IntMono Int16 [])))) \<and>
    pedalboard L music_eq background_music SAMPLE_RATE = Inr ducked \<and>
    length ducked = length background_music \<and>
    pedalboard L mastering (map (\<lambda>x. x * 0.35) ducked) SAMPLE_RATE = Inr mastered \<and>
    mastered \<noteq> [] \<longrightarrow>
      (\<exists>loaded. load_vocals L files vocal_path background_music = Inr (FloatArray loaded) \<and>
         match_lengths loaded background_music
           = (replicate (length background_music) 0, background_music)) \<and>
      apply_sidechain background_music (replicate (length background_music) 0) SAMPLE_RATE
        = Inr background_music \<and>
      mastered_mix L files vocal_path background_music = Inr mastered \<and>
      (\<exists>out. mix_samples L files vocal_path background_music = Inr out \<and>
         length out = length mastered \<and>
         mix_and_master L files vocal_path background_music output_path =
           (case wavfile_write L SAMPLE_RATE out (files output_path) of
              (None, file') \<Rightarrow> (Inr output_path, files(output_path := file'))
            | (Some e, file') \<Rightarrow> (Inl e, files(output_path := file')))))"
proof (intro conjI impI)
  assume "y \<noteq> [] \<and> length y < 1000"
  then show "apply_singing_timing L y SAMPLE_RATE g = (Inr y, g)"
    by (intro timing_short_waveform) simp_all
next
  assume H: "background_music \<noteq> [] \<and>
    (files vocal_path = None \<or>
     (\<exists>file. files vocal_path = Some file \<and>
        (wavfile_read L file = Inr (FloatMono []) \<or>
         wavfile_read L file = Inr (IntMono Int16 [])))) \<and>
    pedalboard L music_eq background_music SAMPLE_RATE = Inr ducked \<and>
    length ducked = length background_music \<and>
    pedalboard L mastering (map (\<lambda>x. x * 0.35) ducked) SAMPLE_RATE = Inr mastered \<and>
    mastered \<noteq> []"
  then have ne: "background_music \<noteq> []"
    and eq: "pedalboard L music_eq background_music SAMPLE_RATE = Inr ducked"
    and len: "length ducked = length background_music"
    and ms: "pedalboard L mastering (map (\<lambda>x. x * 0.35) ducked) SAMPLE_RATE = Inr mastered"
    and mne: "mastered \<noteq> []"
    by simp_all
  note D = H [THEN conjunct2, THEN conjunct1]
  have "\<exists>loaded. load_vocals L files vocal_path background_music = Inr (FloatArray loaded) \<and>
      match_lengths loaded background_music
        = (replicate (length background_music) 0, background_music)"
    using D
  proof (elim disjE exE conjE)
    assume absent: "files vocal_path = None"
    have "load_vocals L files vocal_path background_music
        = Inr (FloatArray (replicate (length background_music) 0))"
      by (simp add: load_vocals_def absent)
    moreover have "match_lengths (replicate (length background_music) (0::real)) background_music
        = (replicate (length background_music) 0, background_music)"
      by (simp add: match_lengths_def)
    ultimately show ?thesis by blast
  next
    fix vf
    assume present: "files vocal_path = Some vf" and rd: "wavfile_read L vf = Inr (FloatMono [])"
    have "load_vocals L files vocal_path background_music = Inr (FloatArray [])"
      by (simp add: load_vocals_def present rd)
    moreover have "match_lengths ([] :: real list) background_music
        = (replicate (length background_music) 0, background_music)"
      using ne by (simp add: match_lengths_def)
    ultimately show ?thesis by blast
  next
    fix vf
    assume present: "files vocal_path = Some vf" and rd: "wavfile_read L vf = Inr (IntMono Int16 [])"
    have "load_vocals L files vocal_path background_music = Inr (FloatArray [])"
      by (simp add: load_vocals_def present rd)
    moreover have "match_lengths ([] :: real list) background_music
        = (replicate (length background_music) 0, background_music)"
      using ne by (simp add: match_lengths_def)
    ultimately show ?thesis by blast
  qed
  then obtain loaded where
    load: "load_vocals L files vocal_path background_music = Inr (FloatArray loaded)" and
    ml: "match_lengths loaded background_music
           = (replicate (length background_music) 0, background_music)"
    by blast
  show "\<exists>loaded. load_vocals L files vocal_path background_music = Inr (FloatArray loaded) \<and>
      match_lengths loaded background_music
        = (replicate (length background_music) 0, background_music)"
    using load ml by blast
  show "apply_sidechain background_music (replicate (length background_music) 0) SAMPLE_RATE
      = Inr background_music"
    by (rule sidechain_of_silence) simp_all
  have mixed: "mastered_mix L files vocal_path background_music = Inr mastered"
    by (rule mastered_mix_of_silence [OF load ml eq len ms])
  then show "mastered_mix L files vocal_path background_music = Inr mastered" .
  obtain out where out: "master_samples mastered = Inr out" "length out = length mastered"
    using master_samples_total [OF mne] by blast
  have samples: "mix_samples L files vocal_path background_music = Inr out"
    unfolding mix_samples_def mixed bind_err_Inr by (rule out(1))
  have "mix_and_master L files vocal_path background_music output_path =
      (case wavfile_write L SAMPLE_RATE out (files output_path) of
         (None, file') \<Rightarrow> (Inr output_path, files(output_path := file'))
       | (Some e, file') \<Rightarrow> (Inl e, files(output_path := file')))"
    unfolding mix_and_master_def samples by simp
  then show "\<exists>out. mix_samples L files vocal_path background_music = Inr out \<and>
      length out = length mastered \<and>
      mix_and_master L files vocal_path background_music output_path =
        (case wavfile_write L SAMPLE_RATE out (files output_path) of
           (None, file') \<Rightarrow> (Inr output_path, files(output_path := file'))
         | (Some e, file') \<Rightarrow> (Inl e, files(output_path := file')))"
    using samples out(2) by blast
qed

theorem zero_vocal_buffer_witness:
  "[1 / 2, 1 / 4 :: real] \<noteq> [] \<and> length [1 / 2, 1 / 4 :: real] < 1000 \<and>
   apply_singing_timing demo_libs [1 / 2, 1 / 4] SAMPLE_RATE (sconst 0) =
     (Inr [1 / 2, 1 / 4], sconst 0) \<and>
   [1 / 2, - 1 / 4 :: real] \<noteq> [] \<and>
   (Map.empty :: real list fs) ''vocal.wav'' = None \<and>
   [''vocal.wav'' \<mapsto> ([] :: real list)] ''vocal.wav'' = Some [] \<and>
   wavfile_read demo_libs [] = Inr (FloatMono []) \<and>
   pedalboard demo_libs music_eq [1 / 2, - 1 / 4] SAMPLE_RATE = Inr [1 / 2, - 1 / 4] \<and>
   length [1 / 2, - 1 / 4 :: real] = length [1 / 2, - 1 / 4 :: real] \<and>
   pedalboard demo_libs mastering (map (\<lambda>x. x * 0.35) [1 / 2, - 1 / 4]) SAMPLE_RATE
     = Inr [7 / 40, - 7 / 80] \<and>
   [7 / 40, - 7 / 80 :: real] \<noteq> [] \<and>
   apply_sidechain [1 / 2, - 1 / 4] (replicate (length [1 / 2, - 1 / 4 :: real]) 0) SAMPLE_RATE
     = Inr [1 / 2, - 1 / 4] \<and>
   mastered_mix demo_libs Map.empty ''vocal.wav'' [1 / 2, - 1 / 4] = Inr [7 / 40, - 7 / 80] \<and>
   mastered_mix demo_libs [''vocal.wav'' \<mapsto> []] ''vocal.wav'' [1 / 2, - 1 / 4]
     = Inr [7 / 40, - 7 / 80] \<and>
   (\<exists>out. mix_samples demo_libs Map.empty ''vocal.wav'' [1 / 2, - 1 / 4] = Inr out \<and>
      length out = 2 \<and>
      mix_and_master demo_libs Map.empty ''vocal.wav'' [1 / 2, - 1 / 4] ''out.wav''
        = (Inr ''out.wav'', [''out.wav'' \<mapsto> map (\<lambda>w. real_of_int (sint w) / 32767) out]))"
proof -
  let ?bg = "[1 / 2, - 1 / 4 :: real]"
  let ?m = "[7 / 40, - 7 / 80 :: real]"
  let ?files = "[''vocal.wav'' \<mapsto> ([] :: real list)]"
  have a: "[1 / 2, 1 / 4 :: real] \<noteq> [] \<and> length [1 / 2, 1 / 4 :: real] < 1000" by simp
  have ne: "?bg \<noteq> []" by simp
  have absent: "(Map.empty :: real list fs) ''vocal.wav'' = None" by simp
  have present: "?files ''vocal.wav'' = Some []" by simp
  have rd: "wavfile_read demo_libs [] = Inr (FloatMono [])"
    by (simp add: demo_libs_def)
  have eq: "pedalboard demo_libs music_eq ?bg SAMPLE_RATE = Inr ?bg"
    by (simp add: demo_libs_def)
  have len: "length ?bg = length ?bg" ..
  have ms: "pedalboard demo_libs mastering (map (\<lambda>x. x * 0.35) ?bg) SAMPLE_RATE = Inr ?m"
    by (simp add: demo_libs_def)
  have mne: "?m \<noteq> []" by simp
  have l2: "length ?m = 2" by simp
  have wr: "wavfile_write demo_libs sr pcm old
      = (None, Some (map (\<lambda>w. real_of_int (sint w) / 32767) pcm))" for sr pcm old
    by (simp add: demo_libs_def)
  note T = zero_vocal_buffer [of "[1 / 2, 1 / 4]" demo_libs "sconst 0" ?bg _ "''vocal.wav''"
      ?bg ?m "''out.wav''"]
  have h1: "?bg \<noteq> [] \<and>
    ((Map.empty :: real list fs) ''vocal.wav'' = None \<or>
     (\<exists>file. (Map.empty :: real list fs) ''vocal.wav'' = Some file \<and>
        (wavfile_read demo_libs file = Inr (FloatMono []) \<or>
         wavfile_read demo_libs file = Inr (IntMono Int16 [])))) \<and>
    pedalboard demo_libs music_eq ?bg SAMPLE_RATE = Inr ?bg \<and>
    length ?bg = length ?bg \<and>
    pedalboard demo_libs mastering (map (\<lambda>x. x * 0.35) ?bg) SAMPLE_RATE = Inr ?m \<and>
    ?m \<noteq> []"
    using ne absent eq ms mne by blast
  have h2: "?bg \<noteq> [] \<and>
    (?files ''vocal.wav'' = None \<or>
     (\<exists>file. ?files ''vocal.wav'' = Some file \<and>
        (wavfile_read demo_libs file = Inr (FloatMono []) \<or>
         wavfile_read demo_libs file = Inr (IntMono Int16 [])))) \<and>
    pedalboard demo_libs music_eq ?bg SAMPLE_RATE = Inr ?bg \<and>
    length ?bg = length ?bg \<and>
    pedalboard demo_libs mastering (map (\<lambda>x. x * 0.35) ?bg) SAMPLE_RATE = Inr ?m \<and>
    ?m \<noteq> []"
    using ne present rd eq ms mne by blast
  from T [of Map.empty] a h1
  have t: "apply_singing_timing demo_libs [1 / 2, 1 / 4] SAMPLE_RATE (sconst 0) =
      (Inr [1 / 2, 1 / 4], sconst 0)"
    and sc: "apply_sidechain ?bg (replicate (length ?bg) 0) SAMPLE_RATE = Inr ?bg"
    and m1: "mastered_mix demo_libs Map.empty ''vocal.wav'' ?bg = Inr ?m"
    and ex: "\<exists>out. mix_samples demo_libs Map.empty ''vocal.wav'' ?bg = Inr out \<and>
      length out = length ?m \<and>
      mix_and_master demo_libs Map.empty ''vocal.wav'' ?bg ''out.wav'' =
        (case wavfile_write demo_libs SAMPLE_RATE out ((Map.empty :: real list fs) ''out.wav'') of
           (None, file') \<Rightarrow> (Inr ''out.wav'', Map.empty(''out.wav'' := file'))
         | (Some e, file') \<Rightarrow> (Inl e, Map.empty(''out.wav'' := file')))"
    by blast+
  from T [of ?files] h2
  have m2: "mastered_mix demo_libs ?files ''vocal.wav'' ?bg = Inr ?m"
    by blast
  from ex have ex': "\<exists>out. mix_samples demo_libs Map.empty ''vocal.wav'' ?bg = Inr out \<and>
      length out = 2 \<and>
      mix_and_master demo_libs Map.empty ''vocal.wav'' ?bg ''out.wav''
        = (Inr ''out.wav'', [''out.wav'' \<mapsto> map (\<lambda>w. real_of_int (sint w) / 32767) out])"
    unfolding wr l2 prod.case option.case by simp
  show ?thesis
    apply (intro conjI)
    apply (rule a [THEN conjunct1])
    apply (rule a [THEN conjunct2])
    apply (rule t)
    apply (rule ne)
    apply (rule absent)
    apply (rule present)
    apply (rule rd)
    apply (rule eq)
    apply (rule len)
    apply (rule ms)
    apply (rule mne)
    apply (rule sc)
    apply (rule m1)
    apply (rule m2)
    apply (rule ex')
    done
qed

text \<open>
  Claim C8 as stated, for a zero-length vocal: a zero-length waveform has no window, and
  \<open>np.concatenate\<close> of no array raises \<open>ValueError\<close> in the timing transform; and with
  a backing track of the zero-length vocal's duration, which has no sample,
  \<^verbatim>\<open>mix_and_master\<close> raises \<open>ValueError\<close> at \<open>np.max\<close> of the empty mix, whether the
  vocal file is absent or empty, and writes nothing.
\<close>

theorem zero_length_vocal_raises:
  "(\<forall>(L :: real list libs) g. apply_singing_timing L [] SAMPLE_RATE g = (Inl ValueError, g)) \<and>
   mix_samples demo_libs [''vocal.wav'' \<mapsto> []] ''vocal.wav'' [] = Inl ValueError \<and>
   mix_and_master demo_libs [''vocal.wav'' \<mapsto> []] ''vocal.wav'' [] ''out.wav''
     = (Inl ValueError, [''vocal.wav'' \<mapsto> []]) \<and>
   mix_samples demo_libs Map.empty ''vocal.wav'' [] = Inl ValueError \<and>
   mix_and_master demo_libs Map.empty ''vocal.wav'' [] ''out.wav'' = (Inl ValueError, Map.empty)"
proof -
  have pb: "pedalboard demo_libs board x sr = Inr x" for board x sr
    by (simp add: demo_libs_def)
  have sc: "apply_sidechain [] [] SAMPLE_RATE = Inr []"
    by (rule sidechain_of_short) simp_all
  have ml: "match_lengths ([] :: real list) [] = ([], [])"
    by (simp add: match_lengths_def)
  have load1: "load_vocals demo_libs [''vocal.wav'' \<mapsto> []] ''vocal.wav'' [] = Inr (FloatArray [])"
    by (simp add: load_vocals_def demo_libs_def)
  have load2: "load_vocals demo_libs Map.empty ''vocal.wav'' [] = Inr (FloatArray [])"
    by (simp add: load_vocals_def)
  have m1: "mastered_mix demo_libs [''vocal.wav'' \<mapsto> []] ''vocal.wav'' [] = Inr []"
    unfolding mastered_mix_def Let_def load1 bind_err_Inr vocal_array.case ml prod.case sc pb
    by (simp add: np_add_def)
  have m2: "mastered_mix demo_libs Map.empty ''vocal.wav'' [] = Inr []"
    unfolding mastered_mix_def Let_def load2 bind_err_Inr vocal_array.case ml prod.case sc pb
    by (simp add: np_add_def)
  have s1: "mix_samples demo_libs [''vocal.wav'' \<mapsto> []] ''vocal.wav'' [] = Inl ValueError"
    unfolding mix_samples_def m1 bind_err_Inr by (rule master_samples_empty)
  have s2: "mix_samples demo_libs Map.empty ''vocal.wav'' [] = Inl ValueError"
    unfolding mix_samples_def m2 bind_err_Inr by (rule master_samples_empty)
  have t: "\<forall>(L :: real list libs) g. apply_singing_timing L [] SAMPLE_RATE g = (Inl ValueError, g)"
    by (simp add: timing_empty_waveform)
  show ?thesis
    unfolding mix_and_master_def s1 s2 using t by simp
qed

section \<open>Properties of the arrangement mixer\<close>

lemma for_loop_total:
  assumes "P s"
    and "\<And>x s. x \<in> set xs \<Longrightarrow> P s \<Longrightarrow> \<exists>c. body s x = Inr c \<and> P (ctl_state c)"
  shows "\<exists>s'. for_loop body xs s = Inr s' \<and> P s'"
  using assms
proof (induction xs arbitrary: s)
  case Nil
  then show ?case by simp
next
  case (Cons x xs)
  obtain c where c: "body s x = Inr c" and pc: "P (ctl_state c)"
    using Cons.prems(2) [of x s] Cons.prems(1) by auto
  show ?case
  proof (cases c)
    case (Next s1)
    have "\<exists>s'. for_loop body xs s1 = Inr s' \<and> P s'"
      by (rule Cons.IH) (use pc Next Cons.prems(2) in auto)
    then show ?thesis using c Next by simp
  next
    case (Stop s1)
    then show ?thesis using c pc by simp
  qed
qed

lemma length_spliced:
  assumes "i \<le> j" "j \<le> length a" "length xs = j - i"
  shows "length (take i a @ xs @ drop j a) = length a"
  using assms by simp

lemma update_slice_length:
  assumes "update_slice f a i j vals = Inr a'"
  shows "length a' = length a"
proof -
  define i' where "i' = min i (length a)"
  define j' where "j' = max i' (min j (length a))"
  define old where "old = take (j' - i') (drop i' a)"
  have b: "i' \<le> j'" "j' \<le> length a" by (simp_all add: i'_def j'_def)
  have l: "length old = j' - i'" using b by (simp add: old_def)
  have u: "update_slice f a i j vals =
      (if length vals = j' - i' then Inr (take i' a @ map2 f old vals @ drop j' a)
       else if length vals = 1 then Inr (take i' a @ map (\<lambda>x. f x (hd vals)) old @ drop j' a)
       else Inl ValueError)"
    unfolding update_slice_def Let_def i'_def j'_def old_def ..
  show ?thesis
  proof (cases "length vals = j' - i'")
    case True
    then have "a' = take i' a @ map2 f old vals @ drop j' a"
      using assms unfolding u by simp
    moreover have "length (map2 f old vals) = j' - i'" using True l by simp
    ultimately show ?thesis using length_spliced [OF b] by blast
  next
    case False
    then have "a' = take i' a @ map (\<lambda>x. f x (hd vals)) old @ drop j' a"
      using assms unfolding u by (simp split: if_splits)
    moreover have "length (map (\<lambda>x. f x (hd vals)) old) = j' - i'" using l by simp
    ultimately show ?thesis using length_spliced [OF b] by blast
  qed
qed

lemma update_slice_fits:
  assumes "i \<le> j" "j \<le> length a" "length vals = j - i"
  shows "\<exists>a'. update_slice f a i j vals = Inr a' \<and> length a' = length a"
proof -
  have "min i (length a) = i" "max i (min j (length a)) = j" using assms by simp_all
  then have "\<exists>a'. update_slice f a i j vals = Inr a'"
    using assms(3) by (simp add: update_slice_def Let_def)
  then show ?thesis using update_slice_length by blast
qed

lemma place_note_fits:
  assumes "length track = n" "nat (py_int (real i * dur * real sr)) < n"
  shows "\<exists>t'. place_note n i dur sr gain note track = Inr t' \<and> length t' = n"
proof -
  let ?start = "nat (py_int (real i * dur * real sr))"
  let ?end = "min (?start + length note) n"
  show ?thesis
  proof (cases "int ?end - int ?start > 0")
    case True
    have "\<exists>a'. update_slice (+) track ?start ?end (map (\<lambda>x. x * gain) (take (?end - ?start) note))
        = Inr a' \<and> length a' = length track"
      by (rule update_slice_fits) (use assms True in auto)
    then show ?thesis unfolding place_note_def Let_def if_P [OF True] using assms(1) by simp
  next
    case False
    show ?thesis unfolding place_note_def Let_def if_not_P [OF False] using assms(1) by simp
  qed
qed

lemma start_below:
  assumes "\<not> real n \<le> x" "0 \<le> x"
  shows "nat (py_int x) < n"
proof -
  have "x < real n" using assms(1) by simp
  then have "\<lfloor>x\<rfloor> < int n" by (simp add: floor_less_iff)
  moreover have "0 \<le> \<lfloor>x\<rfloor>" using assms(2) by simp
  ultimately have "nat \<lfloor>x\<rfloor> < n" by linarith
  then show ?thesis using assms(2) by (simp add: py_int_def)
qed

lemma place_note_after_guard:
  assumes "length track = n" "\<not> real n \<le> real i * dur * real sr" "0 \<le> dur"
  shows "\<exists>t'. place_note n i dur sr gain note track = Inr t' \<and> length t' = n"
proof (rule place_note_fits [OF assms(1)])
  have "0 \<le> real i * dur * real sr" using assms(3) by simp
  with assms(2) show "nat (py_int (real i * dur * real sr)) < n" by (rule start_below)
qed

lemma melody_step_total:
  assumes "length melody = n"
  shows "\<exists>c. melody_step n 44100 melody p = Inr c \<and> length (ctl_state c) = n"
proof (cases "real n \<le> real (fst p) * 2.0 * real (44100::nat)")
  case True
  then show ?thesis using assms by (simp add: melody_step_def Let_def)
next
  case False
  obtain tone where tone: "generate_instrument (snd p) 2.0 44100 ''synth'' = Inr tone"
    using long_note_ok [of "2.0" "snd p" "''synth''"] by auto
  obtain t' where t': "place_note n (fst p) 2.0 44100 0.08 tone melody = Inr t'"
    and l: "length t' = n"
    using place_note_after_guard [OF assms False, of "0.08" tone] by auto
  have "melody_step n 44100 melody p = Inr (Next t')"
    unfolding melody_step_def Let_def if_not_P [OF False] tone bind_err_Inr t' ..
  then show ?thesis using l by simp
qed

lemma np_add_same_length:
  "length a = length b \<Longrightarrow> np_add a b = Inr (map2 (+) a b)"
  by (simp add: np_add_def)

lemma pad_note_44100:
  "\<exists>tone. generate_instrument freq 4.0 44100 ''pad'' = Inr tone \<and> length tone = 176400"
proof -
  have "nat \<lfloor>44100 * (4.0::real)\<rfloor> = 176400" by simp
  then show ?thesis using long_note_ok [of "4.0" freq "''pad''"] by auto
qed

lemma pad_step_total:
  assumes "length pad = n"
  shows "\<exists>c. pad_step n 44100 freqs pad i = Inr c \<and> length (ctl_state c) = n"
proof (cases "real n \<le> real i * 4.0 * real (44100::nat)")
  case True
  then show ?thesis using assms by (simp add: pad_step_def Let_def)
next
  case False
  obtain a where a: "generate_instrument (freqs ! (i mod length freqs)) 4.0 44100 ''pad'' = Inr a"
    and la: "length a = 176400"
    using pad_note_44100 by blast
  obtain b where b: "generate_instrument (freqs ! ((i + 2) mod length freqs)) 4.0 44100 ''pad'' = Inr b"
    and lb: "length b = 176400"
    using pad_note_44100 by blast
  have ab: "np_add a b = Inr (map2 (+) a b)"
    by (rule np_add_same_length) (simp add: la lb)
  obtain t' where t': "place_note n i 4.0 44100 0.05 (map (\<lambda>x. x * 0.5) (map2 (+) a b)) pad = Inr t'"
    and l: "length t' = n"
    using place_note_after_guard [OF assms False, of "0.05" "map (\<lambda>x. x * 0.5) (map2 (+) a b)"]
    by auto
  have "pad_step n 44100 freqs pad i = Inr (Next t')"
    unfolding pad_step_def Let_def if_not_P [OF False] a b bind_err_Inr ab t' ..
  then show ?thesis using l by simp
qed

lemma bass_step_total:
  assumes "length bass = n" "0.1 \<le> dur"
  shows "\<exists>c. bass_step n 44100 base dur bass i = Inr c \<and> length (ctl_state c) = n"
proof (cases "real n \<le> real i * dur * real (44100::nat)")
  case True
  then show ?thesis using assms by (simp add: bass_step_def)
next
  case False
  obtain tone where tone: "generate_instrument (base * 0.5) dur 44100 ''bass'' = Inr tone"
    using long_note_ok [OF assms(2), of "base * 0.5" "''bass''"] by auto
  have "0 \<le> dur" using assms(2) by simp
  from place_note_after_guard [OF assms(1) False this, of "0.12" tone]
  obtain t' where t': "place_note n i dur 44100 0.12 tone bass = Inr t'" and l: "length t' = n"
    by auto
  have "bass_step n 44100 base dur bass i = Inr (Next t')"
    unfolding bass_step_def if_not_P [OF False] tone bind_err_Inr t' ..
  then show ?thesis using l by simp
qed

lemma linspace_gap:
  assumes "bs < n"
  shows "\<exists>xs. np_linspace a b (int (min (bs + d) n) - int bs) = Inr xs \<and>
           length xs = min (bs + d) n - bs"
proof -
  have "bs \<le> min (bs + d) n" using assms by simp
  then have e: "int (min (bs + d) n) - int bs = int (min (bs + d) n - bs)" by simp
  obtain l where "np_linspace a b (int (min (bs + d) n - bs)) = Inr l"
    "length l = min (bs + d) n - bs"
    using np_linspace_nat [of a b "min (bs + d) n - bs"] by blast
  then show ?thesis unfolding e by blast
qed

lemma burst_fits:
  assumes "length track = n" "bs < n" "length burst = min (bs + d) n - bs"
  shows "\<exists>t'. update_slice (+) track bs (min (bs + d) n) burst = Inr t' \<and> length t' = n"
proof -
  have 1: "bs \<le> min (bs + d) n" using assms(2) by simp
  have 2: "min (bs + d) n \<le> length track" using assms(1) by simp
  from update_slice_fits [OF 1 2 assms(3), of "(+)"] show ?thesis
    unfolding assms(1) .
qed

lemma hit_finish:
  assumes "\<exists>t'. u = Inr t' \<and> length t' = n"
  shows "\<exists>k' g'. bind_err u (\<lambda>k. Inr (k, g1)) = Inr (k', g') \<and> length k' = n"
proof -
  from assms obtain t' where "u = Inr t'" "length t' = n" by blast
  then show ?thesis by simp
qed

lemma kick_hit_total:
  assumes "length kick = n"
  shows "\<exists>k' g'. kick_hit n sr bs (kick, g) = Inr (k', g') \<and> length k' = n"
proof (cases "bs < n")
  case False
  show ?thesis
    unfolding kick_hit_def Let_def fst_conv snd_conv if_not_P [OF False] using assms by blast
next
  case True
  let ?d = "nat (py_int (0.15 * real sr))"
  obtain kt where lin: "np_linspace 0 0.15 (int (min (bs + ?d) n) - int bs) = Inr kt"
    and lk: "length kt = min (bs + ?d) n - bs"
    using linspace_gap [OF True] by blast
  have lb: "length (map2 F kt (stake (length kt) g)) = min (bs + ?d) n - bs" for F :: "real \<Rightarrow> real \<Rightarrow> real"
    by (simp add: lk)
  show ?thesis
    unfolding kick_hit_def Let_def fst_conv snd_conv if_P [OF True] lin bind_err_Inr
      np_randn_def prod.case
    by (rule hit_finish, rule burst_fits [OF assms True], rule lb)
qed

lemma snare_hit_total:
  assumes "length snare = n"
  shows "\<exists>k' g'. snare_hit n sr i bs (snare, g) = Inr (k', g') \<and> length k' = n"
proof (cases "i mod 2 = 1 \<and> bs < n")
  case False
  show ?thesis
    unfolding snare_hit_def Let_def fst_conv snd_conv if_not_P [OF False] using assms by blast
next
  case True
  then have b: "bs < n" by simp
  let ?d = "nat (py_int (0.12 * real sr))"
  obtain st where lin: "np_linspace 0 0.12 (int (min (bs + ?d) n) - int bs) = Inr st"
    and lk: "length st = min (bs + ?d) n - bs"
    using linspace_gap [OF b] by blast
  have lb: "length (map2 F st (stake (length st) g)) = min (bs + ?d) n - bs" for F :: "real \<Rightarrow> real \<Rightarrow> real"
    by (simp add: lk)
  show ?thesis
    unfolding snare_hit_def Let_def fst_conv snd_conv if_P [OF True] lin bind_err_Inr
      np_randn_def prod.case
    by (rule hit_finish, rule burst_fits [OF assms b], rule lb)
qed

lemma hihat_hit_total:
  assumes "length hihat = n"
  shows "\<exists>k' g'. hihat_hit n sr bd bt (hihat, g) j = Inr (k', g') \<and> length k' = n"
proof -
  let ?hs = "nat (py_int ((bt + real j * bd / 2) * real sr))"
  show ?thesis
  proof (cases "?hs < n")
    case False
    show ?thesis
      unfolding hihat_hit_def Let_def fst_conv snd_conv if_not_P [OF False] using assms by blast
  next
    case True
    let ?d = "nat (py_int (0.05 * real sr))"
    obtain hht where lin: "np_linspace 0 0.05 (int (min (?hs + ?d) n) - int ?hs) = Inr hht"
      and lk: "length hht = min (?hs + ?d) n - ?hs"
      using linspace_gap [OF True] by blast
    have lb: "length (map2 F hht (stake (length hht) g)) = min (?hs + ?d) n - ?hs"
      for F :: "real \<Rightarrow> real \<Rightarrow> real"
      by (simp add: lk)
    show ?thesis
      unfolding hihat_hit_def Let_def fst_conv snd_conv if_P [OF True] lin bind_err_Inr
        np_randn_def prod.case
      by (rule hit_finish, rule burst_fits [OF assms True], rule lb)
  qed
qed

lemma hihat_pair_total:
  assumes "length hihat = n"
  shows "\<exists>k' g'. foldM_err (hihat_hit n sr bd bt) [0, 1] (hihat, g) = Inr (k', g') \<and> length k' = n"
proof -
  obtain h1 g1 where 1: "hihat_hit n sr bd bt (hihat, g) 0 = Inr (h1, g1)" and l1: "length h1 = n"
    using hihat_hit_total [OF assms] by blast
  obtain h2 g2 where 2: "hihat_hit n sr bd bt (h1, g1) 1 = Inr (h2, g2)" and l2: "length h2 = n"
    using hihat_hit_total [OF l1] by blast
  show ?thesis using 1 2 l2 by simp
qed

lemma drum_step_total:
  assumes "length kick = n" "length snare = n" "length hihat = n"
  shows "\<exists>k s h g'. drum_step n sr bd (kick, snare, hihat, g) p = Inr (Next (k, s, h, g')) \<and>
           length k = n \<and> length s = n \<and> length h = n"
proof -
  let ?bs = "nat (py_int (snd p * real sr))"
  obtain k g1 where k: "kick_hit n sr ?bs (kick, g) = Inr (k, g1)" and lk: "length k = n"
    using kick_hit_total [OF assms(1)] by blast
  obtain s g2 where s: "snare_hit n sr (fst p) ?bs (snare, g1) = Inr (s, g2)" and ls: "length s = n"
    using snare_hit_total [OF assms(2)] by blast
  obtain h g3 where h: "foldM_err (hihat_hit n sr bd (snd p)) [0, 1] (hihat, g2) = Inr (h, g3)"
    and lh: "length h = n"
    using hihat_pair_total [OF assms(3)] by blast
  have "drum_step n sr bd (kick, snare, hihat, g) p = Inr (Next (k, s, h, g3))"
    unfolding drum_step_def Let_def fst_conv snd_conv k bind_err_Inr prod.case s h ..
  then show ?thesis using lk ls lh by blast
qed

lemma fade_samples_44100: "nat (py_int (real (44100::nat) * 1.5)) = 66150"
  by (simp add: py_int_def)

lemma apply_fades_total:
  "\<exists>m'. apply_fades 44100 music = Inr m' \<and> length m' = length music"
proof (cases "length music > 2 * 66150")
  case False
  show ?thesis
    unfolding apply_fades_def Let_def fade_samples_44100 if_not_P [OF False] by blast
next
  case True
  obtain up where up: "np_linspace 0 1 (int 66150) = Inr up" and lu: "length up = 66150"
    using np_linspace_nat [of 0 1 66150] by blast
  obtain down where down: "np_linspace 1 0 (int 66150) = Inr down" and ld: "length down = 66150"
    using np_linspace_nat [of 1 0 66150] by blast
  have "\<exists>a'. update_slice (*) music 0 66150 up = Inr a' \<and> length a' = length music"
    by (rule update_slice_fits) (use True lu in simp_all)
  then obtain m1 where m1: "update_slice (*) music 0 66150 up = Inr m1"
    and l1: "length m1 = length music" by blast
  have "\<exists>a'. update_slice (*) m1 (length m1 - 66150) (length m1) down = Inr a' \<and>
      length a' = length m1"
    by (rule update_slice_fits) (use True l1 ld in simp_all)
  then obtain m2 where m2: "update_slice (*) m1 (length m1 - 66150) (length m1) down = Inr m2"
    and l2: "length m2 = length m1" by blast
  have "apply_fades 44100 music = Inr m2"
    unfolding apply_fades_def Let_def fade_samples_44100 if_P [OF True] up bind_err_Inr m1 down
    by (rule m2)
  then show ?thesis using l1 l2 by simp
qed

lemma melody_loop_total:
  "\<exists>melody. for_loop (melody_step n 44100) ps (replicate n 0) = Inr melody \<and> length melody = n"
  by (rule for_loop_total [where P = "\<lambda>s. length s = n"]) (simp, rule melody_step_total)

lemma pad_loop_total:
  "\<exists>pad. for_loop (pad_step n 44100 freqs) is (replicate n 0) = Inr pad \<and> length pad = n"
  by (rule for_loop_total [where P = "\<lambda>s. length s = n"]) (simp, rule pad_step_total)

lemma bass_loop_total:
  assumes "0.1 \<le> dur"
  shows "\<exists>bass. for_loop (bass_step n 44100 base dur) is (replicate n 0) = Inr bass \<and> length bass = n"
  by (rule for_loop_total [where P = "\<lambda>s. length s = n"])
     (simp, rule bass_step_total [OF _ assms])

lemma drum_loop_total:
  "\<exists>kick snare hihat g'.
     for_loop (drum_step n sr bd) ps (replicate n 0, replicate n 0, replicate n 0, g)
       = Inr (kick, snare, hihat, g') \<and>
     length kick = n \<and> length snare = n \<and> length hihat = n"
proof -
  let ?P = "\<lambda>s :: real list \<times> real list \<times> real list \<times> rng.
      length (fst s) = n \<and> length (fst (snd s)) = n \<and> length (fst (snd (snd s))) = n"
  have "\<exists>s'. for_loop (drum_step n sr bd) ps (replicate n 0, replicate n 0, replicate n 0, g) = Inr s'
      \<and> ?P s'"
  proof (rule for_loop_total [where P = ?P])
    show "?P (replicate n 0, replicate n 0, replicate n 0, g)" by simp
  next
    fix x and s :: "real list \<times> real list \<times> real list \<times> rng"
    assume P: "?P s"
    obtain k sn h g0 where s: "s = (k, sn, h, g0)" by (cases s)
    from P have "length k = n" "length sn = n" "length h = n" unfolding s by simp_all
    from drum_step_total [OF this, of sr bd g0 x]
    obtain k' s' h' g' where "drum_step n sr bd (k, sn, h, g0) x = Inr (Next (k', s', h', g'))"
      "length k' = n" "length s' = n" "length h' = n" by blast
    then show "\<exists>c. drum_step n sr bd s x = Inr c \<and> ?P (ctl_state c)"
      unfolding s by simp
  qed
  then obtain s' where f: "for_loop (drum_step n sr bd) ps
      (replicate n 0, replicate n 0, replicate n 0, g) = Inr s'" and P: "?P s'" by blast
  obtain k sn h g' where s': "s' = (k, sn, h, g')" by (cases s')
  show ?thesis using f P unfolding s' by simp
qed

lemma bass_duration_ok:
  assumes "0 < tempo" "tempo \<le> 1200"
  shows "(0.1::real) \<le> 60.0 / real_of_int tempo * 2"
proof -
  have "real_of_int tempo \<le> 1200" using assms(2) by simp
  moreover have "0 < real_of_int tempo" using assms(1) by simp
  ultimately have "0.1 * real_of_int tempo \<le> 120" by simp
  then have "0.1 \<le> 120 / real_of_int tempo"
    using \<open>0 < real_of_int tempo\<close> by (simp add: pos_le_divide_eq)
  then show ?thesis by simp
qed

lemma generate_background_music_total:
  assumes "0 \<le> duration_s" "0 < tempo_bpm" "tempo_bpm \<le> 1200"
    and pb: "\<forall>x. \<exists>out. pedalboard L music_board x SAMPLE_RATE = Inr out \<and> length out = length x"
  shows "\<exists>music g'. generate_background_music L duration_s tempo_bpm mood g = (Inr music, g') \<and>
           length music = nat \<lfloor>44100 * duration_s\<rfloor>"
proof -
  have nn: "0 \<le> real (44100::nat) * duration_s" using assms(1) by simp
  then have "0 \<le> py_int (real (44100::nat) * duration_s)" by (simp add: py_int_def)
  then obtain n where pi: "py_int (real (44100::nat) * duration_s) = int n"
    using nonneg_int_cases by blast
  have n_eq: "n = nat \<lfloor>44100 * duration_s\<rfloor>"
    using pi nn by (simp add: py_int_def)
  obtain t where t: "np_linspace 0 duration_s (int n) = Inr t"
    using np_linspace_nat [of 0 duration_s n] by blast
  have tempo: "tempo_bpm \<noteq> 0" using assms(2) by simp
  obtain b fs where r: "get_melody_freqs_for_mood (str_lower L) mood = (b, fs)"
    by (cases "get_melody_freqs_for_mood (str_lower L) mood")
  let ?bd = "60.0 / real_of_int tempo_bpm"
  let ?rep = "concat (replicate (ceil_count (duration_s / (real (length fs) * 2.0))) fs)"
  let ?beats = "map (\<lambda>k. real k * ?bd) [0..<ceil_count (duration_s / ?bd)]"
  obtain melody where melody: "for_loop (melody_step n 44100) (zip [0..<length ?rep] ?rep)
      (replicate n 0) = Inr melody" and lm: "length melody = n"
    using melody_loop_total by blast
  obtain pad where pad: "for_loop (pad_step n 44100 fs) [0..<ceil_count (duration_s / 4.0)]
      (replicate n 0) = Inr pad" and lp: "length pad = n"
    using pad_loop_total by blast
  obtain bass where bass: "for_loop (bass_step n 44100 b (?bd * 2))
      [0..<ceil_count (duration_s / (?bd * 2))] (replicate n 0) = Inr bass"
    and lb: "length bass = n"
    using bass_loop_total [OF bass_duration_ok [OF assms(2,3)]] by blast
  obtain kick snare hihat g' where drums: "for_loop (drum_step n 44100 ?bd)
      (zip [0..<length ?beats] ?beats) (replicate n 0, replicate n 0, replicate n 0, g)
      = Inr (kick, snare, hihat, g')"
    using drum_loop_total by blast
  let ?music = "map (\<lambda>k. melody ! k + pad ! k + bass ! k + kick ! k + snare ! k + hihat ! k) [0..<n]"
  obtain out where out: "pedalboard L music_board ?music SAMPLE_RATE = Inr out"
    and lo: "length out = length ?music"
    using pb by blast
  obtain m' where fades: "apply_fades 44100 out = Inr m'" and lf: "length m' = length out"
    using apply_fades_total by blast
  have out': "pedalboard L music_board ?music 44100 = Inr out"
    using out unfolding SAMPLE_RATE_def .
  have "generate_background_music L duration_s tempo_bpm mood g = (Inr m', g')"
    unfolding generate_background_music_def Let_def SAMPLE_RATE_def pi t sum.case
      if_not_P [OF tempo] r prod.case nat_int melody pad bass drums out' bind_err_Inr fades ..
  moreover have "length m' = nat \<lfloor>44100 * duration_s\<rfloor>"
    unfolding lf lo n_eq [symmetric] by simp
  ultimately show ?thesis by blast
qed

lemma note_below_release_raises:
  assumes "0 \<le> duration" "duration < 0.1"
  shows "generate_instrument freq duration 44100 ty = Inl ValueError"
proof -
  have nn: "0 \<le> py_int (real (44100::nat) * duration)"
    using assms(1) by (simp add: py_int_def)
  have "real (44100::nat) * duration < real_of_int 4410" using assms(2) by simp
  then have "py_int (real (44100::nat) * duration) < 4410" by (rule py_int_less) simp
  then have "nat (py_int (real (44100::nat) * duration)) < release_samples 44100"
    unfolding adsr_samples_44100 by simp
  then have "adsr_envelope 44100 (nat (py_int (real (44100::nat) * duration))) = Inl ValueError"
    by (rule adsr_too_short) (simp_all add: adsr_samples_44100)
  then show ?thesis
    using nn by (simp add: generate_instrument_samples)
qed

lemma negative_duration_raises:
  assumes "duration_s \<le> - 1"
  shows "generate_background_music L duration_s tempo_bpm mood g = (Inl ValueError, g)"
proof -
  have "real (44100::nat) * duration_s \<le> - 44100" using assms by simp
  then have "\<lceil>real (44100::nat) * duration_s\<rceil> \<le> - 44100" by (simp add: ceiling_le_iff)
  then have "py_int (real (44100::nat) * duration_s) < 0"
    using assms by (simp add: py_int_def)
  then have "np_linspace 0 duration_s (py_int (real (44100::nat) * duration_s)) = Inl ValueError"
    by (rule np_linspace_negative)
  then show ?thesis
    unfolding generate_background_music_def Let_def SAMPLE_RATE_def by simp
qed

lemma zero_tempo_raises:
  assumes "0 \<le> duration_s"
  shows "generate_background_music L duration_s 0 mood g = (Inl ZeroDivisionError, g)"
proof -
  have nn: "0 \<le> real (44100::nat) * duration_s" using assms(1) by simp
  then have "0 \<le> py_int (real (44100::nat) * duration_s)" by (simp add: py_int_def)
  then obtain n where pi: "py_int (real (44100::nat) * duration_s) = int n"
    using nonneg_int_cases by blast
  obtain t where t: "np_linspace 0 duration_s (int n) = Inr t"
    using np_linspace_nat [of 0 duration_s n] by blast
  show ?thesis
    unfolding generate_background_music_def Let_def SAMPLE_RATE_def pi t sum.case if_P [OF refl] ..
qed

lemma fast_tempo_raises:
  "generate_background_music L 4 1201 mood g = (Inl ValueError, g)"
proof -
  let ?n = "176400 :: nat"
  have pi: "py_int (real (44100::nat) * 4) = int ?n" by (simp add: py_int_def)
  obtain t where t: "np_linspace 0 4 (int ?n) = Inr t"
    using np_linspace_nat [of 0 4 ?n] by blast
  have tempo: "(1201::int) \<noteq> 0" by simp
  obtain b fs where r: "get_melody_freqs_for_mood (str_lower L) mood = (b, fs)"
    by (cases "get_melody_freqs_for_mood (str_lower L) mood")
  let ?bd = "60.0 / real_of_int 1201"
  let ?rep = "concat (replicate (ceil_count (4 / (real (length fs) * 2.0))) fs)"
  obtain melody where melody: "for_loop (melody_step ?n 44100) (zip [0..<length ?rep] ?rep)
      (replicate ?n 0) = Inr melody"
    using melody_loop_total by blast
  obtain pad where pad: "for_loop (pad_step ?n 44100 fs) [0..<ceil_count (4 / 4.0)]
      (replicate ?n 0) = Inr pad"
    using pad_loop_total by blast
  have "\<lceil>4 / (?bd * 2) :: real\<rceil> = 41" by (simp add: ceiling_eq_iff)
  then have cnt: "ceil_count (4 / (?bd * 2)) = Suc 40" by (simp add: ceil_count_def)
  have short: "generate_instrument (b * 0.5) (?bd * 2) 44100 ''bass'' = Inl ValueError"
    by (rule note_below_release_raises) simp_all
  have guard: "\<not> real ?n \<le> real (0::nat) * (?bd * 2) * real (44100::nat)" by simp
  have step: "bass_step ?n 44100 b (?bd * 2) (replicate ?n 0) 0 = Inl ValueError"
    unfolding bass_step_def if_not_P [OF guard] short bind_err_Inl ..
  have bass: "for_loop (bass_step ?n 44100 b (?bd * 2)) [0..<ceil_count (4 / (?bd * 2))]
      (replicate ?n 0) = Inl ValueError"
    unfolding cnt upt_conv_Cons [OF zero_less_Suc] for_loop.simps step sum.case ..
  show ?thesis
    unfolding generate_background_music_def Let_def SAMPLE_RATE_def pi t sum.case
      if_not_P [OF tempo] r prod.case nat_int melody pad bass ..
qed





end
